theory Spec2Isabelle
  imports Complex_Main "HOL-Library.Word"
begin

unbundle bit_operations_syntax

section \<open>Values shared by the whole model\<close>

text \<open>
  Strings are lists of 8-bit characters (the UTF-8 bytes of the text). A thrown
  \<open>Error\<close> is a value carrying its message. JSON values (\<open>unknown\<close> in the
  TypeScript source) are a datatype; a number is a real.
\<close>

datatype js_error = Error (message: string)

datatype json =
    JNull
  | JBool bool
  | JNum real
  | JStr string
  | JArr "json list"
  | JObj "(string \<times> json) list"

text \<open>JavaScript truthiness of a JSON value, as \<open>if (x)\<close> and \<open>!x\<close> test it.\<close>

fun truthy :: "json \<Rightarrow> bool" where
  "truthy JNull = False"
| "truthy (JBool b) = b"
| "truthy (JNum n) = (n \<noteq> 0)"
| "truthy (JStr s) = (s \<noteq> [])"
| "truthy (JArr xs) = True"
| "truthy (JObj kvs) = True"

text \<open>Truthiness of an optional string (\<open>undefined\<close>/\<open>null\<close> is \<open>None\<close>).\<close>

fun truthy_str :: "string option \<Rightarrow> bool" where
  "truthy_str None = False"
| "truthy_str (Some s) = (s \<noteq> [])"

text \<open>\<open>a ?? b\<close> on optional values.\<close>

fun nullish :: "'a option \<Rightarrow> 'a option \<Rightarrow> 'a option" where
  "nullish (Some a) b = Some a"
| "nullish None b = b"

section \<open>The relational state (migrations/0000\_init.sql, lib/db/client)\<close>

text \<open>
  One record per table row, the fields prefixed by the table. Timestamps
  (\<open>datetime('now')\<close>) are seconds. Columns that hold \<open>JSON.stringify\<close> output hold
  the value that was serialised.
\<close>

record DBUser =
  u_id :: string
  u_access_sub :: string
  u_email :: "string option"
  u_name :: "string option"
  u_created_at :: nat

record DBProject =
  p_id :: string
  p_user_id :: string
  p_title :: "string option"
  p_topic :: "string option"
  p_target_length :: "int option"
  p_status :: string
  p_created_at :: nat
  p_updated_at :: nat

record DBProjectVersion =
  v_id :: string
  v_project_id :: string
  v_version :: int
  v_script :: json
  v_outline :: json
  v_seo :: json
  v_generated_with :: "json option"
  v_created_at :: nat

record DBAsset =
  a_id :: string
  a_project_id :: string
  a_type :: string
  a_label :: "string option"
  a_r2_key :: string
  a_mime_type :: "string option"
  a_size_bytes :: "nat option"
  a_created_at :: nat

text \<open>The request bodies, as the route files declare them (absent fields are \<open>None\<close>).\<close>

record ScriptRequestBody =
  topic :: "string option"
  persona :: "string option"
  lengthMinutes :: "real option"
  language :: "string option"
  projectId :: "string option"
  regenerate :: "bool option"

record SectionInput =
  s_id :: "string option"
  s_heading :: "string option"
  s_text :: "string option"

record TtsRequestBody =
  t_projectId :: "string option"
  t_sections :: "SectionInput list option"
  t_voice :: "json option"
  t_audioConfig :: "json option"

record ImageRequestBody =
  i_projectId :: "string option"
  i_prompt :: "string option"
  i_style :: "string option"
  i_aspectRatio :: "string option"
  i_label :: "string option"

datatype job_payload =
    ScriptPayload ScriptRequestBody
  | TtsPayload TtsRequestBody
  | ImagePayload ImageRequestBody

record DBGenerationJob =
  j_id :: string
  j_project_id :: string
  j_job_type :: string
  j_status :: string
  j_payload :: job_payload
  j_error :: "string option"
  j_created_at :: nat
  j_updated_at :: nat

record db =
  users :: "DBUser list"
  projects :: "DBProject list"
  project_versions :: "DBProjectVersion list"
  assets :: "DBAsset list"
  generation_jobs :: "DBGenerationJob list"

text \<open>The write statements a request executed, in order (a ghost journal).\<close>

datatype stmt =
    InsertUser DBUser
  | UpdateUser string "string option" "string option"
  | InsertProject DBProject
  | UpdateProject string "string option" "string option" "string option"
  | InsertVersion DBProjectVersion
  | InsertJob DBGenerationJob
  | UpdateJob string string "string option"
  | InsertAsset DBAsset


section \<open>The world a request runs in\<close>

type_synonym byte = "8 word"

record r2_object =
  o_body :: "byte list"
  o_contentType :: string

record GenerateScriptParams =
  g_topic :: string
  g_persona :: "string option"
  g_lengthMinutes :: "real option"
  g_language :: "string option"

record kv_entry =
  kv_value :: json
  kv_expires :: nat

text \<open>
  \<open>DB\<close>, \<open>CACHE\<close> and \<open>MEDIA_BUCKET\<close> are the bindings of \<open>getEnv()\<close>. The other
  fields are ghost state: how many UUIDs were drawn, the journal of executed write
  statements and the calls made to the script provider.
\<close>

record world =
  DB :: db
  CACHE :: "(string \<times> kv_entry) list"
  MEDIA_BUCKET :: "(string \<times> r2_object) list"
  uuid_draws :: nat
  journal :: "stmt list"
  script_calls :: "GenerateScriptParams list"

record TtsParams =
  tp_text :: string
  tp_voice :: "json option"
  tp_audioConfig :: "json option"

record TtsResult =
  audio :: "byte list"
  mimeType :: string

record DeepAiImageParams =
  dp_prompt :: string
  dp_style :: "string option"
  dp_aspectRatio :: "string option"

record image_response =
  ir_content_type :: "string option"
  ir_body :: "byte list"

text \<open>
  What a request cannot compute itself: the clock, \<open>crypto.randomUUID()\<close> (the
  n-th draw), the \<open>sha256\<close> helper of lib/utils/hash and \<open>JSON.stringify\<close> on the
  cache base, SQLite's text form of a number bound to a TEXT column, the
  \<open>GEMINI_MODEL\<close> variable, whether an R2 write succeeds, and the answers of the
  three external providers (an error is the exception the call throws).
\<close>

record env =
  now :: nat
  randomUUID :: "nat \<Rightarrow> string"
  sha256 :: "string \<Rightarrow> string"
  JSON_stringify :: "json \<Rightarrow> string"
  number_text :: "real \<Rightarrow> string"
  GEMINI_MODEL :: "string option"
  r2_put_ok :: "string \<Rightarrow> bool"
  gemini_fetch :: "GenerateScriptParams \<Rightarrow> js_error + json"
  google_tts :: "TtsParams \<Rightarrow> js_error + byte list"
  deepai :: "DeepAiImageParams \<Rightarrow> js_error + image_response"

text \<open>
  An awaited call: it reads the state and returns a value or throws, together with the
  state it leaves behind (what was written before a throw stays written). For the
  routes the state is the world above.
\<close>

type_synonym ('s, 'a) eff = "'s \<Rightarrow> (js_error + 'a) \<times> 's"

type_synonym 'a io = "(world, 'a) eff"

definition return :: "'a \<Rightarrow> ('s, 'a) eff" where
  "return a w = (Inr a, w)"

definition throw :: "js_error \<Rightarrow> ('s, 'a) eff" where
  "throw e w = (Inl e, w)"

definition and_then :: "('s, 'a) eff \<Rightarrow> ('a \<Rightarrow> ('s, 'b) eff) \<Rightarrow> ('s, 'b) eff" where
  "and_then m f w = (case m w of (Inl e, w') \<Rightarrow> (Inl e, w') | (Inr a, w') \<Rightarrow> f a w')"

definition try_catch :: "('s, 'a) eff \<Rightarrow> (js_error \<Rightarrow> ('s, 'a) eff) \<Rightarrow> ('s, 'a) eff" where
  "try_catch m h w = (case m w of (Inl e, w') \<Rightarrow> h e w' | (Inr a, w') \<Rightarrow> (Inr a, w'))"

definition crypto_randomUUID :: "env \<Rightarrow> string io" where
  "crypto_randomUUID e w = (Inr (randomUUID e (uuid_draws w)), w\<lparr>uuid_draws := Suc (uuid_draws w)\<rparr>)"

text \<open>
  A D1 statement: it fails only by a constraint of the schema, and a statement that ran
  is appended to the journal.
\<close>

definition run_stmt :: "stmt \<Rightarrow> (db \<Rightarrow> js_error + db) \<Rightarrow> unit io" where
  "run_stmt s f w =
     (case f (DB w) of
        Inl e \<Rightarrow> (Inl e, w)
      | Inr d \<Rightarrow> (Inr (), w\<lparr>DB := d, journal := journal w @ [s]\<rparr>))"

subsection \<open>The statements, with the constraints of the schema\<close>

definition sql_insert_user :: "DBUser \<Rightarrow> db \<Rightarrow> js_error + db" where
  "sql_insert_user u d =
     (if u_id u \<in> set (map u_id (users d)) then
        Inl (Error ''UNIQUE constraint failed: users.id'')
      else if u_access_sub u \<in> set (map u_access_sub (users d)) then
        Inl (Error ''UNIQUE constraint failed: users.access_sub'')
      else Inr (d\<lparr>users := users d @ [u]\<rparr>))"

text \<open>\<open>coalesce(?, column)\<close>: the bound value unless it is NULL.\<close>

fun coalesce :: "'a option \<Rightarrow> 'a option \<Rightarrow> 'a option" where
  "coalesce (Some a) b = Some a"
| "coalesce None b = b"

definition sql_update_user :: "string \<Rightarrow> string option \<Rightarrow> string option \<Rightarrow> db \<Rightarrow> js_error + db" where
  "sql_update_user uid em nm d =
     Inr (d\<lparr>users := map (\<lambda>u. if u_id u = uid
                 then u\<lparr>u_email := coalesce em (u_email u), u_name := coalesce nm (u_name u)\<rparr>
                 else u) (users d)\<rparr>)"

definition sql_insert_project :: "DBProject \<Rightarrow> db \<Rightarrow> js_error + db" where
  "sql_insert_project p d =
     (if p_id p \<in> set (map p_id (projects d)) then
        Inl (Error ''UNIQUE constraint failed: projects.id'')
      else if p_user_id p \<notin> set (map u_id (users d)) then
        Inl (Error ''FOREIGN KEY constraint failed'')
      else Inr (d\<lparr>projects := projects d @ [p]\<rparr>))"

definition sql_update_project ::
  "nat \<Rightarrow> string \<Rightarrow> string option \<Rightarrow> string option \<Rightarrow> string option \<Rightarrow> db \<Rightarrow> js_error + db" where
  "sql_update_project t pid ti tp st d =
     Inr (d\<lparr>projects := map (\<lambda>p. if p_id p = pid
                 then p\<lparr>p_title := coalesce ti (p_title p),
                        p_topic := coalesce tp (p_topic p),
                        p_status := (case st of Some s \<Rightarrow> s | None \<Rightarrow> p_status p),
                        p_updated_at := t\<rparr>
                 else p) (projects d)\<rparr>)"

definition sql_insert_version :: "DBProjectVersion \<Rightarrow> db \<Rightarrow> js_error + db" where
  "sql_insert_version v d =
     (if v_id v \<in> set (map v_id (project_versions d)) then
        Inl (Error ''UNIQUE constraint failed: project_versions.id'')
      else if (v_project_id v, v_version v)
              \<in> set (map (\<lambda>r. (v_project_id r, v_version r)) (project_versions d)) then
        Inl (Error ''UNIQUE constraint failed: project_versions.project_id, project_versions.version'')
      else if v_project_id v \<notin> set (map p_id (projects d)) then
        Inl (Error ''FOREIGN KEY constraint failed'')
      else Inr (d\<lparr>project_versions := project_versions d @ [v]\<rparr>))"

definition sql_insert_job :: "DBGenerationJob \<Rightarrow> db \<Rightarrow> js_error + db" where
  "sql_insert_job j d =
     (if j_id j \<in> set (map j_id (generation_jobs d)) then
        Inl (Error ''UNIQUE constraint failed: generation_jobs.id'')
      else if j_project_id j \<notin> set (map p_id (projects d)) then
        Inl (Error ''FOREIGN KEY constraint failed'')
      else Inr (d\<lparr>generation_jobs := generation_jobs d @ [j]\<rparr>))"

definition sql_update_job :: "nat \<Rightarrow> string \<Rightarrow> string \<Rightarrow> string option \<Rightarrow> db \<Rightarrow> js_error + db" where
  "sql_update_job t jid st er d =
     Inr (d\<lparr>generation_jobs := map (\<lambda>j. if j_id j = jid
                 then j\<lparr>j_status := st, j_error := er, j_updated_at := t\<rparr>
                 else j) (generation_jobs d)\<rparr>)"

definition sql_insert_asset :: "DBAsset \<Rightarrow> db \<Rightarrow> js_error + db" where
  "sql_insert_asset a d =
     (if a_id a \<in> set (map a_id (assets d)) then
        Inl (Error ''UNIQUE constraint failed: assets.id'')
      else if a_project_id a \<notin> set (map p_id (projects d)) then
        Inl (Error ''FOREIGN KEY constraint failed'')
      else Inr (d\<lparr>assets := assets d @ [a]\<rparr>))"


subsection \<open>lib/db/client\<close>

text \<open>\<open>.first()\<close> of a SELECT with an equality condition: the first matching row.\<close>

definition select_user_by_sub :: "string \<Rightarrow> db \<Rightarrow> DBUser option" where
  "select_user_by_sub sub d = find (\<lambda>u. u_access_sub u = sub) (users d)"

definition select_user_by_id :: "string \<Rightarrow> db \<Rightarrow> DBUser option" where
  "select_user_by_id uid d = find (\<lambda>u. u_id u = uid) (users d)"

definition ensureUser :: "env \<Rightarrow> string \<Rightarrow> string option \<Rightarrow> string option \<Rightarrow> DBUser io" where
  "ensureUser e accessSub email name w =
     (case select_user_by_sub accessSub (DB w) of
        Some existing \<Rightarrow>
          if truthy_str email \<or> truthy_str name then
            and_then (run_stmt (UpdateUser (u_id existing) email name)
                        (sql_update_user (u_id existing) email name))
              (\<lambda>_. return (existing\<lparr>u_email := nullish email (u_email existing),
                                     u_name := nullish name (u_name existing)\<rparr>)) w
          else return existing w
      | None \<Rightarrow>
          and_then (crypto_randomUUID e) (\<lambda>uid.
            let row = \<lparr>u_id = uid, u_access_sub = accessSub, u_email = email, u_name = name,
                       u_created_at = now e\<rparr> in
            and_then (run_stmt (InsertUser row) (sql_insert_user row)) (\<lambda>_ w1.
              case select_user_by_id uid (DB w1) of
                None \<Rightarrow> throw (Error ''Failed to insert user'') w1
              | Some inserted \<Rightarrow> return inserted w1)) w)"

definition getProjectById :: "string \<Rightarrow> db \<Rightarrow> DBProject option" where
  "getProjectById pid d = find (\<lambda>p. p_id p = pid) (projects d)"

definition createProject ::
  "env \<Rightarrow> string \<Rightarrow> string option \<Rightarrow> string option \<Rightarrow> int option \<Rightarrow> DBProject io" where
  "createProject e userId title tpc targetLength =
     and_then (crypto_randomUUID e) (\<lambda>pid.
       let row = \<lparr>p_id = pid, p_user_id = userId, p_title = title, p_topic = tpc,
                  p_target_length = targetLength, p_status = ''draft'',
                  p_created_at = now e, p_updated_at = now e\<rparr> in
       and_then (run_stmt (InsertProject row) (sql_insert_project row)) (\<lambda>_ w1.
         case getProjectById pid (DB w1) of
           None \<Rightarrow> throw (Error ''Failed to create project'') w1
         | Some project \<Rightarrow> return project w1))"

definition updateProjectMetadata ::
  "env \<Rightarrow> string \<Rightarrow> string option \<Rightarrow> string option \<Rightarrow> string option \<Rightarrow> unit io" where
  "updateProjectMetadata e pid title tpc st =
     run_stmt (UpdateProject pid title tpc st) (sql_update_project (now e) pid title tpc st)"

text \<open>
  A \<open>number\<close> is an IEEE 754 double. An integer read from an INTEGER column becomes the
  nearest double, ties to the even significand, and so does the sum of two numbers.
  Integers of magnitude up to \<open>2 ^ 53\<close> are doubles; above, \<open>double_exponent\<close> is the
  number of low bits a significand of 53 bits cannot hold. (An INTEGER column holds 64
  bits, far below the largest double.)
\<close>

function double_exponent :: "nat \<Rightarrow> nat" where
  "double_exponent n = (if n < 2 ^ 53 then 0 else Suc (double_exponent (n div 2)))"
  by pat_completeness auto
termination
  by (relation "measure id") auto

declare double_exponent.simps [simp del]

definition round_double :: "nat \<Rightarrow> nat" where
  "round_double n =
     (let u = 2 ^ double_exponent n; q = n div u; r = n mod u in
      if 2 * r < u \<or> (2 * r = u \<and> even q) then q * u else (q + 1) * u)"

definition js_number :: "int \<Rightarrow> int" where
  "js_number i = sgn i * int (round_double (nat \<bar>i\<bar>))"

definition js_plus :: "int \<Rightarrow> int \<Rightarrow> int" where
  "js_plus a b = js_number (a + b)"

text \<open>
  \<open>SELECT version FROM project_versions WHERE project_id = ? ORDER BY version DESC
  LIMIT 1\<close>: the greatest version among the project's rows, if it has any.
\<close>

definition select_last_version :: "string \<Rightarrow> db \<Rightarrow> int option" where
  "select_last_version pid d =
     (case rev (sort (map v_version (filter (\<lambda>r. v_project_id r = pid) (project_versions d)))) of
        [] \<Rightarrow> None
      | v # _ \<Rightarrow> Some v)"

definition select_version_by_id :: "string \<Rightarrow> db \<Rightarrow> DBProjectVersion option" where
  "select_version_by_id vid d = find (\<lambda>r. v_id r = vid) (project_versions d)"

text \<open>
  \<open>outline\<close>, \<open>script\<close> and \<open>seo\<close> are \<open>unknown\<close>: \<open>JSON.stringify(undefined)\<close> is
  \<open>undefined\<close>, which D1 refuses to bind. The optional parameter is named
  \<open>generatedMetadata\<close>; it is serialised only when truthy.
\<close>

definition insertProjectVersion ::
  "env \<Rightarrow> string \<Rightarrow> json option \<Rightarrow> json option \<Rightarrow> json option \<Rightarrow> json option
     \<Rightarrow> DBProjectVersion io" where
  "insertProjectVersion e pid outline script seo generatedMetadata w =
     (let lastVersion = select_last_version pid (DB w);
          nextVersion = js_plus (case lastVersion of Some v \<Rightarrow> js_number v | None \<Rightarrow> 0) 1 in
      and_then (crypto_randomUUID e) (\<lambda>vid.
        case (script, outline, seo) of
          (Some sc, Some ol, Some se) \<Rightarrow>
            (let row = \<lparr>v_id = vid, v_project_id = pid, v_version = nextVersion,
                        v_script = sc, v_outline = ol, v_seo = se,
                        v_generated_with =
                          (case generatedMetadata of
                             Some m \<Rightarrow> if truthy m then Some m else None
                           | None \<Rightarrow> None),
                        v_created_at = now e\<rparr> in
             and_then (run_stmt (InsertVersion row) (sql_insert_version row)) (\<lambda>_ w1.
               case select_version_by_id vid (DB w1) of
                 None \<Rightarrow> throw (Error ''Failed to insert project version'') w1
               | Some inserted \<Rightarrow> return inserted w1))
        | _ \<Rightarrow> throw (Error ''D1_TYPE_ERROR: Type undefined not supported for value'')) w)"

definition select_job_by_id :: "string \<Rightarrow> db \<Rightarrow> DBGenerationJob option" where
  "select_job_by_id jid d = find (\<lambda>j. j_id j = jid) (generation_jobs d)"

definition insertGenerationJob ::
  "env \<Rightarrow> string \<Rightarrow> string \<Rightarrow> string option \<Rightarrow> job_payload \<Rightarrow> DBGenerationJob io" where
  "insertGenerationJob e pid jobType st payload =
     and_then (crypto_randomUUID e) (\<lambda>jid.
       let row = \<lparr>j_id = jid, j_project_id = pid, j_job_type = jobType,
                  j_status = (case st of Some s \<Rightarrow> s | None \<Rightarrow> ''queued''),
                  j_payload = payload, j_error = None,
                  j_created_at = now e, j_updated_at = now e\<rparr> in
       and_then (run_stmt (InsertJob row) (sql_insert_job row)) (\<lambda>_ w1.
         case select_job_by_id jid (DB w1) of
           None \<Rightarrow> throw (Error ''Failed to insert generation job'') w1
         | Some job \<Rightarrow> return job w1))"

definition updateGenerationJobStatus :: "env \<Rightarrow> string \<Rightarrow> string \<Rightarrow> string option \<Rightarrow> unit io" where
  "updateGenerationJobStatus e jid st er =
     run_stmt (UpdateJob jid st er) (sql_update_job (now e) jid st er)"

definition select_asset_by_id :: "string \<Rightarrow> db \<Rightarrow> DBAsset option" where
  "select_asset_by_id aid d = find (\<lambda>a. a_id a = aid) (assets d)"

definition insertAsset ::
  "env \<Rightarrow> string \<Rightarrow> string \<Rightarrow> string option \<Rightarrow> string \<Rightarrow> string option \<Rightarrow> nat option \<Rightarrow> DBAsset io" where
  "insertAsset e pid ty label r2Key mime sizeBytes =
     and_then (crypto_randomUUID e) (\<lambda>aid.
       let row = \<lparr>a_id = aid, a_project_id = pid, a_type = ty, a_label = label,
                  a_r2_key = r2Key, a_mime_type = mime, a_size_bytes = sizeBytes,
                  a_created_at = now e\<rparr> in
       and_then (run_stmt (InsertAsset row) (sql_insert_asset row)) (\<lambda>_ w1.
         case select_asset_by_id aid (DB w1) of
           None \<Rightarrow> throw (Error ''Failed to insert asset'') w1
         | Some asset \<Rightarrow> return asset w1))"

section \<open>The generation routes\<close>

record tts_asset =
  ta_assetId :: string
  ta_key :: string
  ta_heading :: "string option"

datatype response_body =
    ErrorBody string
  | ScriptResult string bool json
  | ImageResult string string string
  | TtsAssets string "tts_asset list"

record response =
  status :: nat
  body :: response_body

text \<open>
  What \<open>request.json()\<close> gives: it throws on a body that is not JSON; the body
  \<open>null\<close> parses, and reading a property of it throws a TypeError; any other body is
  read at the declared type of the route.
\<close>

datatype 'b parsed_body = InvalidJson | NullJson | Parsed 'b

record 'b request =
  x_user_sub :: "string option"
  x_user_email :: "string option"
  x_user_name :: "string option"
  json_body :: "'b parsed_body"

definition json_response :: "nat \<Rightarrow> response_body \<Rightarrow> response" where
  "json_response st b = \<lparr>status = st, body = b\<rparr>"

definition unauthorized :: "string \<Rightarrow> response" where
  "unauthorized msg = json_response 401 (ErrorBody msg)"

definition badRequest :: "string \<Rightarrow> response" where
  "badRequest msg = json_response 400 (ErrorBody msg)"

definition forbidden :: "string \<Rightarrow> response" where
  "forbidden msg = json_response 403 (ErrorBody msg)"

subsection \<open>lib/ai/gemini\<close>

text \<open>Reading a property of a parsed JSON value; \<open>None\<close> is \<open>undefined\<close>.\<close>

fun js_prop :: "json \<Rightarrow> string \<Rightarrow> json option" where
  "js_prop (JObj kvs) k = map_of kvs k"
| "js_prop j k = None"

definition prop_truthy :: "json \<Rightarrow> string \<Rightarrow> bool" where
  "prop_truthy j k = (case js_prop j k of Some v \<Rightarrow> truthy v | None \<Rightarrow> False)"

text \<open>
  \<open>gemini_fetch\<close> stands for everything up to \<open>JSON.parse(text)\<close>: the required API
  key, the request, the status check and the extraction of the text part. The
  completeness check and the rewrapped error are parseGeminiResponse's. Every call is
  recorded in \<open>script_calls\<close>.
\<close>

definition generateYoutubeScript :: "env \<Rightarrow> GenerateScriptParams \<Rightarrow> json io" where
  "generateYoutubeScript e params w =
     (let w1 = w\<lparr>script_calls := script_calls w @ [params]\<rparr> in
      case gemini_fetch e params of
        Inl err \<Rightarrow> throw err w1
      | Inr parsed \<Rightarrow>
          if parsed = JNull then
            throw (Error ''Failed to parse Gemini JSON: Cannot read properties of null'') w1
          else if \<not> prop_truthy parsed ''outline'' \<or> \<not> prop_truthy parsed ''sections''
                  \<or> \<not> prop_truthy parsed ''seo'' \<or> \<not> prop_truthy parsed ''thumbnailIdeas'' then
            throw (Error ''Failed to parse Gemini JSON: Gemini response incomplete'') w1
          else return parsed w1)"

subsection \<open>POST /api/generate/script\<close>

text \<open>\<open>env.CACHE.get(key, { type: "json" })\<close>: the stored value while the entry lives.\<close>

definition CACHE_get :: "env \<Rightarrow> string \<Rightarrow> json option io" where
  "CACHE_get e k w =
     (case map_of (CACHE w) k of
        Some ent \<Rightarrow> if now e < kv_expires ent then return (Some (kv_value ent)) w else return None w
      | None \<Rightarrow> return None w)"

definition CACHE_put :: "env \<Rightarrow> string \<Rightarrow> json \<Rightarrow> nat \<Rightarrow> unit io" where
  "CACHE_put e k v ttl w =
     (Inr (), w\<lparr>CACHE := (k, \<lparr>kv_value = v, kv_expires = now e + ttl\<rparr>) # CACHE w\<rparr>)"

definition json_of_opt_str :: "string option \<Rightarrow> json" where
  "json_of_opt_str s = (case s of Some x \<Rightarrow> JStr x | None \<Rightarrow> JNull)"

definition json_of_opt_num :: "real option \<Rightarrow> json" where
  "json_of_opt_num n = (case n of Some x \<Rightarrow> JNum x | None \<Rightarrow> JNull)"

definition cacheBase :: "string \<Rightarrow> ScriptRequestBody \<Rightarrow> json" where
  "cacheBase tpc payload =
     JObj [(''topic'', JStr tpc),
           (''persona'', json_of_opt_str (persona payload)),
           (''length'', json_of_opt_num (lengthMinutes payload)),
           (''language'', json_of_opt_str (language payload))]"

definition cacheKey :: "env \<Rightarrow> string \<Rightarrow> ScriptRequestBody \<Rightarrow> string" where
  "cacheKey e tpc payload = ''script:'' @ sha256 e (JSON_stringify e (cacheBase tpc payload))"

text \<open>
  The value bound for \<open>title\<close> in updateProjectMetadata, \<open>result.seo.title ?? null\<close>:
  D1 binds a string as it is, \<open>null\<close> and \<open>undefined\<close> as NULL, a boolean as 1 or 0, a
  number in SQLite's text form (\<open>number_text\<close>), and refuses an array or an object.
\<close>

definition bind_title :: "env \<Rightarrow> json \<Rightarrow> js_error + string option" where
  "bind_title e seo =
     (case js_prop seo ''title'' of
        None \<Rightarrow> Inr None
      | Some JNull \<Rightarrow> Inr None
      | Some (JStr s) \<Rightarrow> Inr (Some s)
      | Some (JBool b) \<Rightarrow> Inr (Some (if b then ''1'' else ''0''))
      | Some (JNum n) \<Rightarrow> Inr (Some (number_text e n))
      | Some (JArr xs) \<Rightarrow> Inl (Error ''D1_TYPE_ERROR: Type object not supported for value'')
      | Some (JObj kvs) \<Rightarrow> Inl (Error ''D1_TYPE_ERROR: Type object not supported for value''))"

text \<open>
  The handler. \<open>Inl\<close> is an exception the handler does not catch (the framework answers
  it with a 500); \<open>Inr\<close> is the response the handler returns.
\<close>

definition script_generate ::
  "env \<Rightarrow> string \<Rightarrow> string \<Rightarrow> ScriptRequestBody \<Rightarrow> string \<Rightarrow> response io" where
  "script_generate e pid tpc payload key =
     and_then (insertGenerationJob e pid ''script'' (Some ''running'') (ScriptPayload payload))
       (\<lambda>job.
         try_catch
           (and_then (generateYoutubeScript e
                        \<lparr>g_topic = tpc, g_persona = persona payload,
                         g_lengthMinutes = lengthMinutes payload, g_language = language payload\<rparr>)
              (\<lambda>result.
                and_then (insertProjectVersion e pid (js_prop result ''outline'')
                            (js_prop result ''sections'') (js_prop result ''seo'') None)
                  (\<lambda>_.
                    case bind_title e (case js_prop result ''seo'' of Some se \<Rightarrow> se | None \<Rightarrow> JNull) of
                      Inl err \<Rightarrow> throw err
                    | Inr title \<Rightarrow>
                        and_then (updateProjectMetadata e pid title (Some tpc) (Some ''ready''))
                          (\<lambda>_. and_then (CACHE_put e key result (60 * 60 * 6))
                            (\<lambda>_. and_then (updateGenerationJobStatus e (j_id job) ''succeeded'' None)
                              (\<lambda>_. return (json_response 200 (ScriptResult pid False result))))))))
           (\<lambda>cause.
             and_then (updateGenerationJobStatus e (j_id job) ''failed'' (Some (message cause)))
               (\<lambda>_. return (json_response 500 (ErrorBody ''Failed to generate script'')))))"

definition script_cached_or_generate ::
  "env \<Rightarrow> string \<Rightarrow> string \<Rightarrow> ScriptRequestBody \<Rightarrow> response io" where
  "script_cached_or_generate e pid tpc payload =
     (let key = cacheKey e tpc payload in
      if regenerate payload \<noteq> Some True then
        and_then (CACHE_get e key) (\<lambda>cached.
          case cached of
            Some c \<Rightarrow>
              if truthy c then return (json_response 200 (ScriptResult pid True c))
              else script_generate e pid tpc payload key
          | None \<Rightarrow> script_generate e pid tpc payload key)
      else script_generate e pid tpc payload key)"

definition script_new_project ::
  "env \<Rightarrow> DBUser \<Rightarrow> string \<Rightarrow> ScriptRequestBody \<Rightarrow> response io" where
  "script_new_project e user tpc payload =
     and_then (createProject e (u_id user) (Some tpc) (Some tpc) None)
       (\<lambda>project. script_cached_or_generate e (p_id project) tpc payload)"

definition POST_script :: "env \<Rightarrow> ScriptRequestBody request \<Rightarrow> response io" where
  "POST_script e request =
     (case x_user_sub request of
        None \<Rightarrow> return (unauthorized ''Unauthorized'')
      | Some userSub \<Rightarrow>
          if userSub = [] then return (unauthorized ''Unauthorized'')
          else
            (case json_body request of
               InvalidJson \<Rightarrow> return (badRequest ''Invalid JSON body'')
             | NullJson \<Rightarrow> throw (Error ''Cannot read properties of null (reading 'topic')'')
             | Parsed payload \<Rightarrow>
                 (case topic payload of
                    None \<Rightarrow> return (badRequest '''topic' is required'')
                  | Some tpc \<Rightarrow>
                      if tpc = [] then return (badRequest '''topic' is required'')
                      else
                        and_then (ensureUser e userSub (x_user_email request) (x_user_name request))
                          (\<lambda>user.
                            case projectId payload of
                              None \<Rightarrow> script_new_project e user tpc payload
                            | Some pid \<Rightarrow>
                                if pid = [] then script_new_project e user tpc payload
                                else
                                  (\<lambda>w. case getProjectById pid (DB w) of
                                     None \<Rightarrow> return (badRequest ''Project not found'') w
                                   | Some project \<Rightarrow>
                                       if p_user_id project \<noteq> u_id user then
                                         return (forbidden ''Project does not belong to user'') w
                                       else script_cached_or_generate e pid tpc payload w)))))"

subsection \<open>POST /api/generate/tts\<close>

definition synthesizeSpeech :: "env \<Rightarrow> TtsParams \<Rightarrow> TtsResult io" where
  "synthesizeSpeech e params =
     (case google_tts e params of
        Inl err \<Rightarrow> throw err
      | Inr buffer \<Rightarrow> return \<lparr>audio = buffer, mimeType = ''audio/mpeg''\<rparr>)"

definition MEDIA_BUCKET_put :: "env \<Rightarrow> string \<Rightarrow> byte list \<Rightarrow> string \<Rightarrow> unit io" where
  "MEDIA_BUCKET_put e k bytes contentType w =
     (if r2_put_ok e k then
        (Inr (), w\<lparr>MEDIA_BUCKET := (k, \<lparr>o_body = bytes, o_contentType = contentType\<rparr>) # MEDIA_BUCKET w\<rparr>)
      else throw (Error ''R2 put failed'') w)"

text \<open>The body of the \<open>for ... of\<close> loop, for one section.\<close>

definition tts_section :: "env \<Rightarrow> string \<Rightarrow> TtsRequestBody \<Rightarrow> SectionInput \<Rightarrow> tts_asset io" where
  "tts_section e pid payload sec =
     (case s_text sec of
        None \<Rightarrow> throw (Error ''Section text is required'')
      | Some txt \<Rightarrow>
          if txt = [] then throw (Error ''Section text is required'')
          else
            and_then (synthesizeSpeech e
                        \<lparr>tp_text = txt, tp_voice = t_voice payload, tp_audioConfig = t_audioConfig payload\<rparr>)
              (\<lambda>ttsResult.
                and_then (crypto_randomUUID e) (\<lambda>uuid.
                  let key = ''audio/'' @ pid @ ''/'' @ uuid @ ''.mp3'' in
                  and_then (MEDIA_BUCKET_put e key (audio ttsResult) (mimeType ttsResult)) (\<lambda>_.
                    and_then (insertAsset e pid ''audio''
                                (nullish (nullish (s_heading sec) (s_id sec)) (Some ''Audio Segment''))
                                key (Some (mimeType ttsResult)) (Some (length (audio ttsResult))))
                      (\<lambda>asset. return \<lparr>ta_assetId = a_id asset, ta_key = key,
                                         ta_heading = s_heading sec\<rparr>)))))"

fun tts_sections ::
  "env \<Rightarrow> string \<Rightarrow> TtsRequestBody \<Rightarrow> SectionInput list \<Rightarrow> tts_asset list \<Rightarrow> tts_asset list io" where
  "tts_sections e pid payload [] results = return results"
| "tts_sections e pid payload (sec # rest) results =
     and_then (tts_section e pid payload sec)
       (\<lambda>r. tts_sections e pid payload rest (results @ [r]))"

definition tts_run ::
  "env \<Rightarrow> DBProject \<Rightarrow> TtsRequestBody \<Rightarrow> SectionInput list \<Rightarrow> response io" where
  "tts_run e project payload sections =
     and_then (insertGenerationJob e (p_id project) ''tts'' (Some ''running'') (TtsPayload payload))
       (\<lambda>job.
         try_catch
           (and_then (tts_sections e (p_id project) payload sections [])
              (\<lambda>results.
                and_then (updateGenerationJobStatus e (j_id job) ''succeeded'' None)
                  (\<lambda>_. return (json_response 200 (TtsAssets (p_id project) results)))))
           (\<lambda>cause.
             and_then (updateGenerationJobStatus e (j_id job) ''failed'' (Some (message cause)))
               (\<lambda>_. return (json_response 500 (ErrorBody ''Failed to generate audio'')))))"

definition POST_tts :: "env \<Rightarrow> TtsRequestBody request \<Rightarrow> response io" where
  "POST_tts e request =
     (case x_user_sub request of
        None \<Rightarrow> return (unauthorized ''Unauthorized'')
      | Some userSub \<Rightarrow>
          if userSub = [] then return (unauthorized ''Unauthorized'')
          else
            (case json_body request of
               InvalidJson \<Rightarrow> return (badRequest ''Invalid JSON body'')
             | NullJson \<Rightarrow> throw (Error ''Cannot read properties of null (reading 'projectId')'')
             | Parsed payload \<Rightarrow>
                 (case t_projectId payload of
                    None \<Rightarrow> return (badRequest '''projectId' is required'')
                  | Some pid \<Rightarrow>
                      if pid = [] then return (badRequest '''projectId' is required'')
                      else
                        (case t_sections payload of
                           None \<Rightarrow> return (badRequest '''sections' must be a non-empty array'')
                         | Some sections \<Rightarrow>
                             if sections = [] then
                               return (badRequest '''sections' must be a non-empty array'')
                             else
                               and_then (ensureUser e userSub (x_user_email request)
                                           (x_user_name request))
                                 (\<lambda>user w.
                                   case getProjectById pid (DB w) of
                                     None \<Rightarrow> return (badRequest ''Project not found'') w
                                   | Some project \<Rightarrow>
                                       if p_user_id project \<noteq> u_id user then
                                         return (forbidden ''Project does not belong to user'') w
                                       else tts_run e project payload sections w)))))"

subsection \<open>POST /api/generate/image\<close>

text \<open>\<open>s.split(c)\<close> for a one-character separator.\<close>

fun js_split :: "char \<Rightarrow> string \<Rightarrow> string list" where
  "js_split c [] = [[]]"
| "js_split c (x # xs) =
     (if x = c then [] # js_split c xs
      else (case js_split c xs of
              p # ps \<Rightarrow> (x # p) # ps
            | [] \<Rightarrow> [[x]]))"

definition generateImage :: "env \<Rightarrow> DeepAiImageParams \<Rightarrow> image_response io" where
  "generateImage e params =
     (case deepai e params of
        Inl err \<Rightarrow> throw err
      | Inr r \<Rightarrow> return r)"

definition image_run :: "env \<Rightarrow> DBProject \<Rightarrow> ImageRequestBody \<Rightarrow> string \<Rightarrow> response io" where
  "image_run e project payload prompt =
     and_then (insertGenerationJob e (p_id project) ''image'' (Some ''running'') (ImagePayload payload))
       (\<lambda>job.
         try_catch
           (and_then (generateImage e
                        \<lparr>dp_prompt = prompt, dp_style = i_style payload,
                         dp_aspectRatio = i_aspectRatio payload\<rparr>)
              (\<lambda>imageResponse.
                let contentType = (case ir_content_type imageResponse of
                                     Some c \<Rightarrow> c | None \<Rightarrow> ''image/png'');
                    extension = (case js_split (CHR ''/'') contentType of
                                   _ # x # _ \<Rightarrow> x | _ \<Rightarrow> ''png'');
                    arrayBuffer = ir_body imageResponse in
                and_then (crypto_randomUUID e) (\<lambda>uuid.
                  let key = ''images/'' @ p_id project @ ''/'' @ uuid @ ''.'' @ extension in
                  and_then (MEDIA_BUCKET_put e key arrayBuffer contentType) (\<lambda>_.
                    and_then (insertAsset e (p_id project) ''image''
                                (nullish (i_label payload) (Some (take 64 prompt)))
                                key (Some contentType) (Some (length arrayBuffer)))
                      (\<lambda>asset.
                        and_then (updateGenerationJobStatus e (j_id job) ''succeeded'' None)
                          (\<lambda>_. return (json_response 200
                                           (ImageResult (p_id project) (a_id asset) key))))))))
           (\<lambda>cause.
             and_then (updateGenerationJobStatus e (j_id job) ''failed'' (Some (message cause)))
               (\<lambda>_. return (json_response 500 (ErrorBody ''Failed to generate image'')))))"

definition POST_image :: "env \<Rightarrow> ImageRequestBody request \<Rightarrow> response io" where
  "POST_image e request =
     (case x_user_sub request of
        None \<Rightarrow> return (unauthorized ''Unauthorized'')
      | Some userSub \<Rightarrow>
          if userSub = [] then return (unauthorized ''Unauthorized'')
          else
            (case json_body request of
               InvalidJson \<Rightarrow> return (badRequest ''Invalid JSON body'')
             | NullJson \<Rightarrow> throw (Error ''Cannot read properties of null (reading 'projectId')'')
             | Parsed payload \<Rightarrow>
                 (case i_projectId payload of
                    None \<Rightarrow> return (badRequest '''projectId' is required'')
                  | Some pid \<Rightarrow>
                      if pid = [] then return (badRequest '''projectId' is required'')
                      else
                        (case i_prompt payload of
                           None \<Rightarrow> return (badRequest '''prompt' is required'')
                         | Some prompt \<Rightarrow>
                             if prompt = [] then return (badRequest '''prompt' is required'')
                             else
                               and_then (ensureUser e userSub (x_user_email request)
                                           (x_user_name request))
                                 (\<lambda>user w.
                                   case getProjectById pid (DB w) of
                                     None \<Rightarrow> return (badRequest ''Project not found'') w
                                   | Some project \<Rightarrow>
                                       if p_user_id project \<noteq> u_id user then
                                         return (forbidden ''Project does not belong to user'') w
                                       else image_run e project payload prompt w)))))"

section \<open>The request gate: lib/env and lib/auth/access\<close>

text \<open>\<open>process.env\<close>: the value of a variable, if it is set.\<close>

type_synonym process_env = "string \<Rightarrow> string option"

definition getEnv :: "process_env \<Rightarrow> string \<Rightarrow> string option" where
  "getEnv penv name = penv name"

definition requireEnv :: "process_env \<Rightarrow> string \<Rightarrow> js_error + string" where
  "requireEnv penv name =
     (case getEnv penv name of
        None \<Rightarrow> Inl (Error (''Missing required environment variable: '' @ name))
      | Some v \<Rightarrow>
          if v = [] then Inl (Error (''Missing required environment variable: '' @ name))
          else Inr v)"

record AccessIdentity =
  ai_sub :: "string option"
  ai_email :: "string option"
  ai_name :: "string option"
  ai_issuer :: "string option"
  ai_token :: string

datatype AccessVerificationResult =
    Success AccessIdentity
  | ErrorResult js_error
  | Unauthorized

record AccessConfig =
  audience :: string
  certsUrl :: string
  loginUrl :: string
  algorithm :: "string option"

text \<open>The two module variables: the resolved configuration and the key set's URL.\<close>

record access_state =
  cachedConfig :: "AccessConfig option"
  cachedJwks :: "string option"

text \<open>
  The claims and the protected header of a token, as far as the source reads them.
  An \<open>aud\<close> claim is a string or an array of strings: the list of its values.
\<close>

record jwt_payload =
  c_sub :: "string option"
  c_email :: "string option"
  c_identity_email :: "string option"
  c_name :: "string option"
  c_common_name :: "string option"
  c_iss :: "string option"
  c_aud :: "string list option"

record jwt_header =
  alg :: string

text \<open>
  What the verifier cannot compute itself: the environment variables, whether a string
  parses as a URL, and \<open>jws_verify\<close>, which stands for jose's work on the token
  apart from the two options the source passes: decoding it, fetching the key set of
  the URL, checking the signature and the time claims. Its error is the exception jose
  throws for the first check that fails.
\<close>

record access_env =
  process_env :: process_env
  url_ok :: "string \<Rightarrow> bool"
  jws_verify :: "string \<Rightarrow> string \<Rightarrow> js_error + (jwt_payload \<times> jwt_header)"

text \<open>
  \<open>String.prototype.trim\<close> removes the white space and line terminator code points
  of ECMAScript at both ends; these are their UTF-8 encodings.
\<close>

definition js_whitespace :: "string list" where
  "js_whitespace =
     [[CHR 0x09], [CHR 0x0A], [CHR 0x0B], [CHR 0x0C], [CHR 0x0D], [CHR 0x20],
      [CHR 0xC2, CHR 0xA0],
      [CHR 0xE1, CHR 0x9A, CHR 0x80],
      [CHR 0xE2, CHR 0x80, CHR 0x80], [CHR 0xE2, CHR 0x80, CHR 0x81],
      [CHR 0xE2, CHR 0x80, CHR 0x82], [CHR 0xE2, CHR 0x80, CHR 0x83],
      [CHR 0xE2, CHR 0x80, CHR 0x84], [CHR 0xE2, CHR 0x80, CHR 0x85],
      [CHR 0xE2, CHR 0x80, CHR 0x86], [CHR 0xE2, CHR 0x80, CHR 0x87],
      [CHR 0xE2, CHR 0x80, CHR 0x88], [CHR 0xE2, CHR 0x80, CHR 0x89],
      [CHR 0xE2, CHR 0x80, CHR 0x8A],
      [CHR 0xE2, CHR 0x80, CHR 0xA8], [CHR 0xE2, CHR 0x80, CHR 0xA9],
      [CHR 0xE2, CHR 0x80, CHR 0xAF],
      [CHR 0xE2, CHR 0x81, CHR 0x9F],
      [CHR 0xE3, CHR 0x80, CHR 0x80],
      [CHR 0xEF, CHR 0xBB, CHR 0xBF]]"

definition starts_with :: "string \<Rightarrow> string \<Rightarrow> bool" where
  "starts_with p s = (take (length p) s = p)"

definition ends_with :: "string \<Rightarrow> string \<Rightarrow> bool" where
  "ends_with p s = (length p \<le> length s \<and> drop (length s - length p) s = p)"

function strip_leading :: "string list \<Rightarrow> string \<Rightarrow> string" where
  "strip_leading seqs s =
     (case find (\<lambda>p. starts_with p s) seqs of
        None \<Rightarrow> s
      | Some p \<Rightarrow> if p = [] then s else strip_leading seqs (drop (length p) s))"
  by pat_completeness auto
termination
proof (relation "measure (\<lambda>(seqs, s). length s)")
  show "wf (measure (\<lambda>(seqs, s). length s))" by simp
next
  fix seqs :: "string list" and s p :: string
  assume f: "find (\<lambda>p. starts_with p s) seqs = Some p" and ne: "p \<noteq> []"
  from f have "starts_with p s" by (auto simp: find_Some_iff)
  then have "length p \<le> length s"
    unfolding starts_with_def by (metis length_take min.cobounded1)
  with ne show "((seqs, drop (length p) s), (seqs, s)) \<in> measure (\<lambda>(seqs, s). length s)"
    by (cases p) auto
qed

declare strip_leading.simps [simp del]

definition trimStart :: "string \<Rightarrow> string" where
  "trimStart s = strip_leading js_whitespace s"

definition trimEnd :: "string \<Rightarrow> string" where
  "trimEnd s = rev (strip_leading (map rev js_whitespace) (rev s))"

definition js_trim :: "string \<Rightarrow> string" where
  "js_trim s = trimEnd (trimStart s)"

text \<open>\<open>s.replace(/\/$/, "")\<close> and \<open>s.replace(/suffix$/, by)\<close>.\<close>

definition replace_suffix :: "string \<Rightarrow> string \<Rightarrow> string \<Rightarrow> string" where
  "replace_suffix suffix by s =
     (if ends_with suffix s then take (length s - length suffix) s @ by else s)"

definition resolveAccessConfig :: "access_env \<Rightarrow> (access_state, AccessConfig) eff" where
  "resolveAccessConfig ae st =
     (case cachedConfig st of
        Some c \<Rightarrow> return c st
      | None \<Rightarrow>
          (case requireEnv (process_env ae) ''CF_ACCESS_AUD'' of
             Inl err \<Rightarrow> throw err st
           | Inr aud \<Rightarrow>
               let alg = getEnv (process_env ae) ''CF_ACCESS_JWT_ALG'';
                   certs = (case getEnv (process_env ae) ''CF_ACCESS_CERTS_URL'' of
                              Some u \<Rightarrow> Inr u
                            | None \<Rightarrow>
                                (case getEnv (process_env ae) ''CF_ACCESS_TEAM_DOMAIN'' of
                                   None \<Rightarrow> Inl (Error ''Provide either CF_ACCESS_CERTS_URL or CF_ACCESS_TEAM_DOMAIN to verify Cloudflare Access tokens.'')
                                 | Some teamDomain \<Rightarrow>
                                     if teamDomain = [] then
                                       Inl (Error ''Provide either CF_ACCESS_CERTS_URL or CF_ACCESS_TEAM_DOMAIN to verify Cloudflare Access tokens.'')
                                     else
                                       let sanitized = (if starts_with ''http'' teamDomain then teamDomain
                                                        else ''https://'' @ teamDomain)
                                       in Inr (replace_suffix ''/'' [] sanitized @ ''/cdn-cgi/access/certs'')))
               in case certs of
                    Inl err \<Rightarrow> throw err st
                  | Inr url \<Rightarrow>
                      let login = (case getEnv (process_env ae) ''CF_ACCESS_LOGIN_URL'' of
                                     Some l \<Rightarrow> l
                                   | None \<Rightarrow> replace_suffix ''/cdn-cgi/access/certs''
                                               ''/cdn-cgi/access/login'' url);
                          config = \<lparr>audience = aud, certsUrl = url, loginUrl = login,
                                    algorithm = alg\<rparr>
                      in return config (st\<lparr>cachedConfig := Some config\<rparr>)))"

text \<open>The key set is created once, for the URL of the first call.\<close>

definition getJwks :: "access_env \<Rightarrow> string \<Rightarrow> (access_state, string) eff" where
  "getJwks ae url st =
     (case cachedJwks st of
        Some jwks \<Rightarrow> return jwks st
      | None \<Rightarrow>
          if url_ok ae url then return url (st\<lparr>cachedJwks := Some url\<rparr>)
          else throw (Error ''Invalid URL'') st)"

text \<open>
  jose's \<open>jwtVerify(token, jwks, { audience, algorithms })\<close>, as its documentation
  states the two options: with \<open>algorithms\<close>, a token whose \<open>alg\<close> is not listed is
  refused; with \<open>audience\<close>, a token is refused when it has no \<open>aud\<close> claim or when
  the expected audience is none of the claim's values.
\<close>

definition jwtVerify ::
  "access_env \<Rightarrow> string \<Rightarrow> string \<Rightarrow> string \<Rightarrow> string list option
     \<Rightarrow> js_error + (jwt_payload \<times> jwt_header)" where
  "jwtVerify ae token jwks aud algorithms =
     (case jws_verify ae jwks token of
        Inl err \<Rightarrow> Inl err
      | Inr (payload, header) \<Rightarrow>
          if (case algorithms of Some algs \<Rightarrow> alg header \<notin> set algs | None \<Rightarrow> False) then
            Inl (Error ''JOSEAlgNotAllowed: alg (Algorithm) Header Parameter value not allowed'')
          else
            (case c_aud payload of
               None \<Rightarrow> Inl (Error ''JWTClaimValidationFailed: missing required aud claim'')
             | Some values \<Rightarrow>
                 if aud \<in> set values then Inr (payload, header)
                 else Inl (Error ''JWTClaimValidationFailed: unexpected aud claim value'')))"

text \<open>The body of the \<open>try\<close> block up to the result of \<open>jwtVerify\<close>.\<close>

definition verification ::
  "access_env \<Rightarrow> string \<Rightarrow> (access_state, AccessConfig \<times> jwt_payload \<times> jwt_header) eff" where
  "verification ae trimmed =
     and_then (resolveAccessConfig ae) (\<lambda>config.
       and_then (getJwks ae (certsUrl config)) (\<lambda>jwks.
         case jwtVerify ae trimmed jwks (audience config)
                (if truthy_str (algorithm config)
                 then Some [case algorithm config of Some a \<Rightarrow> a | None \<Rightarrow> []] else None) of
           Inl err \<Rightarrow> throw err
         | Inr (payload, header) \<Rightarrow> return (config, payload, header)))"

definition verifyAccessToken ::
  "access_env \<Rightarrow> string \<Rightarrow> (access_state, AccessVerificationResult) eff" where
  "verifyAccessToken ae token =
     (let trimmed = js_trim token in
      if trimmed = [] then return Unauthorized
      else
        try_catch
          (and_then (verification ae trimmed) (\<lambda>(config, payload, header).
             if truthy_str (algorithm config) \<and> Some (alg header) \<noteq> algorithm config then
               return (ErrorResult (Error ''Unexpected Access token algorithm''))
             else
               return (Success
                 \<lparr>ai_sub = c_sub payload,
                  ai_email = nullish (c_email payload) (c_identity_email payload),
                  ai_name = nullish (c_name payload) (c_common_name payload),
                  ai_issuer = c_iss payload,
                  ai_token = trimmed\<rparr>)))
          (\<lambda>error. return (ErrorResult error)))"

section \<open>The session codec: lib/auth/session\<close>

subsection \<open>\<open>btoa\<close> and \<open>atob\<close>\<close>

definition b64_alphabet :: string where
  "b64_alphabet = ''ABCDEFGHIJKLMNOPQRSTUVWXYZabcdefghijklmnopqrstuvwxyz0123456789+/''"


fun index_from :: "nat \<Rightarrow> char \<Rightarrow> string \<Rightarrow> nat option" where
  "index_from n c [] = None"
| "index_from n c (x # xs) = (if x = c then Some n else index_from (n + 1) c xs)"

definition b64_value :: "char \<Rightarrow> nat option" where
  "b64_value c = index_from 0 c b64_alphabet"



text \<open>
  \<open>atob\<close> is the forgiving-base64 decode of the WHATWG Infra standard: ASCII white space is
  removed; if the length is then a multiple of 4, one or two final \<open>=\<close> are removed;
  a length of 1 modulo 4 or a character outside the alphabet is an error; of a last
  group of two or three characters the bits that do not fill a byte are discarded.
\<close>

definition ascii_whitespace :: "char \<Rightarrow> bool" where
  "ascii_whitespace c = (c \<in> {CHR 0x09, CHR 0x0A, CHR 0x0C, CHR 0x0D, CHR 0x20})"

definition strip_padding :: "string \<Rightarrow> string" where
  "strip_padding d =
     (if length d mod 4 = 0 then
        (if ends_with ''=='' d then take (length d - 2) d
         else if ends_with ''='' d then take (length d - 1) d
         else d)
      else d)"

fun decode_sextets :: "nat list \<Rightarrow> nat list" where
  "decode_sextets (a # b # c # d # rest) =
     [a * 4 + b div 16, (b mod 16) * 16 + c div 4, (c mod 4) * 64 + d] @ decode_sextets rest"
| "decode_sextets [a, b, c] = [a * 4 + b div 16, (b mod 16) * 16 + c div 4]"
| "decode_sextets [a, b] = [a * 4 + b div 16]"
| "decode_sextets _ = []"

fun those_values :: "char list \<Rightarrow> nat list option" where
  "those_values [] = Some []"
| "those_values (c # cs) =
     (case b64_value c of
        None \<Rightarrow> None
      | Some v \<Rightarrow> (case those_values cs of None \<Rightarrow> None | Some vs \<Rightarrow> Some (v # vs)))"

definition atob :: "string \<Rightarrow> js_error + byte list" where
  "atob s =
     (let d = strip_padding (filter (\<lambda>c. \<not> ascii_whitespace c) s) in
      if length d mod 4 = 1 then Inl (Error ''InvalidCharacterError'')
      else
        (case those_values d of
           None \<Rightarrow> Inl (Error ''InvalidCharacterError'')
         | Some vs \<Rightarrow> Inr (map of_nat (decode_sextets vs))))"

subsection \<open>The codec\<close>


definition base64UrlDecode :: "string \<Rightarrow> js_error + byte list" where
  "base64UrlDecode v =
     (let padded = map (\<lambda>c. if c = CHR ''_'' then CHR ''/'' else c)
                     (map (\<lambda>c. if c = CHR ''-'' then CHR ''+'' else c) v);
          padLength = (4 - length padded mod 4) mod 4;
          base64 = padded @ replicate padLength (CHR ''='')
      in atob base64)"


text \<open>
  What the codec cannot compute itself: the environment variables, the clock,
  \<open>JSON.stringify\<close> and \<open>JSON.parse\<close>, \<open>TextDecoder.decode\<close>, and the HMAC-SHA256 of
  WebCrypto (key and data to the 32 bytes of the signature). \<open>TextEncoder.encode\<close>
  gives the bytes of the string.
\<close>

record session_env =
  s_process_env :: process_env
  Date_now :: real
  s_stringify :: "json \<Rightarrow> string"
  s_parse :: "string \<Rightarrow> js_error + json"
  s_decode :: "byte list \<Rightarrow> string"
  s_hmac :: "byte list \<Rightarrow> byte list \<Rightarrow> byte list"

definition encoder_encode :: "string \<Rightarrow> byte list" where
  "encoder_encode s = map (\<lambda>c. of_nat (of_char c)) s"

text \<open>The module variable \<open>keyPromise\<close>: the imported key, once there is one.\<close>

record session_state =
  keyPromise :: "byte list option"

text \<open>
  \<open>.length\<close> of a string counts UTF-16 code units: one for every character of the
  UTF-8 text (a byte that is not a continuation byte), and one more for a character of
  four bytes.
\<close>

definition js_length :: "string \<Rightarrow> nat" where
  "js_length s =
     length (filter (\<lambda>c. (of_char c :: nat) < 128 \<or> 192 \<le> (of_char c :: nat)) s)
       + length (filter (\<lambda>c. 240 \<le> (of_char c :: nat)) s)"

definition getSessionSecret :: "session_env \<Rightarrow> js_error + string" where
  "getSessionSecret se =
     (case requireEnv (s_process_env se) ''SESSION_SECRET'' of
        Inl err \<Rightarrow> Inl err
      | Inr secret \<Rightarrow>
          if js_length secret < 32 then
            Inl (Error ''SESSION_SECRET must be at least 32 characters long'')
          else Inr secret)"

definition getKey :: "session_env \<Rightarrow> (session_state, byte list) eff" where
  "getKey se st =
     (case keyPromise st of
        Some key \<Rightarrow> return key st
      | None \<Rightarrow>
          (case getSessionSecret se of
             Inl err \<Rightarrow> throw err st
           | Inr secret \<Rightarrow>
               let key = encoder_encode secret in return key (st\<lparr>keyPromise := Some key\<rparr>)))"



text \<open>
  \<open>crypto.subtle.verify("HMAC", key, signature, data)\<close>: the signature is the HMAC of
  the data.
\<close>

definition subtle_verify :: "session_env \<Rightarrow> byte list \<Rightarrow> byte list \<Rightarrow> byte list \<Rightarrow> bool" where
  "subtle_verify se key signature data = (s_hmac se key data = signature)"

text \<open>
  The result is the parsed payload, or \<open>None\<close> for \<open>null\<close> (which is also what a
  payload that parses to \<open>null\<close> gives).
\<close>

definition parseSessionValue :: "session_env \<Rightarrow> string option \<Rightarrow> (session_state, json option) eff" where
  "parseSessionValue se v =
     (case v of
        None \<Rightarrow> return None
      | Some val \<Rightarrow>
          if val = [] then return None
          else
            (case js_split (CHR ''.'') val of
               encodedData # signature # _ \<Rightarrow>
                 if encodedData = [] \<or> signature = [] then return None
                 else
                   try_catch
                     (case base64UrlDecode encodedData of
                        Inl err \<Rightarrow> throw err
                      | Inr dataBytes \<Rightarrow>
                          (case base64UrlDecode signature of
                             Inl err \<Rightarrow> throw err
                           | Inr signatureBytes \<Rightarrow>
                               and_then (getKey se) (\<lambda>key.
                                 if \<not> subtle_verify se key signatureBytes dataBytes then return None
                                 else
                                   (case s_parse se (s_decode se dataBytes) of
                                      Inl err \<Rightarrow> throw err
                                    | Inr payload \<Rightarrow>
                                        return (if payload = JNull then None else Some payload)))))
                     (\<lambda>error. return None)
             | _ \<Rightarrow> return None))"

section \<open>Notions the properties are stated with\<close>

text \<open>The version numbers of a project, in the order its rows were inserted.\<close>

definition versions_of :: "string \<Rightarrow> db \<Rightarrow> int list" where
  "versions_of pid d = map v_version (filter (\<lambda>r. v_project_id r = pid) (project_versions d))"

text \<open>The greatest version of a project, or 0 when it has none.\<close>

definition max_version :: "string \<Rightarrow> db \<Rightarrow> int" where
  "max_version pid d = (if versions_of pid d = [] then 0 else Max (set (versions_of pid d)))"

subsection \<open>A concrete environment and concrete states for the examples\<close>

definition demo_uuid :: "nat \<Rightarrow> string" where
  "demo_uuid n = ''uuid-'' @ replicate n (CHR ''x'')"

definition demo_stringify :: "json \<Rightarrow> string" where
  "demo_stringify j =
     (case j of
        JObj kvs \<Rightarrow> concat (map (\<lambda>(k, v). k @ ''='' @ (case v of JStr s \<Rightarrow> s | _ \<Rightarrow> ''null'') @ '';'') kvs)
      | _ \<Rightarrow> [])"

definition demo_script :: json where
  "demo_script =
     JObj [(''outline'', JArr [JStr ''Intro'']),
           (''sections'', JArr [JObj [(''heading'', JStr ''Intro''), (''narration'', JStr ''Light'')]]),
           (''seo'', JObj [(''title'', JStr ''Photosynthesis in 8 minutes''),
                           (''description'', JStr ''How plants eat light''),
                           (''tags'', JArr [JStr ''biology''])]),
           (''thumbnailIdeas'', JArr [JStr ''A leaf''])]"

definition demo_env :: env where
  "demo_env =
     \<lparr>now = 1000, randomUUID = demo_uuid, sha256 = (\<lambda>s. s), JSON_stringify = demo_stringify,
      number_text = (\<lambda>r. ''0''), GEMINI_MODEL = None, r2_put_ok = (\<lambda>k. True),
      gemini_fetch = (\<lambda>p. Inr demo_script),
      google_tts = (\<lambda>p. Inr [1, 2, 3]),
      deepai = (\<lambda>p. Inr \<lparr>ir_content_type = Some ''image/jpeg'', ir_body = [1, 2]\<rparr>)\<rparr>"

definition empty_db :: db where
  "empty_db = \<lparr>users = [], projects = [], project_versions = [], assets = [], generation_jobs = []\<rparr>"

definition empty_world :: world where
  "empty_world =
     \<lparr>DB = empty_db, CACHE = [], MEDIA_BUCKET = [], uuid_draws = 0, journal = [], script_calls = []\<rparr>"

definition alice :: DBUser where
  "alice = \<lparr>u_id = ''user-a'', u_access_sub = ''sub-a'', u_email = Some ''a@example.com'',
            u_name = None, u_created_at = 1\<rparr>"

definition bob :: DBUser where
  "bob = \<lparr>u_id = ''user-b'', u_access_sub = ''sub-b'', u_email = None, u_name = None,
          u_created_at = 2\<rparr>"

definition alice_project :: DBProject where
  "alice_project =
     \<lparr>p_id = ''proj-a'', p_user_id = ''user-a'', p_title = Some ''Tides'', p_topic = Some ''Tides'',
      p_target_length = None, p_status = ''ready'', p_created_at = 3, p_updated_at = 3\<rparr>"

definition demo_version :: "string \<Rightarrow> int \<Rightarrow> DBProjectVersion" where
  "demo_version vid n =
     \<lparr>v_id = vid, v_project_id = ''proj-a'', v_version = n, v_script = JArr [], v_outline = JArr [],
      v_seo = JObj [], v_generated_with = None, v_created_at = 4\<rparr>"

text \<open>Alice owns one project, which is at version 3; Bob has a user row and no project.\<close>

definition demo_world :: world where
  "demo_world =
     empty_world\<lparr>DB := empty_db\<lparr>users := [alice, bob], projects := [alice_project],
                     project_versions := [demo_version ''v1'' 1, demo_version ''v2'' 2,
                                          demo_version ''v3'' 3]\<rparr>\<rparr>"

subsection \<open>Frames\<close>

text \<open>Everything but the \<open>users\<close> table, the journal and the UUID counter is the same.\<close>

definition outside_users_unchanged :: "world \<Rightarrow> world \<Rightarrow> bool" where
  "outside_users_unchanged w w' =
     (projects (DB w') = projects (DB w) \<and> project_versions (DB w') = project_versions (DB w)
      \<and> assets (DB w') = assets (DB w) \<and> generation_jobs (DB w') = generation_jobs (DB w)
      \<and> CACHE w' = CACHE w \<and> MEDIA_BUCKET w' = MEDIA_BUCKET w
      \<and> script_calls w' = script_calls w)"

fun user_stmt :: "stmt \<Rightarrow> bool" where
  "user_stmt (InsertUser u) = True"
| "user_stmt (UpdateUser i em nm) = True"
| "user_stmt s = False"

text \<open>
  The upsert of the user with subject \<open>sub\<close>: the statements run since \<open>w\<close> are user
  statements, rows of other subjects are untouched, and no row of another subject
  appears.
\<close>

definition user_upsert_only :: "string \<Rightarrow> world \<Rightarrow> world \<Rightarrow> bool" where
  "user_upsert_only sub w w' =
     (take (length (journal w)) (journal w') = journal w
      \<and> list_all user_stmt (drop (length (journal w)) (journal w'))
      \<and> filter (\<lambda>u. u_access_sub u \<noteq> sub) (users (DB w'))
          = filter (\<lambda>u. u_access_sub u \<noteq> sub) (users (DB w)))"

text \<open>
  The \<open>users\<close> table after the upsert of a subject: a new row at the end when the
  subject has none; when it has one and an email or a name is supplied, that row with
  the supplied values written over its own; the table as it was otherwise.
\<close>

definition users_after_upsert ::
  "env \<Rightarrow> string \<Rightarrow> string option \<Rightarrow> string option \<Rightarrow> world \<Rightarrow> DBUser list" where
  "users_after_upsert e sub em nm w =
     (case select_user_by_sub sub (DB w) of
        None \<Rightarrow>
          users (DB w) @ [\<lparr>u_id = randomUUID e (uuid_draws w), u_access_sub = sub, u_email = em,
                           u_name = nm, u_created_at = now e\<rparr>]
      | Some ex \<Rightarrow>
          if truthy_str em \<or> truthy_str nm then
            map (\<lambda>u. if u_id u = u_id ex
                     then u\<lparr>u_email := coalesce em (u_email u), u_name := coalesce nm (u_name u)\<rparr>
                     else u) (users (DB w))
          else users (DB w))"

definition request_of ::
  "string \<Rightarrow> 'b \<Rightarrow> 'b request" where
  "request_of sub b = \<lparr>x_user_sub = Some sub, x_user_email = None, x_user_name = None,
                       json_body = Parsed b\<rparr>"

definition script_body :: "string option \<Rightarrow> string option \<Rightarrow> ScriptRequestBody" where
  "script_body tpc pid =
     \<lparr>topic = tpc, persona = None, lengthMinutes = None, language = None, projectId = pid,
      regenerate = None\<rparr>"

definition tts_body :: "string \<Rightarrow> SectionInput list \<Rightarrow> TtsRequestBody" where
  "tts_body pid secs =
     \<lparr>t_projectId = Some pid, t_sections = Some secs, t_voice = None, t_audioConfig = None\<rparr>"

definition section_of :: "string \<Rightarrow> string \<Rightarrow> SectionInput" where
  "section_of h txt = \<lparr>s_id = None, s_heading = Some h, s_text = Some txt\<rparr>"

definition image_body :: "string \<Rightarrow> string \<Rightarrow> ImageRequestBody" where
  "image_body pid prompt =
     \<lparr>i_projectId = Some pid, i_prompt = Some prompt, i_style = None, i_aspectRatio = None,
      i_label = None\<rparr>"

text \<open>A provider answer that parseGeminiResponse returns rather than throws on.\<close>

definition complete_script :: "json \<Rightarrow> bool" where
  "complete_script r =
     (r \<noteq> JNull \<and> prop_truthy r ''outline'' \<and> prop_truthy r ''sections''
      \<and> prop_truthy r ''seo'' \<and> prop_truthy r ''thumbnailIdeas'')"

text \<open>The parameters the script route passes to the provider.\<close>

definition script_params :: "string \<Rightarrow> ScriptRequestBody \<Rightarrow> GenerateScriptParams" where
  "script_params tpc payload =
     \<lparr>g_topic = tpc, g_persona = persona payload, g_lengthMinutes = lengthMinutes payload,
      g_language = language payload\<rparr>"

text \<open>The cache entry of a key, if it is alive at the time of the request.\<close>

definition live_entry :: "env \<Rightarrow> string \<Rightarrow> world \<Rightarrow> json option" where
  "live_entry e k w =
     (case map_of (CACHE w) k of
        Some ent \<Rightarrow> if now e < kv_expires ent then Some (kv_value ent) else None
      | None \<Rightarrow> None)"

text \<open>The same state with a cached script for the topic "Tides", alive until second 5000.\<close>

definition cached_world :: world where
  "cached_world =
     demo_world\<lparr>CACHE := [(cacheKey demo_env ''Tides'' (script_body (Some ''Tides'') None),
                            \<lparr>kv_value = demo_script, kv_expires = 5000\<rparr>)]\<rparr>"

text \<open>
  A script request under subject \<open>sub\<close> gets past authentication and project
  resolution: it names a project of its caller, or it names none and the inserts
  of the user (if new) and of the project draw unused ids.
\<close>

definition new_project_ok :: "env \<Rightarrow> string \<Rightarrow> world \<Rightarrow> bool" where
  "new_project_ok e sub w =
     ((select_user_by_sub sub (DB w) \<noteq> None
         \<or> randomUUID e (uuid_draws w) \<notin> set (map u_id (users (DB w))))
      \<and> randomUUID e (if select_user_by_sub sub (DB w) = None then Suc (uuid_draws w)
                       else uuid_draws w) \<notin> set (map p_id (projects (DB w))))"

definition passes_gate :: "env \<Rightarrow> string \<Rightarrow> ScriptRequestBody \<Rightarrow> world \<Rightarrow> bool" where
  "passes_gate e sub sp w =
     (sub \<noteq> [] \<and> distinct (map u_id (users (DB w)))
      \<and> (case projectId sp of
            None \<Rightarrow> new_project_ok e sub w
          | Some pid \<Rightarrow>
              if pid = [] then new_project_ok e sub w
              else (case (getProjectById pid (DB w), select_user_by_sub sub (DB w)) of
                      (Some project, Some owner) \<Rightarrow> p_user_id project = u_id owner
                    | _ \<Rightarrow> False)))"

text \<open>The answers a script request can get before the route reads the cache.\<close>

definition rejected :: "response \<Rightarrow> bool" where
  "rejected resp =
     (resp = unauthorized ''Unauthorized'' \<or> resp = badRequest ''Project not found''
      \<or> resp = forbidden ''Project does not belong to user'')"

text \<open>Two bodies agree on the four fields the cache key is made of.\<close>

definition same_script_fields :: "ScriptRequestBody \<Rightarrow> ScriptRequestBody \<Rightarrow> bool" where
  "same_script_fields a b =
     (topic a = topic b \<and> persona a = persona b \<and> lengthMinutes a = lengthMinutes b
      \<and> language a = language b)"

text \<open>A later request: the same platform, a later clock.\<close>

definition later_env :: env where
  "later_env = demo_env\<lparr>now := 2000\<rparr>"

text \<open>The state Alice's first request for the topic "Tides" leaves behind.\<close>

definition after_first :: world where
  "after_first =
     snd (POST_script demo_env (request_of ''sub-a'' (script_body (Some ''Tides'') None)) demo_world)"

subsection \<open>Tokens\<close>

text \<open>A string that consists of white space only (the empty string included).\<close>

inductive whitespace_only :: "string \<Rightarrow> bool" where
  ws_empty: "whitespace_only []"
| ws_more: "p \<in> set js_whitespace \<Longrightarrow> whitespace_only s \<Longrightarrow> whitespace_only (p @ s)"

text \<open>An environment in which the verifier is configured, and two tokens.\<close>

definition demo_claims :: jwt_payload where
  "demo_claims =
     \<lparr>c_sub = Some ''sub-a'', c_email = Some ''a@example.com'', c_identity_email = None,
      c_name = None, c_common_name = Some ''Alice'', c_iss = Some ''https://team.example'',
      c_aud = Some [''aud-1'']\<rparr>"

definition demo_access_env :: access_env where
  "demo_access_env =
     \<lparr>process_env = (\<lambda>n. if n = ''CF_ACCESS_AUD'' then Some ''aud-1''
                           else if n = ''CF_ACCESS_TEAM_DOMAIN'' then Some ''team.example/''
                           else None),
      url_ok = (\<lambda>u. True),
      jws_verify = (\<lambda>jwks token.
         if token = ''good'' then Inr (demo_claims, \<lparr>alg = ''RS256''\<rparr>)
         else if token = ''other-aud'' then Inr (demo_claims\<lparr>c_aud := Some [''aud-2'']\<rparr>, \<lparr>alg = ''RS256''\<rparr>)
         else Inl (Error ''signature verification failed''))\<rparr>"

definition fresh_access_state :: access_state where
  "fresh_access_state = \<lparr>cachedConfig = None, cachedJwks = None\<rparr>"

subsection \<open>Session tokens\<close>

text \<open>
  What the two segments of a cookie value decode to, when there are two non-empty
  segments and both decode.
\<close>

definition token_bytes :: "string \<Rightarrow> (byte list \<times> byte list) option" where
  "token_bytes val =
     (case js_split (CHR ''.'') val of
        encodedData # signature # _ \<Rightarrow>
          if encodedData = [] \<or> signature = [] then None
          else
            (case base64UrlDecode encodedData of
               Inl _ \<Rightarrow> None
             | Inr d \<Rightarrow>
                 (case base64UrlDecode signature of
                    Inl _ \<Rightarrow> None
                  | Inr g \<Rightarrow> Some (d, g)))
      | _ \<Rightarrow> None)"














section \<open>Verification\<close>

subsection \<open>Version numbering (insertProjectVersion)\<close>

text \<open>Integers of magnitude up to \<open>2 ^ 53\<close> are doubles, and 1 is added to them exactly below it.\<close>

lemma double_exponent_small: "n < 2 ^ 53 \<Longrightarrow> double_exponent n = 0"
  by (subst double_exponent.simps) simp

lemma round_double_small: "n < 2 ^ 53 \<Longrightarrow> round_double n = n"
  by (simp add: round_double_def double_exponent_small)

lemma double_exponent_edge:
  "double_exponent 9007199254740992 = 1" "double_exponent 9007199254740993 = 1"
  by (subst double_exponent.simps, simp add: double_exponent_small)+

lemma round_double_edge:
  "round_double 9007199254740992 = 9007199254740992"
  "round_double 9007199254740993 = 9007199254740992"
  by (simp_all add: round_double_def double_exponent_edge)

lemma js_number_exact:
  assumes "\<bar>i\<bar> \<le> 2 ^ 53"
  shows "js_number i = i"
proof (cases "\<bar>i\<bar> = 2 ^ 53")
  case True
  hence "nat \<bar>i\<bar> = 9007199254740992" by simp
  hence "js_number i = sgn i * 9007199254740992"
    unfolding js_number_def by (simp only: round_double_edge)
  also have "\<dots> = sgn i * \<bar>i\<bar>" using True by simp
  also have "\<dots> = i" by (simp add: sgn_mult_abs)
  finally show ?thesis .
next
  case False
  with assms have "nat \<bar>i\<bar> < 2 ^ 53" by simp
  hence "js_number i = sgn i * int (nat \<bar>i\<bar>)" by (simp add: js_number_def round_double_small)
  also have "\<dots> = i" by (simp add: sgn_mult_abs)
  finally show ?thesis .
qed

lemma js_plus_one:
  assumes "\<bar>m\<bar> < 2 ^ 53"
  shows "js_plus (js_number m) 1 = m + 1"
proof -
  have "js_number m = m" using assms by (simp add: js_number_exact)
  moreover have "\<bar>m + 1\<bar> \<le> 2 ^ 53" using assms by simp
  ultimately show ?thesis by (simp add: js_plus_def js_number_exact)
qed

text \<open>At \<open>2 ^ 53\<close> the sum is rounded back to \<open>2 ^ 53\<close>.\<close>

lemma js_plus_one_edge: "js_plus (js_number 9007199254740992) 1 = 9007199254740992"
  by (simp add: js_number_exact js_plus_def) (simp add: js_number_def round_double_edge)

lemma sorted_last_Max:
  fixes ys :: "int list"
  shows "sorted ys \<Longrightarrow> ys \<noteq> [] \<Longrightarrow> last ys = Max (set ys)"
proof (induction ys)
  case Nil
  then show ?case by simp
next
  case (Cons y ys)
  show ?case
  proof (cases "ys = []")
    case True
    then show ?thesis by simp
  next
    case False
    with Cons have ih: "last ys = Max (set ys)" by simp
    have "Max (set ys) \<in> set ys" using False by simp
    with Cons.prems have "y \<le> Max (set ys)" by auto
    then have "Max (set (y # ys)) = Max (set ys)"
      using False by (simp add: max_def)
    with ih False show ?thesis by simp
  qed
qed

lemma rev_sort_head:
  fixes xs :: "int list"
  assumes "xs \<noteq> []"
  shows "\<exists>t. rev (sort xs) = Max (set xs) # t"
proof -
  have ne: "sort xs \<noteq> []"
    using assms by (cases xs) (auto simp: insort_is_Cons)
  have "last (sort xs) = Max (set (sort xs))"
    by (rule sorted_last_Max) (simp_all add: ne)
  then have l: "last (sort xs) = Max (set xs)" by simp
  have "rev (sort xs) = rev (butlast (sort xs) @ [last (sort xs)])" using ne by simp
  also have "\<dots> = last (sort xs) # rev (butlast (sort xs))" by simp
  finally have "rev (sort xs) = Max (set xs) # rev (butlast (sort xs))"
    unfolding l .
  then show ?thesis by (rule exI)
qed

lemma select_last_version_eq:
  "select_last_version pid d =
     (if versions_of pid d = [] then None else Some (Max (set (versions_of pid d))))"
proof (cases "versions_of pid d = []")
  case True
  then show ?thesis by (simp add: select_last_version_def versions_of_def)
next
  case False
  from rev_sort_head[OF False] obtain t where
    "rev (sort (versions_of pid d)) = Max (set (versions_of pid d)) # t" by blast
  then show ?thesis using False
    unfolding select_last_version_def versions_of_def by simp
qed

lemma find_append_fresh:
  "\<forall>x\<in>set xs. \<not> P x \<Longrightarrow> P y \<Longrightarrow> find P (xs @ [y]) = Some y"
  by (induction xs) auto

lemma max_version_above:
  assumes "x \<in> set (versions_of pid d)"
  shows "x < max_version pid d + 1"
proof -
  from assms have ne: "versions_of pid d \<noteq> []" by auto
  from assms have "x \<le> Max (set (versions_of pid d))" by simp
  with ne show ?thesis by (simp add: max_version_def)
qed

lemma max_version_upto:
  assumes "0 \<le> n" and "versions_of pid d = [1..n]"
  shows "max_version pid d = n"
proof (cases "n = 0")
  case True
  with assms show ?thesis by (simp add: max_version_def)
next
  case False
  with assms have n: "1 \<le> n" by simp
  then have "Max {1..n} = n" by (simp add: Max_eq_iff)
  moreover have "[1..n] \<noteq> []" using n by (simp add: upto_Nil)
  ultimately show ?thesis using assms by (simp add: max_version_def)
qed

text \<open>
  What insertProjectVersion does when its INSERT runs (the drawn id is unused, the
  project exists, and its greatest version is below \<open>2 ^ 53\<close>): the row, and the world
  after it.
\<close>

lemma insertProjectVersion_run:
  fixes sc ol seo :: json and gm :: "json option"
  assumes fresh: "randomUUID e (uuid_draws w) \<notin> set (map v_id (project_versions (DB w)))"
      and fk: "pid \<in> set (map p_id (projects (DB w)))"
      and bound: "\<bar>max_version pid (DB w)\<bar> < 2 ^ 53"
  defines "row \<equiv> \<lparr>v_id = randomUUID e (uuid_draws w), v_project_id = pid,
                    v_version = max_version pid (DB w) + 1,
                    v_script = sc, v_outline = ol, v_seo = seo,
                    v_generated_with = (case gm of Some m \<Rightarrow> if truthy m then Some m else None
                                        | None \<Rightarrow> None),
                    v_created_at = now e\<rparr>"
  shows "insertProjectVersion e pid (Some ol) (Some sc) (Some seo) gm w =
           (Inr row, w\<lparr>uuid_draws := Suc (uuid_draws w),
                        DB := (DB w)\<lparr>project_versions := project_versions (DB w) @ [row]\<rparr>,
                        journal := journal w @ [InsertVersion row]\<rparr>)"
proof -
  define n where "n = max_version pid (DB w) + 1"
  define g where
    "g = (case gm of Some m \<Rightarrow> if truthy m then Some m else None | None \<Rightarrow> None)"
  define uid where "uid = randomUUID e (uuid_draws w)"
  have row: "row = \<lparr>v_id = uid, v_project_id = pid, v_version = n,
               v_script = sc, v_outline = ol, v_seo = seo,
               v_generated_with = g, v_created_at = now e\<rparr>"
    by (simp add: row_def n_def g_def uid_def)
  have gt: "\<forall>v\<in>set (versions_of pid (DB w)). v < n"
    using max_version_above unfolding n_def by blast
  have nodup: "(pid, n) \<notin> set (map (\<lambda>r. (v_project_id r, v_version r)) (project_versions (DB w)))"
  proof
    assume "(pid, n) \<in> set (map (\<lambda>r. (v_project_id r, v_version r)) (project_versions (DB w)))"
    then have "n \<in> set (versions_of pid (DB w))"
      by (auto simp: versions_of_def)
    with gt show False by blast
  qed
  have ins: "sql_insert_version row (DB w) =
               Inr ((DB w)\<lparr>project_versions := project_versions (DB w) @ [row]\<rparr>)"
    using fresh fk nodup by (simp add: sql_insert_version_def uid_def row)
  have fnd: "find (\<lambda>r. v_id r = uid) (project_versions (DB w) @ [row]) = Some row"
    using fresh unfolding uid_def by (intro find_append_fresh) (force simp: row uid_def)+
  have "(case select_last_version pid (DB w) of Some v \<Rightarrow> js_number v | None \<Rightarrow> 0)
          = js_number (max_version pid (DB w))"
    unfolding select_last_version_eq max_version_def by (simp add: js_number_exact)
  hence nv: "js_plus (case select_last_version pid (DB w) of Some v \<Rightarrow> js_number v | None \<Rightarrow> 0) 1
               = n"
    unfolding n_def using js_plus_one[OF bound] by simp
  show ?thesis
    unfolding insertProjectVersion_def Let_def nv g_def[symmetric]
    using ins fnd
    by (simp add: and_then_def crypto_randomUUID_def run_stmt_def return_def
        select_version_by_id_def uid_def[symmetric] row[symmetric])
qed

text \<open>
  C4. When the INSERT runs and the project's greatest version is below \<open>2 ^ 53\<close>, where
  a \<open>number\<close> counts exactly, insertProjectVersion returns a row of the project whose
  version is the project's greatest version (0 if it has none) plus 1; so a project at
  version 3 gets version 4. The new version is above every existing one of the project
  (never reused), it is appended to the project's versions, other projects keep theirs,
  and a project whose versions are 1, ..., n has the versions 1, ..., n + 1 afterwards
  (1-based, never skipped).
\<close>

theorem insertProjectVersion_next_version:
  assumes fresh: "randomUUID e (uuid_draws w) \<notin> set (map v_id (project_versions (DB w)))"
      and fk: "pid \<in> set (map p_id (projects (DB w)))"
      and bound: "\<bar>max_version pid (DB w)\<bar> < 2 ^ 53"
  shows "\<exists>row w'. insertProjectVersion e pid (Some ol) (Some sc) (Some seo) gm w = (Inr row, w')
           \<and> v_project_id row = pid
           \<and> v_version row = max_version pid (DB w) + 1
           \<and> (max_version pid (DB w) = 3 \<longrightarrow> v_version row = 4)
           \<and> project_versions (DB w') = project_versions (DB w) @ [row]
           \<and> versions_of pid (DB w') = versions_of pid (DB w) @ [v_version row]
           \<and> (\<forall>v\<in>set (versions_of pid (DB w)). v < v_version row)
           \<and> (\<forall>q. q \<noteq> pid \<longrightarrow> versions_of q (DB w') = versions_of q (DB w))
           \<and> (\<forall>n\<ge>0. versions_of pid (DB w) = [1..n] \<longrightarrow> versions_of pid (DB w') = [1..n + 1])"
proof -
  have up: "\<And>n::int. 0 \<le> n \<Longrightarrow> [1..n] @ [n + 1] = [1..n + 1]"
    by (simp add: upto_rec2)
  show ?thesis
    unfolding insertProjectVersion_run[OF fresh fk bound]
    using max_version_above[of _ pid "DB w"] max_version_upto[of _ pid "DB w"] up
    by (auto simp: versions_of_def)
qed

theorem insertProjectVersion_next_version_witness:
  "\<exists>row w'. insertProjectVersion demo_env ''proj-a'' (Some (JArr [])) (Some (JArr [])) (Some (JObj []))
               None demo_world = (Inr row, w')
     \<and> v_version row = 4
     \<and> versions_of ''proj-a'' (DB w') = [1, 2, 3, 4]"
proof -
  have fresh: "randomUUID demo_env (uuid_draws demo_world)
                 \<notin> set (map v_id (project_versions (DB demo_world)))"
    by (simp add: demo_env_def demo_world_def empty_world_def empty_db_def demo_uuid_def
        demo_version_def)
  have fk: "''proj-a'' \<in> set (map p_id (projects (DB demo_world)))"
    by (simp add: demo_world_def empty_world_def empty_db_def alice_project_def)
  have vs: "versions_of ''proj-a'' (DB demo_world) = [1, 2, 3]"
    by (simp add: versions_of_def demo_world_def empty_world_def empty_db_def demo_version_def)
  have mx: "max_version ''proj-a'' (DB demo_world) = 3"
    by (simp add: max_version_def vs)
  have bound: "\<bar>max_version ''proj-a'' (DB demo_world)\<bar> < 2 ^ 53"
    by (simp add: mx)
  from insertProjectVersion_next_version[OF fresh fk bound, of "JArr []" "JArr []" "JObj []" None]
  show ?thesis unfolding mx vs by auto
qed

text \<open>
  At \<open>2 ^ 53\<close> the count stops: the sum is the greatest version again, which the unique
  index on (project_id, version) refuses, so insertProjectVersion throws and no row is
  written. (A project gets there only after \<open>2 ^ 53\<close> inserts.)
\<close>

lemma insertProjectVersion_beyond_doubles:
  assumes top: "max_version pid (DB w) = 2 ^ 53"
  shows "\<exists>err. insertProjectVersion e pid (Some ol) (Some sc) (Some seo) gm w
                 = (Inl err, w\<lparr>uuid_draws := Suc (uuid_draws w)\<rparr>)"
proof -
  have ne: "versions_of pid (DB w) \<noteq> []"
    using top by (auto simp: max_version_def)
  hence mx: "Max (set (versions_of pid (DB w))) = 9007199254740992"
    using top by (simp add: max_version_def)
  have "Max (set (versions_of pid (DB w))) \<in> set (versions_of pid (DB w))"
    using ne by simp
  hence "9007199254740992 \<in> set (versions_of pid (DB w))"
    unfolding mx .
  hence dup: "(pid, 9007199254740992)
                \<in> set (map (\<lambda>r. (v_project_id r, v_version r)) (project_versions (DB w)))"
    by (auto simp: versions_of_def)
  have nv: "js_plus (case select_last_version pid (DB w) of Some v \<Rightarrow> js_number v | None \<Rightarrow> 0) 1
              = 9007199254740992"
    unfolding select_last_version_eq using ne mx by (simp add: js_plus_one_edge)
  show ?thesis
    unfolding insertProjectVersion_def Let_def nv
    using dup
    by (simp add: and_then_def crypto_randomUUID_def run_stmt_def sql_insert_version_def)
qed

subsection \<open>ensureUser\<close>

lemma find_Some_mem: "find P xs = Some x \<Longrightarrow> x \<in> set xs \<and> P x"
  by (induction xs) (auto split: if_splits)

lemma find_None_all: "find P xs = None \<Longrightarrow> \<forall>x\<in>set xs. \<not> P x"
  by (induction xs) (auto split: if_splits)

lemma distinct_map_inj:
  "distinct (map f xs) \<Longrightarrow> x \<in> set xs \<Longrightarrow> y \<in> set xs \<Longrightarrow> f x = f y \<Longrightarrow> x = y"
  by (meson distinct_map inj_onD)

text \<open>The ways ensureUser ends.\<close>

lemma ensureUser_existing_update:
  assumes "select_user_by_sub sub (DB w) = Some ex" and "truthy_str em \<or> truthy_str nm"
  shows "ensureUser e sub em nm w =
           (Inr (ex\<lparr>u_email := nullish em (u_email ex), u_name := nullish nm (u_name ex)\<rparr>),
            w\<lparr>DB := (DB w)\<lparr>users := map (\<lambda>u. if u_id u = u_id ex
                        then u\<lparr>u_email := coalesce em (u_email u), u_name := coalesce nm (u_name u)\<rparr>
                        else u) (users (DB w))\<rparr>,
               journal := journal w @ [UpdateUser (u_id ex) em nm]\<rparr>)"
  using assms
  by (simp add: ensureUser_def and_then_def run_stmt_def sql_update_user_def return_def)

lemma ensureUser_existing_keep:
  assumes "select_user_by_sub sub (DB w) = Some ex" and "\<not> (truthy_str em \<or> truthy_str nm)"
  shows "ensureUser e sub em nm w = (Inr ex, w)"
  using assms by (simp add: ensureUser_def return_def)

lemma ensureUser_new:
  fixes em nm :: "string option"
  assumes none: "select_user_by_sub sub (DB w) = None"
      and fresh: "randomUUID e (uuid_draws w) \<notin> set (map u_id (users (DB w)))"
  defines "row \<equiv> \<lparr>u_id = randomUUID e (uuid_draws w), u_access_sub = sub, u_email = em,
                    u_name = nm, u_created_at = now e\<rparr>"
  shows "ensureUser e sub em nm w =
           (Inr row, w\<lparr>uuid_draws := Suc (uuid_draws w),
                        DB := (DB w)\<lparr>users := users (DB w) @ [row]\<rparr>,
                        journal := journal w @ [InsertUser row]\<rparr>)"
proof -
  have nosub: "sub \<notin> set (map u_access_sub (users (DB w)))"
    using find_None_all[OF none[unfolded select_user_by_sub_def]] by auto
  have ins: "sql_insert_user row (DB w) = Inr ((DB w)\<lparr>users := users (DB w) @ [row]\<rparr>)"
    using fresh nosub by (simp add: sql_insert_user_def row_def)
  have fnd: "find (\<lambda>u. u_id u = randomUUID e (uuid_draws w)) (users (DB w) @ [row]) = Some row"
    using fresh by (intro find_append_fresh) (force simp: row_def)+
  show ?thesis
    using none ins fnd
    by (simp add: ensureUser_def and_then_def crypto_randomUUID_def run_stmt_def return_def
        select_user_by_id_def Let_def row_def[symmetric])
qed

text \<open>
  When the subject has a row, or the id drawn for a new row is unused, ensureUser
  returns a user; it touches nothing but the \<open>users\<close> table, and there only the row of
  its subject; the user it returns is not the owner of another subject's row.
\<close>

lemma ensureUser_outcome:
  assumes wf: "distinct (map u_id (users (DB w)))"
      and "select_user_by_sub sub (DB w) \<noteq> None
             \<or> randomUUID e (uuid_draws w) \<notin> set (map u_id (users (DB w)))"
  shows "\<exists>user w'. ensureUser e sub em nm w = (Inr user, w')
           \<and> outside_users_unchanged w w' \<and> user_upsert_only sub w w'
           \<and> u_access_sub user = sub
           \<and> (select_user_by_sub sub (DB w) = None \<longrightarrow>
                 u_id user = randomUUID e (uuid_draws w) \<and> uuid_draws w' = Suc (uuid_draws w)
                 \<and> users (DB w') = users (DB w) @ [user])
           \<and> (select_user_by_sub sub (DB w) \<noteq> None \<longrightarrow>
                 uuid_draws w' = uuid_draws w
                 \<and> map u_id (users (DB w')) = map u_id (users (DB w))
                 \<and> (\<exists>ex. select_user_by_sub sub (DB w) = Some ex \<and> u_id user = u_id ex))"
proof (cases "select_user_by_sub sub (DB w)")
  case None
  with assms have fresh: "randomUUID e (uuid_draws w) \<notin> set (map u_id (users (DB w)))" by simp
  show ?thesis
    unfolding ensureUser_new[OF None fresh]
    by (simp add: None outside_users_unchanged_def user_upsert_only_def)
next
  case (Some ex)
  have sub: "u_access_sub ex = sub"
    using find_Some_mem[OF Some[unfolded select_user_by_sub_def]] by simp
  have ids: "map u_id (map (\<lambda>u. if u_id u = u_id ex
               then u\<lparr>u_email := coalesce em (u_email u), u_name := coalesce nm (u_name u)\<rparr>
               else u) (users (DB w))) = map u_id (users (DB w))"
    by (induction "users (DB w)") auto
  have flt: "filter (\<lambda>u. u_access_sub u \<noteq> sub) (map (\<lambda>u. if u_id u = u_id ex
               then u\<lparr>u_email := coalesce em (u_email u), u_name := coalesce nm (u_name u)\<rparr>
               else u) (users (DB w))) = filter (\<lambda>u. u_access_sub u \<noteq> sub) (users (DB w))"
  proof -
    have ex_in: "ex \<in> set (users (DB w))"
      using find_Some_mem[OF Some[unfolded select_user_by_sub_def]] by simp
    have same: "\<forall>u\<in>set (users (DB w)). u_id u = u_id ex \<longrightarrow> u_access_sub u = sub"
      using distinct_map_inj[OF wf _ ex_in] sub by blast
    have gen: "\<And>xs. \<forall>u\<in>set xs. u_id u = u_id ex \<longrightarrow> u_access_sub u = sub \<Longrightarrow>
            filter (\<lambda>u. u_access_sub u \<noteq> sub) (map (\<lambda>u. if u_id u = u_id ex
               then u\<lparr>u_email := coalesce em (u_email u), u_name := coalesce nm (u_name u)\<rparr>
               else u) xs) = filter (\<lambda>u. u_access_sub u \<noteq> sub) xs"
      subgoal for xs by (induction xs) auto
      done
    show ?thesis by (rule gen[OF same])
  qed
  show ?thesis
  proof (cases "truthy_str em \<or> truthy_str nm")
    case True
    show ?thesis
      unfolding ensureUser_existing_update[OF Some True]
      using ids flt
      by (simp add: Some sub outside_users_unchanged_def user_upsert_only_def)
  next
    case False
    show ?thesis
      unfolding ensureUser_existing_keep[OF Some False]
      by (simp add: Some sub outside_users_unchanged_def user_upsert_only_def)
  qed
qed

text \<open>The \<open>users\<close> table ensureUser leaves behind.\<close>

lemma ensureUser_users:
  assumes "select_user_by_sub sub (DB w) \<noteq> None
             \<or> randomUUID e (uuid_draws w) \<notin> set (map u_id (users (DB w)))"
  shows "users (DB (snd (ensureUser e sub em nm w))) = users_after_upsert e sub em nm w"
proof (cases "select_user_by_sub sub (DB w)")
  case None
  with assms have fresh: "randomUUID e (uuid_draws w) \<notin> set (map u_id (users (DB w)))" by simp
  show ?thesis
    unfolding ensureUser_new[OF None fresh] by (simp add: users_after_upsert_def None)
next
  case (Some ex)
  show ?thesis
  proof (cases "truthy_str em \<or> truthy_str nm")
    case True
    show ?thesis
      unfolding ensureUser_existing_update[OF Some True]
      using True by (simp add: users_after_upsert_def Some)
  next
    case False
    show ?thesis
      unfolding ensureUser_existing_keep[OF Some False]
      using False by (simp add: users_after_upsert_def Some)
  qed
qed

subsection \<open>The checks every route makes before it generates\<close>

lemma POST_script_gate:
  assumes "subB \<noteq> []" and "topic sp = Some t" and "t \<noteq> []"
      and "ensureUser e subB em nm w = (Inr user, w1)"
  shows "POST_script e \<lparr>x_user_sub = Some subB, x_user_email = em, x_user_name = nm,
                        json_body = Parsed sp\<rparr> w =
           (case projectId sp of
              None \<Rightarrow> script_new_project e user t sp w1
            | Some pid \<Rightarrow>
                if pid = [] then script_new_project e user t sp w1
                else
                  (case getProjectById pid (DB w1) of
                     None \<Rightarrow> (Inr (badRequest ''Project not found''), w1)
                   | Some project \<Rightarrow>
                       if p_user_id project \<noteq> u_id user then
                         (Inr (forbidden ''Project does not belong to user''), w1)
                       else script_cached_or_generate e pid t sp w1))"
  using assms
  by (simp add: POST_script_def and_then_def return_def split: option.splits)

lemma POST_tts_gate:
  assumes "subB \<noteq> []" and "t_projectId tp = Some pid" and "pid \<noteq> []"
      and "t_sections tp = Some secs" and "secs \<noteq> []"
      and "ensureUser e subB em nm w = (Inr user, w1)"
  shows "POST_tts e \<lparr>x_user_sub = Some subB, x_user_email = em, x_user_name = nm,
                     json_body = Parsed tp\<rparr> w =
           (case getProjectById pid (DB w1) of
              None \<Rightarrow> (Inr (badRequest ''Project not found''), w1)
            | Some project \<Rightarrow>
                if p_user_id project \<noteq> u_id user then
                  (Inr (forbidden ''Project does not belong to user''), w1)
                else tts_run e project tp secs w1)"
  using assms
  by (simp add: POST_tts_def and_then_def return_def split: option.splits)

lemma POST_image_gate:
  assumes "subB \<noteq> []" and "i_projectId ip = Some pid" and "pid \<noteq> []"
      and "i_prompt ip = Some pr" and "pr \<noteq> []"
      and "ensureUser e subB em nm w = (Inr user, w1)"
  shows "POST_image e \<lparr>x_user_sub = Some subB, x_user_email = em, x_user_name = nm,
                       json_body = Parsed ip\<rparr> w =
           (case getProjectById pid (DB w1) of
              None \<Rightarrow> (Inr (badRequest ''Project not found''), w1)
            | Some project \<Rightarrow>
                if p_user_id project \<noteq> u_id user then
                  (Inr (forbidden ''Project does not belong to user''), w1)
                else image_run e project ip pr w1)"
  using assms
  by (simp add: POST_image_def and_then_def return_def split: option.splits)

text \<open>The user ensureUser returns for subject B does not own what a user A of another subject owns.\<close>

lemma ensureUser_not_owner:
  assumes wf: "distinct (map u_id (users (DB w)))"
      and usr: "select_user_by_sub subB (DB w) \<noteq> None
                  \<or> randomUUID e (uuid_draws w) \<notin> set (map u_id (users (DB w)))"
      and A: "A \<in> set (users (DB w))" and other: "u_access_sub A \<noteq> subB"
      and eu: "ensureUser e subB em nm w = (Inr user, w1)"
  shows "u_id user \<noteq> u_id A"
proof -
  from ensureUser_outcome[OF wf usr, of em nm] eu
  have new: "select_user_by_sub subB (DB w) = None \<longrightarrow> u_id user = randomUUID e (uuid_draws w)"
    and old: "select_user_by_sub subB (DB w) \<noteq> None \<longrightarrow>
                (\<exists>ex. select_user_by_sub subB (DB w) = Some ex \<and> u_id user = u_id ex)"
    by auto
  show ?thesis
  proof (cases "select_user_by_sub subB (DB w)")
    case None
    with usr have "randomUUID e (uuid_draws w) \<notin> set (map u_id (users (DB w)))" by simp
    with A new None show ?thesis by auto
  next
    case (Some ex)
    with old have id: "u_id user = u_id ex" by simp
    have ex: "ex \<in> set (users (DB w))" "u_access_sub ex = subB"
      using find_Some_mem[OF Some[unfolded select_user_by_sub_def]] by simp_all
    show ?thesis
    proof
      assume "u_id user = u_id A"
      with id have "u_id ex = u_id A" by simp
      from distinct_map_inj[OF wf ex(1) A this] ex(2) other show False by simp
    qed
  qed
qed

text \<open>
  C1 (as amended). A project of user A, and a request under another subject B that
  passes the route's validation of its body and names that project: each of the three
  routes answers 403 and creates no project, version, asset or job row, no cache entry
  and no stored object. What the request leaves behind differs from what it found only
  by the upsert of B's own \<open>users\<close> row: the table afterwards is the table before
  with a row for B added when B had none, with the email and name of the request
  written over those of B's row when B had one and the request supplies either, and
  the same table otherwise; the rows of all other users are as they were.
\<close>

theorem foreign_project_forbidden:
  assumes wf: "distinct (map u_id (users (DB w)))"
      and proj: "getProjectById pid (DB w) = Some project"
      and A: "A \<in> set (users (DB w))" and own: "p_user_id project = u_id A"
      and other: "u_access_sub A \<noteq> subB" and sub: "subB \<noteq> []" and pid: "pid \<noteq> []"
      and usr: "select_user_by_sub subB (DB w) \<noteq> None
                  \<or> randomUUID e (uuid_draws w) \<notin> set (map u_id (users (DB w)))"
      and sp: "topic sp = Some t" "t \<noteq> []" "projectId sp = Some pid"
      and tp: "t_projectId tp = Some pid" "t_sections tp = Some secs" "secs \<noteq> []"
      and ip: "i_projectId ip = Some pid" "i_prompt ip = Some pr" "pr \<noteq> []"
  shows "(\<exists>w'. POST_script e \<lparr>x_user_sub = Some subB, x_user_email = em, x_user_name = nm,
                              json_body = Parsed sp\<rparr> w
                 = (Inr \<lparr>status = 403, body = ErrorBody ''Project does not belong to user''\<rparr>, w')
               \<and> outside_users_unchanged w w' \<and> user_upsert_only subB w w'
               \<and> users (DB w') = users_after_upsert e subB em nm w)
       \<and> (\<exists>w'. POST_tts e \<lparr>x_user_sub = Some subB, x_user_email = em, x_user_name = nm,
                              json_body = Parsed tp\<rparr> w
                 = (Inr \<lparr>status = 403, body = ErrorBody ''Project does not belong to user''\<rparr>, w')
               \<and> outside_users_unchanged w w' \<and> user_upsert_only subB w w'
               \<and> users (DB w') = users_after_upsert e subB em nm w)
       \<and> (\<exists>w'. POST_image e \<lparr>x_user_sub = Some subB, x_user_email = em, x_user_name = nm,
                              json_body = Parsed ip\<rparr> w
                 = (Inr \<lparr>status = 403, body = ErrorBody ''Project does not belong to user''\<rparr>, w')
               \<and> outside_users_unchanged w w' \<and> user_upsert_only subB w w'
               \<and> users (DB w') = users_after_upsert e subB em nm w)"
proof -
  from ensureUser_outcome[OF wf usr, of em nm] obtain user w1 where
    eu: "ensureUser e subB em nm w = (Inr user, w1)"
    and fr: "outside_users_unchanged w w1" and up: "user_upsert_only subB w w1"
    by blast
  have tbl: "users (DB w1) = users_after_upsert e subB em nm w"
    using ensureUser_users[OF usr, of em nm] eu by simp
  have ne: "u_id user \<noteq> u_id A"
    by (rule ensureUser_not_owner[OF wf usr A other eu])
  have proj1: "getProjectById pid (DB w1) = Some project"
    using proj fr by (simp add: getProjectById_def outside_users_unchanged_def)
  have mismatch: "p_user_id project \<noteq> u_id user"
    using ne own by simp
  have s: "POST_script e \<lparr>x_user_sub = Some subB, x_user_email = em, x_user_name = nm,
                          json_body = Parsed sp\<rparr> w
             = (Inr (forbidden ''Project does not belong to user''), w1)"
    unfolding POST_script_gate[OF sub sp(1,2) eu] using sp(3) pid proj1 mismatch by simp
  have t: "POST_tts e \<lparr>x_user_sub = Some subB, x_user_email = em, x_user_name = nm,
                       json_body = Parsed tp\<rparr> w
             = (Inr (forbidden ''Project does not belong to user''), w1)"
    unfolding POST_tts_gate[OF sub tp(1) pid tp(2,3) eu] using proj1 mismatch by simp
  have i: "POST_image e \<lparr>x_user_sub = Some subB, x_user_email = em, x_user_name = nm,
                         json_body = Parsed ip\<rparr> w
             = (Inr (forbidden ''Project does not belong to user''), w1)"
    unfolding POST_image_gate[OF sub ip(1) pid ip(2,3) eu] using proj1 mismatch by simp
  show ?thesis
    unfolding s t i using fr up tbl by (auto simp: forbidden_def json_response_def)
qed

lemmas io_defs = return_def throw_def and_then_def try_catch_def crypto_randomUUID_def run_stmt_def
  Let_def

lemmas sql_defs = sql_insert_user_def sql_update_user_def sql_insert_project_def
  sql_update_project_def sql_insert_version_def sql_insert_job_def sql_update_job_def
  sql_insert_asset_def

lemmas client_defs = select_user_by_sub_def select_user_by_id_def ensureUser_def getProjectById_def
  createProject_def updateProjectMetadata_def select_last_version_def select_version_by_id_def
  insertProjectVersion_def select_job_by_id_def insertGenerationJob_def
  updateGenerationJobStatus_def select_asset_by_id_def insertAsset_def

lemmas route_defs = json_response_def unauthorized_def badRequest_def forbidden_def
  prop_truthy_def generateYoutubeScript_def CACHE_get_def CACHE_put_def json_of_opt_str_def
  json_of_opt_num_def cacheBase_def cacheKey_def bind_title_def script_generate_def
  script_cached_or_generate_def script_new_project_def POST_script_def synthesizeSpeech_def
  MEDIA_BUCKET_put_def tts_section_def tts_run_def POST_tts_def generateImage_def image_run_def
  POST_image_def

lemmas demo_defs = demo_uuid_def demo_stringify_def demo_script_def demo_env_def empty_db_def
  empty_world_def alice_def bob_def alice_project_def demo_version_def demo_world_def
  request_of_def script_body_def tts_body_def section_of_def image_body_def

theorem foreign_project_forbidden_witness:
  "fst (POST_script demo_env (request_of ''sub-b'' (script_body (Some ''Tides'') (Some ''proj-a'')))
          demo_world)
     = Inr \<lparr>status = 403, body = ErrorBody ''Project does not belong to user''\<rparr>
   \<and> fst (POST_tts demo_env (request_of ''sub-b'' (tts_body ''proj-a'' [section_of ''Intro'' ''Hello'']))
            demo_world)
     = Inr \<lparr>status = 403, body = ErrorBody ''Project does not belong to user''\<rparr>
   \<and> fst (POST_image demo_env (request_of ''sub-b'' (image_body ''proj-a'' ''A wave'')) demo_world)
     = Inr \<lparr>status = 403, body = ErrorBody ''Project does not belong to user''\<rparr>"
proof -
  have wf: "distinct (map u_id (users (DB demo_world)))"
    by (simp add: demo_defs)
  have proj: "getProjectById ''proj-a'' (DB demo_world) = Some alice_project"
    by (simp add: getProjectById_def demo_defs)
  have A: "alice \<in> set (users (DB demo_world))"
    by (simp add: demo_defs)
  have own: "p_user_id alice_project = u_id alice"
    by (simp add: demo_defs)
  have other: "u_access_sub alice \<noteq> ''sub-b''"
    by (simp add: demo_defs)
  have usr: "select_user_by_sub ''sub-b'' (DB demo_world) \<noteq> None
               \<or> randomUUID demo_env (uuid_draws demo_world) \<notin> set (map u_id (users (DB demo_world)))"
    by (simp add: select_user_by_sub_def demo_defs)
  from foreign_project_forbidden[OF wf proj A own other _ _ usr,
      of "script_body (Some ''Tides'') (Some ''proj-a'')" "''Tides''"
         "tts_body ''proj-a'' [section_of ''Intro'' ''Hello'']" "[section_of ''Intro'' ''Hello'']"
         "image_body ''proj-a'' ''A wave''" "''A wave''" None None]
  show ?thesis
    by (auto simp: request_of_def script_body_def tts_body_def image_body_def)
qed

text \<open>
  C1 as stated fails: a subject with no \<open>users\<close> row names Alice's project; the image
  route answers 403, and the \<open>users\<close> table has a new row, so the persisted state is
  not what it was.
\<close>

theorem foreign_project_counterexample:
  "fst (POST_image demo_env (request_of ''sub-c'' (image_body ''proj-a'' ''A wave'')) demo_world)
     = Inr \<lparr>status = 403, body = ErrorBody ''Project does not belong to user''\<rparr>
   \<and> users (DB (snd (POST_image demo_env (request_of ''sub-c'' (image_body ''proj-a'' ''A wave''))
                        demo_world)))
     = users (DB demo_world) @
         [\<lparr>u_id = ''uuid-'', u_access_sub = ''sub-c'', u_email = None, u_name = None,
           u_created_at = 1000\<rparr>]
   \<and> DB (snd (POST_image demo_env (request_of ''sub-c'' (image_body ''proj-a'' ''A wave''))
                 demo_world)) \<noteq> DB demo_world"
  by (simp add: io_defs sql_defs client_defs route_defs demo_defs)

subsection \<open>A project id that matches no project\<close>

text \<open>
  C7 (as amended). A request that passes the route's validation of its body and names
  a project that does not exist: each of the three routes answers 400 with the message
  "Project not found" (there is no 404 in the routes); the answer differs from the
  403 of a project owned by someone else, and the request leaves behind only the
  upsert of the caller's \<open>users\<close> row.
\<close>

theorem missing_project_bad_request:
  assumes wf: "distinct (map u_id (users (DB w)))"
      and missing: "getProjectById pid (DB w) = None"
      and sub: "subB \<noteq> []" and pid: "pid \<noteq> []"
      and usr: "select_user_by_sub subB (DB w) \<noteq> None
                  \<or> randomUUID e (uuid_draws w) \<notin> set (map u_id (users (DB w)))"
      and sp: "topic sp = Some t" "t \<noteq> []" "projectId sp = Some pid"
      and tp: "t_projectId tp = Some pid" "t_sections tp = Some secs" "secs \<noteq> []"
      and ip: "i_projectId ip = Some pid" "i_prompt ip = Some pr" "pr \<noteq> []"
  shows "(\<exists>w'. POST_script e \<lparr>x_user_sub = Some subB, x_user_email = em, x_user_name = nm,
                              json_body = Parsed sp\<rparr> w
                 = (Inr \<lparr>status = 400, body = ErrorBody ''Project not found''\<rparr>, w')
               \<and> outside_users_unchanged w w' \<and> user_upsert_only subB w w')
       \<and> (\<exists>w'. POST_tts e \<lparr>x_user_sub = Some subB, x_user_email = em, x_user_name = nm,
                              json_body = Parsed tp\<rparr> w
                 = (Inr \<lparr>status = 400, body = ErrorBody ''Project not found''\<rparr>, w')
               \<and> outside_users_unchanged w w' \<and> user_upsert_only subB w w')
       \<and> (\<exists>w'. POST_image e \<lparr>x_user_sub = Some subB, x_user_email = em, x_user_name = nm,
                              json_body = Parsed ip\<rparr> w
                 = (Inr \<lparr>status = 400, body = ErrorBody ''Project not found''\<rparr>, w')
               \<and> outside_users_unchanged w w' \<and> user_upsert_only subB w w')
       \<and> badRequest ''Project not found'' \<noteq> forbidden ''Project does not belong to user''
       \<and> status (badRequest ''Project not found'') = 400
       \<and> status (forbidden ''Project does not belong to user'') = 403"
proof -
  from ensureUser_outcome[OF wf usr, of em nm] obtain user w1 where
    eu: "ensureUser e subB em nm w = (Inr user, w1)"
    and fr: "outside_users_unchanged w w1" and up: "user_upsert_only subB w w1"
    by blast
  have none1: "getProjectById pid (DB w1) = None"
    using missing fr by (simp add: getProjectById_def outside_users_unchanged_def)
  have s: "POST_script e \<lparr>x_user_sub = Some subB, x_user_email = em, x_user_name = nm,
                          json_body = Parsed sp\<rparr> w
             = (Inr (badRequest ''Project not found''), w1)"
    unfolding POST_script_gate[OF sub sp(1,2) eu] using sp(3) pid none1 by simp
  have t: "POST_tts e \<lparr>x_user_sub = Some subB, x_user_email = em, x_user_name = nm,
                       json_body = Parsed tp\<rparr> w
             = (Inr (badRequest ''Project not found''), w1)"
    unfolding POST_tts_gate[OF sub tp(1) pid tp(2,3) eu] using none1 by simp
  have i: "POST_image e \<lparr>x_user_sub = Some subB, x_user_email = em, x_user_name = nm,
                         json_body = Parsed ip\<rparr> w
             = (Inr (badRequest ''Project not found''), w1)"
    unfolding POST_image_gate[OF sub ip(1) pid ip(2,3) eu] using none1 by simp
  show ?thesis
    unfolding s t i using fr up by (auto simp: badRequest_def forbidden_def json_response_def)
qed

theorem missing_project_bad_request_witness:
  "fst (POST_script demo_env (request_of ''sub-b'' (script_body (Some ''Tides'') (Some ''proj-x'')))
          demo_world)
     = Inr \<lparr>status = 400, body = ErrorBody ''Project not found''\<rparr>
   \<and> fst (POST_tts demo_env (request_of ''sub-b'' (tts_body ''proj-x'' [section_of ''Intro'' ''Hello'']))
            demo_world)
     = Inr \<lparr>status = 400, body = ErrorBody ''Project not found''\<rparr>
   \<and> fst (POST_image demo_env (request_of ''sub-b'' (image_body ''proj-x'' ''A wave'')) demo_world)
     = Inr \<lparr>status = 400, body = ErrorBody ''Project not found''\<rparr>"
proof -
  have wf: "distinct (map u_id (users (DB demo_world)))"
    by (simp add: demo_defs)
  have missing: "getProjectById ''proj-x'' (DB demo_world) = None"
    by (simp add: getProjectById_def demo_defs)
  have usr: "select_user_by_sub ''sub-b'' (DB demo_world) \<noteq> None
               \<or> randomUUID demo_env (uuid_draws demo_world) \<notin> set (map u_id (users (DB demo_world)))"
    by (simp add: select_user_by_sub_def demo_defs)
  from missing_project_bad_request[OF wf missing _ _ usr,
      where sp = "script_body (Some ''Tides'') (Some ''proj-x'')" and t = "''Tides''"
        and tp = "tts_body ''proj-x'' [section_of ''Intro'' ''Hello'']"
        and secs = "[section_of ''Intro'' ''Hello'']"
        and ip = "image_body ''proj-x'' ''A wave''" and pr = "''A wave''"
        and em = None and nm = None]
  show ?thesis
    by (auto simp: request_of_def script_body_def tts_body_def image_body_def)
qed

text \<open>
  C7 as stated fails: the image route answers a project id that matches no project
  with status 400, not 404.
\<close>

theorem missing_project_counterexample:
  "map_sum message status
     (fst (POST_image demo_env (request_of ''sub-b'' (image_body ''proj-x'' ''A wave'')) demo_world))
     = Inr 400
   \<and> map_sum message status
     (fst (POST_image demo_env (request_of ''sub-b'' (image_body ''proj-x'' ''A wave'')) demo_world))
     \<noteq> Inr 404"
  by (simp add: io_defs sql_defs client_defs route_defs demo_defs)

subsection \<open>The inserts and updates of a generation\<close>

lemma insertGenerationJob_run:
  fixes payload :: job_payload and ty :: string and st :: "string option"
  assumes fresh: "randomUUID e (uuid_draws w) \<notin> set (map j_id (generation_jobs (DB w)))"
      and fk: "pid \<in> set (map p_id (projects (DB w)))"
  defines "row \<equiv> \<lparr>j_id = randomUUID e (uuid_draws w), j_project_id = pid, j_job_type = ty,
                    j_status = (case st of Some s \<Rightarrow> s | None \<Rightarrow> ''queued''),
                    j_payload = payload, j_error = None,
                    j_created_at = now e, j_updated_at = now e\<rparr>"
  shows "insertGenerationJob e pid ty st payload w =
           (Inr row, w\<lparr>uuid_draws := Suc (uuid_draws w),
                        DB := (DB w)\<lparr>generation_jobs := generation_jobs (DB w) @ [row]\<rparr>,
                        journal := journal w @ [InsertJob row]\<rparr>)"
proof -
  have ins: "sql_insert_job row (DB w) =
               Inr ((DB w)\<lparr>generation_jobs := generation_jobs (DB w) @ [row]\<rparr>)"
    using fresh fk by (simp add: sql_insert_job_def row_def)
  have fnd: "find (\<lambda>j. j_id j = randomUUID e (uuid_draws w)) (generation_jobs (DB w) @ [row])
               = Some row"
    using fresh by (intro find_append_fresh) (force simp: row_def)+
  show ?thesis
    using ins fnd
    by (simp add: insertGenerationJob_def and_then_def crypto_randomUUID_def run_stmt_def
        return_def select_job_by_id_def Let_def row_def[symmetric])
qed

lemma insertAsset_run:
  fixes label mime :: "string option" and sizeBytes :: "nat option" and ty r2Key :: string
  assumes fresh: "randomUUID e (uuid_draws w) \<notin> set (map a_id (assets (DB w)))"
      and fk: "pid \<in> set (map p_id (projects (DB w)))"
  defines "row \<equiv> \<lparr>a_id = randomUUID e (uuid_draws w), a_project_id = pid, a_type = ty,
                    a_label = label, a_r2_key = r2Key, a_mime_type = mime,
                    a_size_bytes = sizeBytes, a_created_at = now e\<rparr>"
  shows "insertAsset e pid ty label r2Key mime sizeBytes w =
           (Inr row, w\<lparr>uuid_draws := Suc (uuid_draws w),
                        DB := (DB w)\<lparr>assets := assets (DB w) @ [row]\<rparr>,
                        journal := journal w @ [InsertAsset row]\<rparr>)"
proof -
  have ins: "sql_insert_asset row (DB w) = Inr ((DB w)\<lparr>assets := assets (DB w) @ [row]\<rparr>)"
    using fresh fk by (simp add: sql_insert_asset_def row_def)
  have fnd: "find (\<lambda>a. a_id a = randomUUID e (uuid_draws w)) (assets (DB w) @ [row]) = Some row"
    using fresh by (intro find_append_fresh) (force simp: row_def)+
  show ?thesis
    using ins fnd
    by (simp add: insertAsset_def and_then_def crypto_randomUUID_def run_stmt_def
        return_def select_asset_by_id_def Let_def row_def[symmetric])
qed

lemma createProject_run:
  fixes title tpc :: "string option" and targetLength :: "int option"
  assumes fresh: "randomUUID e (uuid_draws w) \<notin> set (map p_id (projects (DB w)))"
      and fk: "userId \<in> set (map u_id (users (DB w)))"
  defines "row \<equiv> \<lparr>p_id = randomUUID e (uuid_draws w), p_user_id = userId, p_title = title,
                    p_topic = tpc, p_target_length = targetLength, p_status = ''draft'',
                    p_created_at = now e, p_updated_at = now e\<rparr>"
  shows "createProject e userId title tpc targetLength w =
           (Inr row, w\<lparr>uuid_draws := Suc (uuid_draws w),
                        DB := (DB w)\<lparr>projects := projects (DB w) @ [row]\<rparr>,
                        journal := journal w @ [InsertProject row]\<rparr>)"
proof -
  have ins: "sql_insert_project row (DB w) = Inr ((DB w)\<lparr>projects := projects (DB w) @ [row]\<rparr>)"
    using fresh fk by (simp add: sql_insert_project_def row_def)
  have fnd: "find (\<lambda>p. p_id p = randomUUID e (uuid_draws w)) (projects (DB w) @ [row]) = Some row"
    using fresh by (intro find_append_fresh) (force simp: row_def)+
  show ?thesis
    using ins fnd
    by (simp add: createProject_def and_then_def crypto_randomUUID_def run_stmt_def
        return_def getProjectById_def Let_def row_def[symmetric])
qed

lemma updateGenerationJobStatus_run:
  "updateGenerationJobStatus e jid st er w =
     (Inr (), w\<lparr>DB := (DB w)\<lparr>generation_jobs :=
                     map (\<lambda>j. if j_id j = jid
                               then j\<lparr>j_status := st, j_error := er, j_updated_at := now e\<rparr>
                               else j) (generation_jobs (DB w))\<rparr>,
                 journal := journal w @ [UpdateJob jid st er]\<rparr>)"
  by (simp add: updateGenerationJobStatus_def run_stmt_def sql_update_job_def)

lemma updateProjectMetadata_run:
  "updateProjectMetadata e pid ti tp st w =
     (Inr (), w\<lparr>DB := (DB w)\<lparr>projects :=
                     map (\<lambda>p. if p_id p = pid
                               then p\<lparr>p_title := coalesce ti (p_title p),
                                      p_topic := coalesce tp (p_topic p),
                                      p_status := (case st of Some s \<Rightarrow> s | None \<Rightarrow> p_status p),
                                      p_updated_at := now e\<rparr>
                               else p) (projects (DB w))\<rparr>,
                 journal := journal w @ [UpdateProject pid ti tp st]\<rparr>)"
  by (simp add: updateProjectMetadata_def run_stmt_def sql_update_project_def)

text \<open>An UPDATE by id of the row that was appended under an unused id changes that row only.\<close>

lemma map_update_appended:
  assumes "\<forall>x\<in>set xs. key x \<noteq> key y"
  shows "map (\<lambda>x. if key x = key y then f x else x) (xs @ [y]) = xs @ [f y]"
  using assms by (induction xs) auto

subsection \<open>Speech synthesis stops at the first section that fails\<close>

lemma tts_section_ok:
  fixes bytes :: "byte list" and pid :: string
  assumes text1: "s_text sec = Some tx" "tx \<noteq> []"
      and synth: "google_tts e \<lparr>tp_text = tx, tp_voice = t_voice tp,
                                tp_audioConfig = t_audioConfig tp\<rparr> = Inr bytes"
      and stored: "r2_put_ok e (''audio/'' @ pid @ ''/'' @ randomUUID e (uuid_draws w) @ ''.mp3'')"
      and fresh: "randomUUID e (Suc (uuid_draws w)) \<notin> set (map a_id (assets (DB w)))"
      and fk: "pid \<in> set (map p_id (projects (DB w)))"
  defines "key \<equiv> ''audio/'' @ pid @ ''/'' @ randomUUID e (uuid_draws w) @ ''.mp3''"
  defines "asset \<equiv> \<lparr>a_id = randomUUID e (Suc (uuid_draws w)), a_project_id = pid,
                      a_type = ''audio'',
                      a_label = nullish (nullish (s_heading sec) (s_id sec)) (Some ''Audio Segment''),
                      a_r2_key = key, a_mime_type = Some ''audio/mpeg'',
                      a_size_bytes = Some (length bytes), a_created_at = now e\<rparr>"
  shows "tts_section e pid tp sec w =
           (Inr \<lparr>ta_assetId = a_id asset, ta_key = key, ta_heading = s_heading sec\<rparr>,
            w\<lparr>uuid_draws := Suc (Suc (uuid_draws w)),
              MEDIA_BUCKET := (key, \<lparr>o_body = bytes, o_contentType = ''audio/mpeg''\<rparr>) # MEDIA_BUCKET w,
              DB := (DB w)\<lparr>assets := assets (DB w) @ [asset]\<rparr>,
              journal := journal w @ [InsertAsset asset]\<rparr>)"
proof -
  let ?w1 = "w\<lparr>uuid_draws := Suc (uuid_draws w),
               MEDIA_BUCKET := (key, \<lparr>o_body = bytes, o_contentType = ''audio/mpeg''\<rparr>) # MEDIA_BUCKET w\<rparr>"
  have ia: "insertAsset e pid ''audio''
              (nullish (nullish (s_heading sec) (s_id sec)) (Some ''Audio Segment''))
              key (Some ''audio/mpeg'') (Some (length bytes)) ?w1 =
            (Inr asset,
             w\<lparr>uuid_draws := Suc (Suc (uuid_draws w)),
               MEDIA_BUCKET := (key, \<lparr>o_body = bytes, o_contentType = ''audio/mpeg''\<rparr>) # MEDIA_BUCKET w,
               DB := (DB w)\<lparr>assets := assets (DB w) @ [asset]\<rparr>,
               journal := journal w @ [InsertAsset asset]\<rparr>)"
    using insertAsset_run[of e ?w1 pid "''audio''"
            "nullish (nullish (s_heading sec) (s_id sec)) (Some ''Audio Segment'')"
            key "Some ''audio/mpeg''" "Some (length bytes)"] fresh fk
    by (simp add: asset_def)
  show ?thesis
    unfolding tts_section_def
    using text1 synth stored ia
    by (simp add: and_then_def synthesizeSpeech_def return_def crypto_randomUUID_def
        MEDIA_BUCKET_put_def Let_def key_def)
qed

lemma tts_section_no_text:
  assumes "\<not> truthy_str (s_text sec)"
  shows "tts_section e pid tp sec w = (Inl (Error ''Section text is required''), w)"
  using assms by (cases "s_text sec") (simp_all add: tts_section_def throw_def)

text \<open>
  C5. A caller with a \<open>users\<close> row sends three sections for a project of theirs; the
  first section has text, and its synthesis, its R2 write and its asset insert
  succeed; the second section has no text. The route answers 500. The job of the
  request, inserted as "running", is left "failed" with the error "Section text is
  required"; exactly one asset row was added, the first section's, and it and its
  stored object stay (nothing is rolled back): the statements run after the user
  upsert are the job insert, the asset insert and the job update, in that order.
\<close>

theorem tts_second_section_empty:
  fixes s1 s2 s3 :: SectionInput and bytes :: "byte list"
  assumes wf: "distinct (map u_id (users (DB w)))"
      and caller: "select_user_by_sub sub (DB w) = Some owner" and sub: "sub \<noteq> []"
      and proj: "getProjectById pid (DB w) = Some project" and own: "p_user_id project = u_id owner"
      and pid: "pid \<noteq> []"
      and tp: "t_projectId tp = Some pid" "t_sections tp = Some [s1, s2, s3]"
      and first: "s_text s1 = Some tx" "tx \<noteq> []"
      and second: "\<not> truthy_str (s_text s2)"
      and synth: "google_tts e \<lparr>tp_text = tx, tp_voice = t_voice tp,
                                tp_audioConfig = t_audioConfig tp\<rparr> = Inr bytes"
      and stored: "r2_put_ok e (''audio/'' @ pid @ ''/'' @ randomUUID e (Suc (uuid_draws w)) @ ''.mp3'')"
      and fresh_job: "randomUUID e (uuid_draws w) \<notin> set (map j_id (generation_jobs (DB w)))"
      and fresh_asset: "randomUUID e (Suc (Suc (uuid_draws w))) \<notin> set (map a_id (assets (DB w)))"
  shows "\<exists>w' job asset us.
           POST_tts e \<lparr>x_user_sub = Some sub, x_user_email = em, x_user_name = nm,
                        json_body = Parsed tp\<rparr> w
             = (Inr \<lparr>status = 500, body = ErrorBody ''Failed to generate audio''\<rparr>, w')
         \<and> generation_jobs (DB w') = generation_jobs (DB w) @ [job]
         \<and> j_project_id job = pid \<and> j_job_type job = ''tts''
         \<and> j_status job = ''failed'' \<and> j_error job = Some ''Section text is required''
         \<and> assets (DB w') = assets (DB w) @ [asset]
         \<and> a_project_id asset = pid \<and> a_type asset = ''audio''
         \<and> a_label asset = nullish (nullish (s_heading s1) (s_id s1)) (Some ''Audio Segment'')
         \<and> a_size_bytes asset = Some (length bytes)
         \<and> MEDIA_BUCKET w' = (a_r2_key asset, \<lparr>o_body = bytes, o_contentType = ''audio/mpeg''\<rparr>)
                                 # MEDIA_BUCKET w
         \<and> list_all user_stmt us
         \<and> journal w' = journal w @ us @
               [InsertJob (job\<lparr>j_status := ''running'', j_error := None\<rparr>), InsertAsset asset,
                UpdateJob (j_id job) ''failed'' (Some ''Section text is required'')]"
proof -
  have usr: "select_user_by_sub sub (DB w) \<noteq> None
               \<or> randomUUID e (uuid_draws w) \<notin> set (map u_id (users (DB w)))"
    using caller by simp
  from ensureUser_outcome[OF wf usr, of em nm] caller obtain user w1 where
    eu: "ensureUser e sub em nm w = (Inr user, w1)"
    and fr: "outside_users_unchanged w w1" and up: "user_upsert_only sub w w1"
    and draws: "uuid_draws w1 = uuid_draws w" and uid: "u_id user = u_id owner"
    by auto
  define us where "us = drop (length (journal w)) (journal w1)"
  have j1: "journal w1 = journal w @ us" and us: "list_all user_stmt us"
    using up append_take_drop_id[of "length (journal w)" "journal w1"]
    by (simp_all add: user_upsert_only_def us_def)
  have same: "projects (DB w1) = projects (DB w)" "assets (DB w1) = assets (DB w)"
    "generation_jobs (DB w1) = generation_jobs (DB w)" "MEDIA_BUCKET w1 = MEDIA_BUCKET w"
    using fr by (simp_all add: outside_users_unchanged_def)
  have proj1: "getProjectById pid (DB w1) = Some project"
    using proj same by (simp add: getProjectById_def)
  have pp: "p_id project = pid" and pin: "pid \<in> set (map p_id (projects (DB w1)))"
    using find_Some_mem[OF proj[unfolded getProjectById_def]] same by auto
  have gate: "POST_tts e \<lparr>x_user_sub = Some sub, x_user_email = em, x_user_name = nm,
                          json_body = Parsed tp\<rparr> w = tts_run e project tp [s1, s2, s3] w1"
    using POST_tts_gate[OF sub tp(1) pid tp(2) _ eu] proj1 own uid by simp
  define job0 where
    "job0 = \<lparr>j_id = randomUUID e (uuid_draws w), j_project_id = pid, j_job_type = ''tts'',
             j_status = ''running'', j_payload = TtsPayload tp, j_error = None,
             j_created_at = now e, j_updated_at = now e\<rparr>"
  define w2 where
    "w2 = w1\<lparr>uuid_draws := Suc (uuid_draws w),
             DB := (DB w1)\<lparr>generation_jobs := generation_jobs (DB w) @ [job0]\<rparr>,
             journal := journal w @ us @ [InsertJob job0]\<rparr>"
  have ij: "insertGenerationJob e pid ''tts'' (Some ''running'') (TtsPayload tp) w1 = (Inr job0, w2)"
    using insertGenerationJob_run[of e w1 pid "''tts''" "Some ''running''" "TtsPayload tp"]
      fresh_job pin draws same j1
    by (simp add: job0_def w2_def)
  define key where "key = ''audio/'' @ pid @ ''/'' @ randomUUID e (Suc (uuid_draws w)) @ ''.mp3''"
  define asset where
    "asset = \<lparr>a_id = randomUUID e (Suc (Suc (uuid_draws w))), a_project_id = pid,
              a_type = ''audio'',
              a_label = nullish (nullish (s_heading s1) (s_id s1)) (Some ''Audio Segment''),
              a_r2_key = key, a_mime_type = Some ''audio/mpeg'',
              a_size_bytes = Some (length bytes), a_created_at = now e\<rparr>"
  define w3 where
    "w3 = w2\<lparr>uuid_draws := Suc (Suc (Suc (uuid_draws w))),
             MEDIA_BUCKET := (key, \<lparr>o_body = bytes, o_contentType = ''audio/mpeg''\<rparr>) # MEDIA_BUCKET w,
             DB := (DB w2)\<lparr>assets := assets (DB w) @ [asset]\<rparr>,
             journal := journal w @ us @ [InsertJob job0, InsertAsset asset]\<rparr>"
  have sec1: "tts_section e pid tp s1 w2 =
                (Inr \<lparr>ta_assetId = a_id asset, ta_key = key, ta_heading = s_heading s1\<rparr>, w3)"
    using tts_section_ok[of s1 tx e tp bytes pid w2] first synth stored fresh_asset pin same
    by (simp add: w2_def w3_def key_def asset_def)
  have sec2: "tts_section e pid tp s2 w3 = (Inl (Error ''Section text is required''), w3)"
    by (rule tts_section_no_text[OF second])
  have loop: "tts_sections e pid tp [s1, s2, s3] [] w2 = (Inl (Error ''Section text is required''), w3)"
    using sec1 sec2 by (simp add: and_then_def)
  define job where "job = job0\<lparr>j_status := ''failed'', j_error := Some ''Section text is required''\<rparr>"
  have nj: "\<forall>x\<in>set (generation_jobs (DB w)). j_id x \<noteq> j_id job0"
    using fresh_job by (force simp: job0_def)
  have upd: "map (\<lambda>j. if j_id j = j_id job0
                         then j\<lparr>j_status := ''failed'', j_error := Some ''Section text is required'',
                                j_updated_at := now e\<rparr>
                         else j) (generation_jobs (DB w) @ [job0])
               = generation_jobs (DB w) @ [job]"
    using map_update_appended[OF nj,
        of "\<lambda>j. j\<lparr>j_status := ''failed'', j_error := Some ''Section text is required'',
                     j_updated_at := now e\<rparr>"]
    by (simp add: job0_def job_def)
  define w4 where
    "w4 = w3\<lparr>DB := (DB w3)\<lparr>generation_jobs := generation_jobs (DB w) @ [job]\<rparr>,
             journal := journal w @ us @ [InsertJob job0, InsertAsset asset,
                          UpdateJob (j_id job0) ''failed'' (Some ''Section text is required'')]\<rparr>"
  have run: "tts_run e project tp [s1, s2, s3] w1
               = (Inr \<lparr>status = 500, body = ErrorBody ''Failed to generate audio''\<rparr>, w4)"
    unfolding tts_run_def pp
    using ij loop upd
    by (simp add: and_then_def try_catch_def updateGenerationJobStatus_run return_def
        json_response_def w4_def w3_def w2_def)
  have job_run: "job\<lparr>j_status := ''running'', j_error := None\<rparr> = job0"
    by (simp add: job_def job0_def)
  show ?thesis
    unfolding gate run
    apply (rule exI[of _ w4], rule exI[of _ job], rule exI[of _ asset], rule exI[of _ us])
    using us job_run
    by (simp add: w4_def w3_def w2_def same job_def job0_def asset_def)
qed

theorem tts_second_section_empty_witness:
  "fst (POST_tts demo_env
          (request_of ''sub-a'' (tts_body ''proj-a''
             [section_of ''Intro'' ''Hello'', section_of ''Middle'' [], section_of ''End'' ''Bye'']))
          demo_world)
     = Inr \<lparr>status = 500, body = ErrorBody ''Failed to generate audio''\<rparr>
   \<and> map j_status (generation_jobs (DB (snd (POST_tts demo_env
          (request_of ''sub-a'' (tts_body ''proj-a''
             [section_of ''Intro'' ''Hello'', section_of ''Middle'' [], section_of ''End'' ''Bye'']))
          demo_world)))) = [''failed'']
   \<and> map a_label (assets (DB (snd (POST_tts demo_env
          (request_of ''sub-a'' (tts_body ''proj-a''
             [section_of ''Intro'' ''Hello'', section_of ''Middle'' [], section_of ''End'' ''Bye'']))
          demo_world)))) = [Some ''Intro'']"
proof -
  let ?tp = "tts_body ''proj-a''
               [section_of ''Intro'' ''Hello'', section_of ''Middle'' [], section_of ''End'' ''Bye'']"
  have wf: "distinct (map u_id (users (DB demo_world)))"
    by (simp add: demo_defs)
  have caller: "select_user_by_sub ''sub-a'' (DB demo_world) = Some alice"
    by (simp add: select_user_by_sub_def demo_defs)
  have proj: "getProjectById ''proj-a'' (DB demo_world) = Some alice_project"
    by (simp add: getProjectById_def demo_defs)
  have own: "p_user_id alice_project = u_id alice"
    by (simp add: demo_defs)
  have tp: "t_projectId ?tp = Some ''proj-a''"
    "t_sections ?tp = Some [section_of ''Intro'' ''Hello'', section_of ''Middle'' [],
                            section_of ''End'' ''Bye'']"
    by (simp_all add: tts_body_def)
  have first: "s_text (section_of ''Intro'' ''Hello'') = Some ''Hello''"
    and second: "\<not> truthy_str (s_text (section_of ''Middle'' []))"
    by (simp_all add: section_of_def)
  have synth: "google_tts demo_env \<lparr>tp_text = ''Hello'', tp_voice = t_voice ?tp,
                                     tp_audioConfig = t_audioConfig ?tp\<rparr> = Inr [1, 2, 3]"
    by (simp add: demo_env_def)
  have stored: "r2_put_ok demo_env (''audio/'' @ ''proj-a'' @ ''/''
                  @ randomUUID demo_env (Suc (uuid_draws demo_world)) @ ''.mp3'')"
    by (simp add: demo_env_def)
  have fresh_job: "randomUUID demo_env (uuid_draws demo_world)
                     \<notin> set (map j_id (generation_jobs (DB demo_world)))"
    and fresh_asset: "randomUUID demo_env (Suc (Suc (uuid_draws demo_world)))
                     \<notin> set (map a_id (assets (DB demo_world)))"
    by (simp_all add: demo_defs)
  from tts_second_section_empty[OF wf caller _ proj own _ tp first _ second synth stored
      fresh_job fresh_asset, of None None]
  obtain w' job asset where
    r: "POST_tts demo_env \<lparr>x_user_sub = Some ''sub-a'', x_user_email = None, x_user_name = None,
                            json_body = Parsed ?tp\<rparr> demo_world
          = (Inr \<lparr>status = 500, body = ErrorBody ''Failed to generate audio''\<rparr>, w')"
    and j: "generation_jobs (DB w') = generation_jobs (DB demo_world) @ [job]"
           "j_status job = ''failed''"
    and a: "assets (DB w') = assets (DB demo_world) @ [asset]"
           "a_label asset = nullish (nullish (s_heading (section_of ''Intro'' ''Hello''))
                                       (s_id (section_of ''Intro'' ''Hello''))) (Some ''Audio Segment'')"
    by auto
  have e: "generation_jobs (DB demo_world) = []" "assets (DB demo_world) = []"
    by (simp_all add: demo_defs)
  show ?thesis
    unfolding request_of_def r using j a e by (simp add: section_of_def)
qed

subsection \<open>Script generation on a cache miss\<close>

lemma prop_truthy_defined:
  assumes "prop_truthy r k"
  shows "\<exists>v. js_prop r k = Some v \<and> truthy v"
  using assms by (auto simp: prop_truthy_def split: option.splits)

lemma complete_script_truthy:
  assumes "complete_script r"
  shows "truthy r"
proof -
  from assms have "prop_truthy r ''outline''" by (simp add: complete_script_def)
  then obtain v where "js_prop r ''outline'' = Some v" using prop_truthy_defined by blast
  then show ?thesis by (cases r) simp_all
qed

lemma generateYoutubeScript_ok:
  assumes "gemini_fetch e params = Inr result" and "complete_script result"
  shows "generateYoutubeScript e params w = (Inr result, w\<lparr>script_calls := script_calls w @ [params]\<rparr>)"
  using assms by (simp add: generateYoutubeScript_def complete_script_def return_def Let_def)

lemma CACHE_get_live: "CACHE_get e k w = (Inr (live_entry e k w), w)"
  by (simp add: CACHE_get_def live_entry_def return_def split: option.splits)

text \<open>The whole of a successful generation, from the job insert to the response.\<close>

lemma script_generate_ok:
  fixes sp :: ScriptRequestBody and t key pid :: string and result :: json
  assumes fresh_job: "randomUUID e (uuid_draws w) \<notin> set (map j_id (generation_jobs (DB w)))"
      and fresh_ver: "randomUUID e (Suc (uuid_draws w)) \<notin> set (map v_id (project_versions (DB w)))"
      and fk: "pid \<in> set (map p_id (projects (DB w)))"
      and bound: "\<bar>max_version pid (DB w)\<bar> < 2 ^ 53"
      and fetch: "gemini_fetch e (script_params t sp) = Inr result"
      and complete: "complete_script result"
      and outline: "js_prop result ''outline'' = Some ol"
      and sections: "js_prop result ''sections'' = Some sc"
      and seo: "js_prop result ''seo'' = Some se"
      and title: "bind_title e se = Inr title"
  defines "job0 \<equiv> \<lparr>j_id = randomUUID e (uuid_draws w), j_project_id = pid, j_job_type = ''script'',
                     j_status = ''running'', j_payload = ScriptPayload sp, j_error = None,
                     j_created_at = now e, j_updated_at = now e\<rparr>"
  defines "ver \<equiv> \<lparr>v_id = randomUUID e (Suc (uuid_draws w)), v_project_id = pid,
                    v_version = max_version pid (DB w) + 1,
                    v_script = sc, v_outline = ol, v_seo = se,
                    v_generated_with = None, v_created_at = now e\<rparr>"
  shows "script_generate e pid t sp key w =
           (Inr \<lparr>status = 200, body = ScriptResult pid False result\<rparr>,
            w\<lparr>uuid_draws := Suc (Suc (uuid_draws w)),
              script_calls := script_calls w @ [script_params t sp],
              CACHE := (key, \<lparr>kv_value = result, kv_expires = now e + 21600\<rparr>) # CACHE w,
              DB := (DB w)\<lparr>
                generation_jobs := generation_jobs (DB w)
                   @ [job0\<lparr>j_status := ''succeeded'', j_error := None\<rparr>],
                project_versions := project_versions (DB w) @ [ver],
                projects := map (\<lambda>p. if p_id p = pid
                               then p\<lparr>p_title := coalesce title (p_title p),
                                      p_topic := Some t,
                                      p_status := ''ready'',
                                      p_updated_at := now e\<rparr>
                               else p) (projects (DB w))\<rparr>,
              journal := journal w @ [InsertJob job0, InsertVersion ver,
                                      UpdateProject pid title (Some t) (Some ''ready''),
                                      UpdateJob (j_id job0) ''succeeded'' None]\<rparr>)"
proof -
  define w1 where
    "w1 = w\<lparr>uuid_draws := Suc (uuid_draws w),
            DB := (DB w)\<lparr>generation_jobs := generation_jobs (DB w) @ [job0]\<rparr>,
            journal := journal w @ [InsertJob job0]\<rparr>"
  have ij: "insertGenerationJob e pid ''script'' (Some ''running'') (ScriptPayload sp) w = (Inr job0, w1)"
    using insertGenerationJob_run[OF fresh_job fk, of "''script''" "Some ''running''" "ScriptPayload sp"]
    by (simp add: job0_def w1_def)
  define w2 where "w2 = w1\<lparr>script_calls := script_calls w @ [script_params t sp]\<rparr>"
  have gen: "generateYoutubeScript e (script_params t sp) w1 = (Inr result, w2)"
    using generateYoutubeScript_ok[OF fetch complete, of w1] by (simp add: w2_def w1_def)
  define w3 where
    "w3 = w2\<lparr>uuid_draws := Suc (Suc (uuid_draws w)),
             DB := (DB w2)\<lparr>project_versions := project_versions (DB w) @ [ver]\<rparr>,
             journal := journal w @ [InsertJob job0, InsertVersion ver]\<rparr>"
  have mv: "max_version pid (DB w2) = max_version pid (DB w)"
    by (simp add: max_version_def versions_of_def w2_def w1_def)
  have ipv: "insertProjectVersion e pid (Some ol) (Some sc) (Some se) None w2 = (Inr ver, w3)"
    using insertProjectVersion_run[where e = e and w = w2 and pid = pid and sc = sc and ol = ol
        and seo = se and gm = None] fresh_ver fk mv bound
    by (simp add: w3_def w2_def w1_def ver_def)
  have nj: "\<forall>x\<in>set (generation_jobs (DB w)). j_id x \<noteq> j_id job0"
    using fresh_job by (force simp: job0_def)
  have upd: "map (\<lambda>j. if j_id j = j_id job0
                         then j\<lparr>j_status := ''succeeded'', j_error := None, j_updated_at := now e\<rparr>
                         else j) (generation_jobs (DB w) @ [job0])
               = generation_jobs (DB w) @ [job0\<lparr>j_status := ''succeeded'', j_error := None\<rparr>]"
    using map_update_appended[OF nj,
        of "\<lambda>j. j\<lparr>j_status := ''succeeded'', j_error := None, j_updated_at := now e\<rparr>"]
    by (simp add: job0_def)
  show ?thesis
    unfolding script_generate_def script_params_def[symmetric]
    using ij gen ipv upd outline sections seo title
    by (simp add: and_then_def try_catch_def return_def updateProjectMetadata_run CACHE_put_def
        updateGenerationJobStatus_run json_response_def w3_def w2_def w1_def)
qed

text \<open>
  C8. A subject without a \<open>users\<close> row sends a topic and nothing else; no live cache
  entry matches, and the provider answers with a complete script whose title D1 can
  bind. The route answers 200 with \<open>cached: false\<close>. It has inserted one user and, for
  that user, one project as "draft", which it has updated to "ready"; one job as
  "running", which it has updated to "succeeded"; and one version, with number 1.
  These six statements are all it ran, in this order: user, project, job, version,
  project update, job update; the provider was called once.
\<close>

theorem first_script_request:
  fixes result :: json
  assumes none: "select_user_by_sub sub (DB w) = None" and sub: "sub \<noteq> []"
      and sp: "sp = script_body (Some t) None" and t: "t \<noteq> []"
      and miss: "live_entry e (cacheKey e t sp) w = None"
      and fresh_user: "randomUUID e (uuid_draws w) \<notin> set (map u_id (users (DB w)))"
      and fresh_project: "randomUUID e (uuid_draws w + 1) \<notin> set (map p_id (projects (DB w)))"
      and fresh_job: "randomUUID e (uuid_draws w + 2) \<notin> set (map j_id (generation_jobs (DB w)))"
      and fresh_version: "randomUUID e (uuid_draws w + 3) \<notin> set (map v_id (project_versions (DB w)))"
      and versions_fk: "set (map v_project_id (project_versions (DB w))) \<subseteq> set (map p_id (projects (DB w)))"
      and fetch: "gemini_fetch e (script_params t sp) = Inr result"
      and complete: "complete_script result"
      and seo: "js_prop result ''seo'' = Some se" and title: "bind_title e se = Inr title"
  shows "\<exists>w' user project job version.
           POST_script e \<lparr>x_user_sub = Some sub, x_user_email = em, x_user_name = nm,
                           json_body = Parsed sp\<rparr> w
             = (Inr \<lparr>status = 200, body = ScriptResult (p_id project) False result\<rparr>, w')
         \<and> users (DB w') = users (DB w) @ [user] \<and> u_access_sub user = sub
         \<and> projects (DB w') = projects (DB w) @ [project]
         \<and> p_user_id project = u_id user \<and> p_status project = ''ready''
         \<and> project_versions (DB w') = project_versions (DB w) @ [version]
         \<and> v_project_id version = p_id project \<and> v_version version = 1
         \<and> generation_jobs (DB w') = generation_jobs (DB w) @ [job]
         \<and> j_project_id job = p_id project \<and> j_job_type job = ''script''
         \<and> j_status job = ''succeeded''
         \<and> assets (DB w') = assets (DB w)
         \<and> journal w' = journal w @
               [InsertUser user,
                InsertProject (project\<lparr>p_title := Some t, p_status := ''draft''\<rparr>),
                InsertJob (job\<lparr>j_status := ''running''\<rparr>),
                InsertVersion version,
                UpdateProject (p_id project) title (Some t) (Some ''ready''),
                UpdateJob (j_id job) ''succeeded'' None]
         \<and> script_calls w' = script_calls w @ [script_params t sp]
         \<and> live_entry e (cacheKey e t sp) w' = Some result"
proof -
  define user where
    "user = \<lparr>u_id = randomUUID e (uuid_draws w), u_access_sub = sub, u_email = em,
             u_name = nm, u_created_at = now e\<rparr>"
  define w1 where
    "w1 = w\<lparr>uuid_draws := Suc (uuid_draws w),
            DB := (DB w)\<lparr>users := users (DB w) @ [user]\<rparr>,
            journal := journal w @ [InsertUser user]\<rparr>"
  have eu: "ensureUser e sub em nm w = (Inr user, w1)"
    using ensureUser_new[OF none fresh_user, of em nm] by (simp add: user_def w1_def)
  define project0 where
    "project0 = \<lparr>p_id = randomUUID e (Suc (uuid_draws w)), p_user_id = u_id user,
                 p_title = Some t, p_topic = Some t, p_target_length = None,
                 p_status = ''draft'', p_created_at = now e, p_updated_at = now e\<rparr>"
  define pid where "pid = randomUUID e (Suc (uuid_draws w))"
  define w2 where
    "w2 = w1\<lparr>uuid_draws := Suc (Suc (uuid_draws w)),
             DB := (DB w1)\<lparr>projects := projects (DB w) @ [project0]\<rparr>,
             journal := journal w @ [InsertUser user, InsertProject project0]\<rparr>"
  have cp: "createProject e (u_id user) (Some t) (Some t) None w1 = (Inr project0, w2)"
    using createProject_run[of e w1 "u_id user" "Some t" "Some t" None] fresh_project
    by (simp add: w1_def w2_def project0_def user_def)
  have gate: "POST_script e \<lparr>x_user_sub = Some sub, x_user_email = em, x_user_name = nm,
                             json_body = Parsed sp\<rparr> w
                = script_cached_or_generate e pid t sp w2"
    using POST_script_gate[OF sub _ t eu, of sp] cp
    by (simp add: sp script_body_def script_new_project_def and_then_def project0_def pid_def)
  have live2: "live_entry e (cacheKey e t sp) w2 = None"
    using miss by (simp add: live_entry_def w2_def w1_def)
  have miss2: "script_cached_or_generate e pid t sp w2
                 = script_generate e pid t sp (cacheKey e t sp) w2"
    using live2
    by (simp add: script_cached_or_generate_def and_then_def CACHE_get_live Let_def)
  from complete obtain ol sc where
    ol: "js_prop result ''outline'' = Some ol" and sc: "js_prop result ''sections'' = Some sc"
    using prop_truthy_defined unfolding complete_script_def by blast
  have d2: "uuid_draws w2 = Suc (Suc (uuid_draws w))" by (simp add: w2_def)
  have fj: "randomUUID e (uuid_draws w2) \<notin> set (map j_id (generation_jobs (DB w2)))"
    using fresh_job by (simp add: w2_def w1_def)
  have fv: "randomUUID e (Suc (uuid_draws w2)) \<notin> set (map v_id (project_versions (DB w2)))"
    using fresh_version by (simp add: w2_def w1_def eval_nat_numeral)
  have fk: "pid \<in> set (map p_id (projects (DB w2)))"
    by (simp add: w2_def project0_def pid_def)
  have nover: "versions_of pid (DB w2) = []"
  proof -
    have "pid \<notin> set (map v_project_id (project_versions (DB w)))"
      using versions_fk fresh_project by (auto simp: pid_def)
    then show ?thesis
      by (auto simp: versions_of_def w2_def w1_def filter_empty_conv)
  qed
  have mv: "max_version pid (DB w2) = 0" by (simp add: max_version_def nover)
  have bd: "\<bar>max_version pid (DB w2)\<bar> < 2 ^ 53" by (simp add: mv)
  have np: "\<forall>x\<in>set (projects (DB w)). p_id x \<noteq> p_id project0"
    using fresh_project by (force simp: project0_def)
  define project where
    "project = project0\<lparr>p_title := coalesce title (Some t), p_status := ''ready''\<rparr>"
  have updp: "map (\<lambda>p. if p_id p = pid
                           then p\<lparr>p_title := coalesce title (p_title p), p_topic := Some t,
                                  p_status := ''ready'', p_updated_at := now e\<rparr>
                           else p) (projects (DB w) @ [project0])
                = projects (DB w) @ [project]"
    using map_update_appended[OF np,
        of "\<lambda>p. p\<lparr>p_title := coalesce title (p_title p), p_topic := Some t,
                     p_status := ''ready'', p_updated_at := now e\<rparr>"]
    by (simp add: project0_def project_def pid_def)
  define job where
    "job = \<lparr>j_id = randomUUID e (Suc (Suc (uuid_draws w))), j_project_id = pid,
            j_job_type = ''script'', j_status = ''succeeded'',
            j_payload = ScriptPayload sp, j_error = None,
            j_created_at = now e, j_updated_at = now e\<rparr>"
  define version where
    "version = \<lparr>v_id = randomUUID e (Suc (Suc (Suc (uuid_draws w)))), v_project_id = pid,
                v_version = 1, v_script = sc, v_outline = ol, v_seo = se,
                v_generated_with = None, v_created_at = now e\<rparr>"
  define W where
    "W = w\<lparr>uuid_draws := Suc (Suc (Suc (Suc (uuid_draws w)))),
           script_calls := script_calls w @ [script_params t sp],
           CACHE := (cacheKey e t sp, \<lparr>kv_value = result, kv_expires = now e + 21600\<rparr>) # CACHE w,
           DB := (DB w)\<lparr>users := users (DB w) @ [user],
                          generation_jobs := generation_jobs (DB w) @ [job],
                          project_versions := project_versions (DB w) @ [version],
                          projects := projects (DB w) @ [project]\<rparr>,
           journal := journal w @
               [InsertUser user, InsertProject project0,
                InsertJob (job\<lparr>j_status := ''running''\<rparr>),
                InsertVersion version,
                UpdateProject pid title (Some t) (Some ''ready''),
                UpdateJob (j_id job) ''succeeded'' None]\<rparr>"
  have run: "script_generate e pid t sp (cacheKey e t sp) w2
               = (Inr \<lparr>status = 200, body = ScriptResult pid False result\<rparr>, W)"
    unfolding script_generate_ok[OF fj fv fk bd fetch complete ol sc seo title, of "cacheKey e t sp"]
    using updp mv
    by (simp add: d2 W_def w2_def w1_def job_def version_def)
  have p0: "project\<lparr>p_title := Some t, p_status := ''draft''\<rparr> = project0"
    by (simp add: project_def project0_def)
  have "POST_script e \<lparr>x_user_sub = Some sub, x_user_email = em, x_user_name = nm,
                        json_body = Parsed sp\<rparr> w
             = (Inr \<lparr>status = 200, body = ScriptResult (p_id project) False result\<rparr>, W)
         \<and> users (DB W) = users (DB w) @ [user] \<and> u_access_sub user = sub
         \<and> projects (DB W) = projects (DB w) @ [project]
         \<and> p_user_id project = u_id user \<and> p_status project = ''ready''
         \<and> project_versions (DB W) = project_versions (DB w) @ [version]
         \<and> v_project_id version = p_id project \<and> v_version version = 1
         \<and> generation_jobs (DB W) = generation_jobs (DB w) @ [job]
         \<and> j_project_id job = p_id project \<and> j_job_type job = ''script''
         \<and> j_status job = ''succeeded''
         \<and> assets (DB W) = assets (DB w)
         \<and> journal W = journal w @
               [InsertUser user,
                InsertProject (project\<lparr>p_title := Some t, p_status := ''draft''\<rparr>),
                InsertJob (job\<lparr>j_status := ''running''\<rparr>),
                InsertVersion version,
                UpdateProject (p_id project) title (Some t) (Some ''ready''),
                UpdateJob (j_id job) ''succeeded'' None]
         \<and> script_calls W = script_calls w @ [script_params t sp]
         \<and> live_entry e (cacheKey e t sp) W = Some result"
    unfolding gate miss2 run p0
    by (simp add: W_def live_entry_def project_def project0_def pid_def user_def job_def
        version_def)
  then show ?thesis by blast
qed

theorem first_script_request_witness:
  "fst (POST_script demo_env (request_of ''sub-c'' (script_body (Some ''Photosynthesis basics'') None))
          empty_world)
     = Inr \<lparr>status = 200, body = ScriptResult ''uuid-x'' False demo_script\<rparr>
   \<and> map p_status (projects (DB (snd (POST_script demo_env
          (request_of ''sub-c'' (script_body (Some ''Photosynthesis basics'') None)) empty_world))))
     = [''ready'']
   \<and> map v_version (project_versions (DB (snd (POST_script demo_env
          (request_of ''sub-c'' (script_body (Some ''Photosynthesis basics'') None)) empty_world))))
     = [1]
   \<and> map j_status (generation_jobs (DB (snd (POST_script demo_env
          (request_of ''sub-c'' (script_body (Some ''Photosynthesis basics'') None)) empty_world))))
     = [''succeeded'']"
proof -
  let ?sp = "script_body (Some ''Photosynthesis basics'') None"
  have none: "select_user_by_sub ''sub-c'' (DB empty_world) = None"
    by (simp add: select_user_by_sub_def demo_defs)
  have miss: "live_entry demo_env (cacheKey demo_env ''Photosynthesis basics'' ?sp) empty_world = None"
    by (simp add: live_entry_def demo_defs)
  have fresh: "randomUUID demo_env (uuid_draws empty_world) \<notin> set (map u_id (users (DB empty_world)))"
    "randomUUID demo_env (uuid_draws empty_world + 1) \<notin> set (map p_id (projects (DB empty_world)))"
    "randomUUID demo_env (uuid_draws empty_world + 2)
       \<notin> set (map j_id (generation_jobs (DB empty_world)))"
    "randomUUID demo_env (uuid_draws empty_world + 3)
       \<notin> set (map v_id (project_versions (DB empty_world)))"
    by (simp_all add: demo_defs)
  have fk: "set (map v_project_id (project_versions (DB empty_world)))
              \<subseteq> set (map p_id (projects (DB empty_world)))"
    by (simp add: demo_defs)
  have fetch: "gemini_fetch demo_env (script_params ''Photosynthesis basics'' ?sp) = Inr demo_script"
    by (simp add: demo_env_def)
  have complete: "complete_script demo_script"
    by (simp add: complete_script_def prop_truthy_def demo_script_def)
  have seo: "js_prop demo_script ''seo''
               = Some (JObj [(''title'', JStr ''Photosynthesis in 8 minutes''),
                             (''description'', JStr ''How plants eat light''),
                             (''tags'', JArr [JStr ''biology''])])"
    by (simp add: demo_script_def)
  have title: "bind_title demo_env (JObj [(''title'', JStr ''Photosynthesis in 8 minutes''),
                             (''description'', JStr ''How plants eat light''),
                             (''tags'', JArr [JStr ''biology''])])
                 = Inr (Some ''Photosynthesis in 8 minutes'')"
    by (simp add: bind_title_def)
  from first_script_request[OF none _ refl _ miss fresh fk fetch complete seo title, of None None]
  obtain w' user project job version where
    r: "POST_script demo_env \<lparr>x_user_sub = Some ''sub-c'', x_user_email = None, x_user_name = None,
                               json_body = Parsed ?sp\<rparr> empty_world
          = (Inr \<lparr>status = 200, body = ScriptResult (p_id project) False demo_script\<rparr>, w')"
    and u: "users (DB w') = users (DB empty_world) @ [user]"
    and p: "projects (DB w') = projects (DB empty_world) @ [project]" "p_status project = ''ready''"
    and v: "project_versions (DB w') = project_versions (DB empty_world) @ [version]"
           "v_version version = 1"
    and j: "generation_jobs (DB w') = generation_jobs (DB empty_world) @ [job]"
           "j_status job = ''succeeded''"
    and jr: "journal w' = journal empty_world @
               [InsertUser user,
                InsertProject (project\<lparr>p_title := Some ''Photosynthesis basics'', p_status := ''draft''\<rparr>),
                InsertJob (job\<lparr>j_status := ''running''\<rparr>),
                InsertVersion version,
                UpdateProject (p_id project) (Some ''Photosynthesis in 8 minutes'')
                  (Some ''Photosynthesis basics'') (Some ''ready''),
                UpdateJob (j_id job) ''succeeded'' None]"
    by auto
  have pid: "p_id project = ''uuid-x''"
  proof -
    have "fst (POST_script demo_env \<lparr>x_user_sub = Some ''sub-c'', x_user_email = None,
                 x_user_name = None, json_body = Parsed ?sp\<rparr> empty_world)
            = Inr \<lparr>status = 200, body = ScriptResult ''uuid-x'' False demo_script\<rparr>"
      by (simp add: io_defs sql_defs client_defs route_defs demo_defs)
    with r show ?thesis by simp
  qed
  show ?thesis
    unfolding request_of_def r using p v j pid by (simp add: demo_defs)
qed

subsection \<open>Script generation on a cache hit\<close>

lemma script_cached_hit:
  assumes "regenerate sp \<noteq> Some True" and "live_entry e (cacheKey e t sp) w = Some c"
      and "truthy c"
  shows "script_cached_or_generate e pid t sp w
           = (Inr \<lparr>status = 200, body = ScriptResult pid True c\<rparr>, w)"
  using assms
  by (simp add: script_cached_or_generate_def and_then_def CACHE_get_live Let_def return_def
      json_response_def)

lemma ensureUser_row:
  assumes usr: "select_user_by_sub sub (DB w) \<noteq> None
                  \<or> randomUUID e (uuid_draws w) \<notin> set (map u_id (users (DB w)))"
      and eu: "ensureUser e sub em nm w = (Inr user, w')"
  shows "u_id user \<in> set (map u_id (filter (\<lambda>u. u_access_sub u = sub) (users (DB w'))))"
proof (cases "select_user_by_sub sub (DB w)")
  case None
  with usr have fresh: "randomUUID e (uuid_draws w) \<notin> set (map u_id (users (DB w)))" by simp
  from eu show ?thesis
    unfolding ensureUser_new[OF None fresh] by auto
next
  case (Some ex)
  have ex: "ex \<in> set (users (DB w))" "u_access_sub ex = sub"
    using find_Some_mem[OF Some[unfolded select_user_by_sub_def]] by simp_all
  show ?thesis
  proof (cases "truthy_str em \<or> truthy_str nm")
    case True
    let ?r = "ex\<lparr>u_email := coalesce em (u_email ex), u_name := coalesce nm (u_name ex)\<rparr>"
    from eu have uid: "u_id user = u_id ex"
      and us: "users (DB w') = map (\<lambda>u. if u_id u = u_id ex
                        then u\<lparr>u_email := coalesce em (u_email u), u_name := coalesce nm (u_name u)\<rparr>
                        else u) (users (DB w))"
      unfolding ensureUser_existing_update[OF Some True] by auto
    have "?r \<in> set (users (DB w'))"
      unfolding us using ex(1) by (auto intro!: image_eqI[of _ _ ex])
    moreover have "u_access_sub ?r = sub" "u_id ?r = u_id user"
      using ex(2) uid by simp_all
    ultimately have "?r \<in> set (filter (\<lambda>u. u_access_sub u = sub) (users (DB w')))"
      by simp
    then have "u_id ?r \<in> set (map u_id (filter (\<lambda>u. u_access_sub u = sub) (users (DB w'))))"
      unfolding set_map by (rule imageI)
    then show ?thesis using uid by simp
  next
    case False
    from eu ex show ?thesis
      unfolding ensureUser_existing_keep[OF Some False] by force
  qed
qed

text \<open>
  C10. A request with a topic and no project id, regeneration not asked for, and a
  live, truthy cache entry under its key. The route inserts a project for the caller
  and then consults the cache, in a world that already holds the project; it answers
  200 with \<open>cached: true\<close>, the cached value and the id of the new project. The
  project is left as "draft", with no version and no job. Apart from the upsert of the
  caller's \<open>users\<close> row, the project insert is the only statement run; versions, jobs,
  assets, the cache, the bucket and the provider are untouched.
\<close>

theorem cache_hit_leaves_draft_project:
  assumes wf: "distinct (map u_id (users (DB w)))"
      and sub: "sub \<noteq> []"
      and usr: "select_user_by_sub sub (DB w) \<noteq> None
                  \<or> randomUUID e (uuid_draws w) \<notin> set (map u_id (users (DB w)))"
      and sp: "topic sp = Some t" "t \<noteq> []" "projectId sp = None \<or> projectId sp = Some []"
      and regen: "regenerate sp \<noteq> Some True"
      and hit: "live_entry e (cacheKey e t sp) w = Some c" "truthy c"
      and fresh_project:
        "randomUUID e (if select_user_by_sub sub (DB w) = None then Suc (uuid_draws w)
                       else uuid_draws w) \<notin> set (map p_id (projects (DB w)))"
      and versions_fk: "set (map v_project_id (project_versions (DB w))) \<subseteq> set (map p_id (projects (DB w)))"
      and jobs_fk: "set (map j_project_id (generation_jobs (DB w))) \<subseteq> set (map p_id (projects (DB w)))"
  shows "\<exists>w' project us.
           POST_script e \<lparr>x_user_sub = Some sub, x_user_email = em, x_user_name = nm,
                           json_body = Parsed sp\<rparr> w
             = (Inr \<lparr>status = 200, body = ScriptResult (p_id project) True c\<rparr>, w')
         \<and> POST_script e \<lparr>x_user_sub = Some sub, x_user_email = em, x_user_name = nm,
                           json_body = Parsed sp\<rparr> w
             = script_cached_or_generate e (p_id project) t sp w'
         \<and> projects (DB w') = projects (DB w) @ [project]
         \<and> p_id project \<notin> set (map p_id (projects (DB w)))
         \<and> p_status project = ''draft''
         \<and> p_user_id project \<in> set (map u_id (filter (\<lambda>u. u_access_sub u = sub) (users (DB w'))))
         \<and> versions_of (p_id project) (DB w') = []
         \<and> filter (\<lambda>j. j_project_id j = p_id project) (generation_jobs (DB w')) = []
         \<and> project_versions (DB w') = project_versions (DB w)
         \<and> generation_jobs (DB w') = generation_jobs (DB w)
         \<and> assets (DB w') = assets (DB w)
         \<and> CACHE w' = CACHE w \<and> MEDIA_BUCKET w' = MEDIA_BUCKET w
         \<and> script_calls w' = script_calls w
         \<and> filter (\<lambda>u. u_access_sub u \<noteq> sub) (users (DB w'))
              = filter (\<lambda>u. u_access_sub u \<noteq> sub) (users (DB w))
         \<and> list_all user_stmt us
         \<and> journal w' = journal w @ us @ [InsertProject project]"
proof -
  from ensureUser_outcome[OF wf usr, of em nm] obtain user w1 where
    eu: "ensureUser e sub em nm w = (Inr user, w1)"
    and fr: "outside_users_unchanged w w1" and up: "user_upsert_only sub w w1"
    and usub: "u_access_sub user = sub"
    and new: "select_user_by_sub sub (DB w) = None \<longrightarrow>
                uuid_draws w1 = Suc (uuid_draws w) \<and> users (DB w1) = users (DB w) @ [user]"
    and old: "select_user_by_sub sub (DB w) \<noteq> None \<longrightarrow>
                uuid_draws w1 = uuid_draws w
                \<and> map u_id (users (DB w1)) = map u_id (users (DB w))
                \<and> (\<exists>ex. select_user_by_sub sub (DB w) = Some ex \<and> u_id user = u_id ex)"
    by (elim exE conjE) (rule that; simp)
  define us where "us = drop (length (journal w)) (journal w1)"
  have j1: "journal w1 = journal w @ us" and us: "list_all user_stmt us"
    using up append_take_drop_id[of "length (journal w)" "journal w1"]
    by (simp_all add: user_upsert_only_def us_def)
  have others: "filter (\<lambda>u. u_access_sub u \<noteq> sub) (users (DB w1))
                  = filter (\<lambda>u. u_access_sub u \<noteq> sub) (users (DB w))"
    using up by (simp add: user_upsert_only_def)
  have same: "projects (DB w1) = projects (DB w)" "project_versions (DB w1) = project_versions (DB w)"
    "assets (DB w1) = assets (DB w)" "generation_jobs (DB w1) = generation_jobs (DB w)"
    "CACHE w1 = CACHE w" "MEDIA_BUCKET w1 = MEDIA_BUCKET w" "script_calls w1 = script_calls w"
    using fr by (simp_all add: outside_users_unchanged_def)
  have draws: "uuid_draws w1 = (if select_user_by_sub sub (DB w) = None then Suc (uuid_draws w)
                                else uuid_draws w)"
    using new old by simp
  have user_in: "u_id user \<in> set (map u_id (filter (\<lambda>u. u_access_sub u = sub) (users (DB w1))))"
    by (rule ensureUser_row[OF usr eu])
  then have ufk: "u_id user \<in> set (map u_id (users (DB w1)))" by auto
  define pid where "pid = randomUUID e (uuid_draws w1)"
  define project where
    "project = \<lparr>p_id = pid, p_user_id = u_id user, p_title = Some t, p_topic = Some t,
                p_target_length = None, p_status = ''draft'',
                p_created_at = now e, p_updated_at = now e\<rparr>"
  define w2 where
    "w2 = w1\<lparr>uuid_draws := Suc (uuid_draws w1),
             DB := (DB w1)\<lparr>projects := projects (DB w) @ [project]\<rparr>,
             journal := journal w @ us @ [InsertProject project]\<rparr>"
  have fp: "pid \<notin> set (map p_id (projects (DB w)))"
    using fresh_project draws by (simp add: pid_def)
  have cp: "createProject e (u_id user) (Some t) (Some t) None w1 = (Inr project, w2)"
    using createProject_run[of e w1 "u_id user" "Some t" "Some t" None] fp ufk same j1
    by (simp add: w2_def project_def pid_def)
  have gate: "POST_script e \<lparr>x_user_sub = Some sub, x_user_email = em, x_user_name = nm,
                             json_body = Parsed sp\<rparr> w
                = script_cached_or_generate e pid t sp w2"
    using POST_script_gate[OF sub sp(1,2) eu] sp(3) cp
    by (auto simp: script_new_project_def and_then_def project_def)
  have live2: "live_entry e (cacheKey e t sp) w2 = Some c"
    using hit(1) same by (simp add: live_entry_def w2_def)
  note hitrun = script_cached_hit[OF regen live2 hit(2), of pid]
  have nover: "versions_of pid (DB w2) = []"
  proof -
    have "pid \<notin> set (map v_project_id (project_versions (DB w)))"
      using versions_fk fp by auto
    then show ?thesis
      by (auto simp: versions_of_def w2_def same filter_empty_conv)
  qed
  have nojob: "filter (\<lambda>j. j_project_id j = pid) (generation_jobs (DB w2)) = []"
  proof -
    have "pid \<notin> set (map j_project_id (generation_jobs (DB w)))"
      using jobs_fk fp by auto
    then show ?thesis
      by (auto simp: w2_def same filter_empty_conv)
  qed
  have "POST_script e \<lparr>x_user_sub = Some sub, x_user_email = em, x_user_name = nm,
                           json_body = Parsed sp\<rparr> w
             = (Inr \<lparr>status = 200, body = ScriptResult (p_id project) True c\<rparr>, w2)
         \<and> POST_script e \<lparr>x_user_sub = Some sub, x_user_email = em, x_user_name = nm,
                           json_body = Parsed sp\<rparr> w
             = script_cached_or_generate e (p_id project) t sp w2
         \<and> projects (DB w2) = projects (DB w) @ [project]
         \<and> p_id project \<notin> set (map p_id (projects (DB w)))
         \<and> p_status project = ''draft''
         \<and> p_user_id project \<in> set (map u_id (filter (\<lambda>u. u_access_sub u = sub) (users (DB w2))))
         \<and> versions_of (p_id project) (DB w2) = []
         \<and> filter (\<lambda>j. j_project_id j = p_id project) (generation_jobs (DB w2)) = []
         \<and> project_versions (DB w2) = project_versions (DB w)
         \<and> generation_jobs (DB w2) = generation_jobs (DB w)
         \<and> assets (DB w2) = assets (DB w)
         \<and> CACHE w2 = CACHE w \<and> MEDIA_BUCKET w2 = MEDIA_BUCKET w
         \<and> script_calls w2 = script_calls w
         \<and> filter (\<lambda>u. u_access_sub u \<noteq> sub) (users (DB w2))
              = filter (\<lambda>u. u_access_sub u \<noteq> sub) (users (DB w))
         \<and> list_all user_stmt us
         \<and> journal w2 = journal w @ us @ [InsertProject project]"
    using gate hitrun fp us others user_in nover nojob
    by (simp add: w2_def same project_def)
  then show ?thesis by blast
qed

theorem cache_hit_leaves_draft_project_witness:
  "fst (POST_script demo_env (request_of ''sub-b'' (script_body (Some ''Tides'') None)) cached_world)
     = Inr \<lparr>status = 200, body = ScriptResult ''uuid-'' True demo_script\<rparr>
   \<and> map p_status (projects (DB (snd (POST_script demo_env
            (request_of ''sub-b'' (script_body (Some ''Tides'') None)) cached_world))))
     = [''ready'', ''draft'']
   \<and> generation_jobs (DB (snd (POST_script demo_env
            (request_of ''sub-b'' (script_body (Some ''Tides'') None)) cached_world))) = []
   \<and> versions_of ''uuid-'' (DB (snd (POST_script demo_env
            (request_of ''sub-b'' (script_body (Some ''Tides'') None)) cached_world))) = []"
proof -
  let ?sp = "script_body (Some ''Tides'') None"
  have wf: "distinct (map u_id (users (DB cached_world)))"
    by (simp add: cached_world_def demo_defs)
  have usr: "select_user_by_sub ''sub-b'' (DB cached_world) \<noteq> None
               \<or> randomUUID demo_env (uuid_draws cached_world)
                    \<notin> set (map u_id (users (DB cached_world)))"
    by (simp add: select_user_by_sub_def cached_world_def demo_defs)
  have sp: "topic ?sp = Some ''Tides''" "projectId ?sp = None \<or> projectId ?sp = Some []"
    "regenerate ?sp \<noteq> Some True"
    by (simp_all add: script_body_def)
  have hit: "live_entry demo_env (cacheKey demo_env ''Tides'' ?sp) cached_world = Some demo_script"
    by (simp add: live_entry_def cached_world_def demo_env_def)
  have tr: "truthy demo_script" by (simp add: demo_script_def)
  have fresh: "randomUUID demo_env (if select_user_by_sub ''sub-b'' (DB cached_world) = None
                   then Suc (uuid_draws cached_world) else uuid_draws cached_world)
                 \<notin> set (map p_id (projects (DB cached_world)))"
    by (simp add: select_user_by_sub_def cached_world_def demo_defs)
  have fk: "set (map v_project_id (project_versions (DB cached_world)))
              \<subseteq> set (map p_id (projects (DB cached_world)))"
    "set (map j_project_id (generation_jobs (DB cached_world)))
              \<subseteq> set (map p_id (projects (DB cached_world)))"
    by (simp_all add: cached_world_def demo_defs)
  have ne: "''sub-b'' \<noteq> []" "''Tides'' \<noteq> []" by simp_all
  from cache_hit_leaves_draft_project[OF wf ne(1) usr sp(1) ne(2) sp(2,3) hit tr fresh fk,
      of None None]
  obtain w' and project :: DBProject where
    r: "POST_script demo_env \<lparr>x_user_sub = Some ''sub-b'', x_user_email = None, x_user_name = None,
                               json_body = Parsed ?sp\<rparr> cached_world
          = (Inr \<lparr>status = 200, body = ScriptResult (p_id project) True demo_script\<rparr>, w')"
    and p: "projects (DB w') = projects (DB cached_world) @ [project]" "p_status project = ''draft''"
    and v: "versions_of (p_id project) (DB w') = []"
    and j: "generation_jobs (DB w') = generation_jobs (DB cached_world)"
    by blast
  have "fst (POST_script demo_env \<lparr>x_user_sub = Some ''sub-b'', x_user_email = None,
              x_user_name = None, json_body = Parsed ?sp\<rparr> cached_world)
            = Inr \<lparr>status = 200, body = ScriptResult ''uuid-'' True demo_script\<rparr>"
    by (simp add: io_defs sql_defs client_defs route_defs cached_world_def demo_defs)
  with r have pid: "p_id project = ''uuid-''" by simp
  show ?thesis
    unfolding request_of_def r using p v j pid by (simp add: cached_world_def demo_defs)
qed

subsection \<open>What a request finds in the cache after a successful generation\<close>

lemma and_then_Inr:
  assumes "and_then m f w = (Inr b, w')"
  shows "\<exists>a w1. m w = (Inr a, w1) \<and> f a w1 = (Inr b, w')"
  using assms by (auto simp: and_then_def split: prod.splits sum.splits)

lemma ensureUser_frame:
  assumes "ensureUser e s em nm w = (r, w')"
  shows "outside_users_unchanged w w'"
  using assms
  by (auto simp: ensureUser_def and_then_def run_stmt_def sql_update_user_def sql_insert_user_def
      crypto_randomUUID_def return_def throw_def select_user_by_id_def Let_def
      outside_users_unchanged_def
      split: option.splits if_splits sum.splits prod.splits)

lemma createProject_frame:
  assumes "createProject e uid ti tp tlen w = (r, w')"
  shows "CACHE w' = CACHE w \<and> script_calls w' = script_calls w
         \<and> generation_jobs (DB w') = generation_jobs (DB w)
         \<and> project_versions (DB w') = project_versions (DB w)
         \<and> assets (DB w') = assets (DB w) \<and> users (DB w') = users (DB w)"
  using assms
  by (auto simp: createProject_def and_then_def run_stmt_def sql_insert_project_def
      crypto_randomUUID_def return_def throw_def getProjectById_def Let_def
      split: option.splits if_splits sum.splits prod.splits)

lemma insertGenerationJob_frame:
  assumes "insertGenerationJob e pid ty st pl w = (r, w')"
  shows "CACHE w' = CACHE w \<and> script_calls w' = script_calls w"
  using assms
  by (auto simp: insertGenerationJob_def and_then_def run_stmt_def sql_insert_job_def
      crypto_randomUUID_def return_def throw_def select_job_by_id_def Let_def
      split: option.splits if_splits sum.splits prod.splits)

lemma insertProjectVersion_frame:
  assumes "insertProjectVersion e pid ol sc se gm w = (r, w')"
  shows "CACHE w' = CACHE w \<and> script_calls w' = script_calls w"
  using assms
  by (auto simp: insertProjectVersion_def and_then_def run_stmt_def sql_insert_version_def
      crypto_randomUUID_def return_def throw_def select_version_by_id_def Let_def
      split: option.splits if_splits sum.splits prod.splits)

lemma generateYoutubeScript_Inr:
  assumes "generateYoutubeScript e params w = (Inr result, w')"
  shows "complete_script result \<and> gemini_fetch e params = Inr result
         \<and> w' = w\<lparr>script_calls := script_calls w @ [params]\<rparr>"
  using assms
  by (auto simp: generateYoutubeScript_def complete_script_def return_def throw_def Let_def
      split: sum.splits if_splits)

text \<open>
  A response with \<open>cached: false\<close> and status 200 comes from a generation that ran to
  its end: the provider's answer is complete, and it is in the cache under the key of
  the request, with six hours to live.
\<close>

lemma script_generate_fresh:
  assumes run: "script_generate e pid t sp key w
                  = (Inr \<lparr>status = 200, body = ScriptResult p False res\<rparr>, w')"
  shows "map_of (CACHE w') key = Some \<lparr>kv_value = res, kv_expires = now e + 21600\<rparr>
         \<and> complete_script res"
proof -
  from and_then_Inr[OF run[unfolded script_generate_def]] obtain job w1 where
    ij: "insertGenerationJob e pid ''script'' (Some ''running'') (ScriptPayload sp) w = (Inr job, w1)"
    and tc: "try_catch
           (and_then (generateYoutubeScript e
                        \<lparr>g_topic = t, g_persona = persona sp,
                         g_lengthMinutes = lengthMinutes sp, g_language = language sp\<rparr>)
              (\<lambda>result.
                and_then (insertProjectVersion e pid (js_prop result ''outline'')
                            (js_prop result ''sections'') (js_prop result ''seo'') None)
                  (\<lambda>_.
                    case bind_title e (case js_prop result ''seo'' of Some se \<Rightarrow> se | None \<Rightarrow> JNull) of
                      Inl err \<Rightarrow> throw err
                    | Inr title \<Rightarrow>
                        and_then (updateProjectMetadata e pid title (Some t) (Some ''ready''))
                          (\<lambda>_. and_then (CACHE_put e key result (60 * 60 * 6))
                            (\<lambda>_. and_then (updateGenerationJobStatus e (j_id job) ''succeeded'' None)
                              (\<lambda>_. return (json_response 200 (ScriptResult pid False result))))))))
           (\<lambda>cause.
             and_then (updateGenerationJobStatus e (j_id job) ''failed'' (Some (message cause)))
               (\<lambda>_. return (json_response 500 (ErrorBody ''Failed to generate script''))))
           w1 = (Inr \<lparr>status = 200, body = ScriptResult p False res\<rparr>, w')"
    by blast
  let ?body = "and_then (generateYoutubeScript e
                        \<lparr>g_topic = t, g_persona = persona sp,
                         g_lengthMinutes = lengthMinutes sp, g_language = language sp\<rparr>)
              (\<lambda>result.
                and_then (insertProjectVersion e pid (js_prop result ''outline'')
                            (js_prop result ''sections'') (js_prop result ''seo'') None)
                  (\<lambda>_.
                    case bind_title e (case js_prop result ''seo'' of Some se \<Rightarrow> se | None \<Rightarrow> JNull) of
                      Inl err \<Rightarrow> throw err
                    | Inr title \<Rightarrow>
                        and_then (updateProjectMetadata e pid title (Some t) (Some ''ready''))
                          (\<lambda>_. and_then (CACHE_put e key result (60 * 60 * 6))
                            (\<lambda>_. and_then (updateGenerationJobStatus e (j_id job) ''succeeded'' None)
                              (\<lambda>_. return (json_response 200 (ScriptResult pid False result)))))))"
  have body: "?body w1 = (Inr \<lparr>status = 200, body = ScriptResult p False res\<rparr>, w')"
  proof (cases "?body w1")
    case (Pair r w2)
    show ?thesis
    proof (cases r)
      case (Inl err)
      with Pair tc show ?thesis
        by (simp add: try_catch_def and_then_def updateGenerationJobStatus_run return_def
            json_response_def)
    next
      case (Inr x)
      with Pair tc show ?thesis by (simp add: try_catch_def)
    qed
  qed
  from and_then_Inr[OF body] obtain result w2 where
    gen: "generateYoutubeScript e \<lparr>g_topic = t, g_persona = persona sp,
             g_lengthMinutes = lengthMinutes sp, g_language = language sp\<rparr> w1 = (Inr result, w2)"
    and rest: "and_then (insertProjectVersion e pid (js_prop result ''outline'')
                            (js_prop result ''sections'') (js_prop result ''seo'') None)
                  (\<lambda>_.
                    case bind_title e (case js_prop result ''seo'' of Some se \<Rightarrow> se | None \<Rightarrow> JNull) of
                      Inl err \<Rightarrow> throw err
                    | Inr title \<Rightarrow>
                        and_then (updateProjectMetadata e pid title (Some t) (Some ''ready''))
                          (\<lambda>_. and_then (CACHE_put e key result (60 * 60 * 6))
                            (\<lambda>_. and_then (updateGenerationJobStatus e (j_id job) ''succeeded'' None)
                              (\<lambda>_. return (json_response 200 (ScriptResult pid False result))))))
                  w2 = (Inr \<lparr>status = 200, body = ScriptResult p False res\<rparr>, w')"
    by blast
  from generateYoutubeScript_Inr[OF gen] have complete: "complete_script result" by simp
  from and_then_Inr[OF rest] obtain ver w3 where
    tail: "(case bind_title e (case js_prop result ''seo'' of Some se \<Rightarrow> se | None \<Rightarrow> JNull) of
              Inl err \<Rightarrow> throw err
            | Inr title \<Rightarrow>
                and_then (updateProjectMetadata e pid title (Some t) (Some ''ready''))
                  (\<lambda>_. and_then (CACHE_put e key result (60 * 60 * 6))
                    (\<lambda>_. and_then (updateGenerationJobStatus e (j_id job) ''succeeded'' None)
                      (\<lambda>_. return (json_response 200 (ScriptResult pid False result))))))
             w3 = (Inr \<lparr>status = 200, body = ScriptResult p False res\<rparr>, w')"
    by blast
  from tail have "res = result \<and> map_of (CACHE w') key
                    = Some \<lparr>kv_value = result, kv_expires = now e + 21600\<rparr>"
    by (auto simp: and_then_def updateProjectMetadata_run CACHE_put_def
        updateGenerationJobStatus_run return_def throw_def json_response_def
        split: sum.splits)
  with complete show ?thesis by simp
qed

lemma script_cached_or_generate_fresh:
  assumes "script_cached_or_generate e pid t sp w
             = (Inr \<lparr>status = 200, body = ScriptResult p False res\<rparr>, w')"
  shows "script_generate e pid t sp (cacheKey e t sp) w
             = (Inr \<lparr>status = 200, body = ScriptResult p False res\<rparr>, w')"
  using assms
  by (auto simp: script_cached_or_generate_def and_then_def CACHE_get_live return_def
      json_response_def Let_def split: option.splits if_splits)

lemma POST_script_fresh:
  assumes run: "POST_script e req w = (Inr \<lparr>status = 200, body = ScriptResult p False res\<rparr>, w')"
  shows "\<exists>sp t. json_body req = Parsed sp \<and> topic sp = Some t \<and> t \<noteq> []
           \<and> map_of (CACHE w') (cacheKey e t sp)
                = Some \<lparr>kv_value = res, kv_expires = now e + 21600\<rparr>
           \<and> complete_script res"
proof -
  from run obtain userSub where s: "x_user_sub req = Some userSub" "userSub \<noteq> []"
    by (cases "x_user_sub req")
       (auto simp: POST_script_def return_def unauthorized_def json_response_def split: if_splits)
  from run s obtain sp where b: "json_body req = Parsed sp"
    by (cases "json_body req")
       (auto simp: POST_script_def return_def throw_def badRequest_def json_response_def)
  from run s b obtain t where t: "topic sp = Some t" "t \<noteq> []"
    by (cases "topic sp")
       (auto simp: POST_script_def return_def badRequest_def json_response_def split: if_splits)
  let ?k = "\<lambda>user. case projectId sp of
                None \<Rightarrow> script_new_project e user t sp
              | Some pid \<Rightarrow>
                  if pid = [] then script_new_project e user t sp
                  else
                    (\<lambda>w. case getProjectById pid (DB w) of
                       None \<Rightarrow> return (badRequest ''Project not found'') w
                     | Some project \<Rightarrow>
                         if p_user_id project \<noteq> u_id user then
                           return (forbidden ''Project does not belong to user'') w
                         else script_cached_or_generate e pid t sp w)"
  have "and_then (ensureUser e userSub (x_user_email req) (x_user_name req)) ?k w
          = (Inr \<lparr>status = 200, body = ScriptResult p False res\<rparr>, w')"
    using run s b t by (simp add: POST_script_def)
  from and_then_Inr[OF this] obtain user w1 where
    k: "?k user w1 = (Inr \<lparr>status = 200, body = ScriptResult p False res\<rparr>, w')"
    by blast
  have "\<exists>pid w2. script_cached_or_generate e pid t sp w2
                   = (Inr \<lparr>status = 200, body = ScriptResult p False res\<rparr>, w')"
  proof (cases "projectId sp = None \<or> projectId sp = Some []")
    case True
    with k have "script_new_project e user t sp w1
                   = (Inr \<lparr>status = 200, body = ScriptResult p False res\<rparr>, w')"
      by auto
    from and_then_Inr[OF this[unfolded script_new_project_def]] show ?thesis by blast
  next
    case False
    then obtain pid where pid: "projectId sp = Some pid" "pid \<noteq> []" by auto
    with k show ?thesis
      by (auto simp: return_def badRequest_def forbidden_def json_response_def
          split: option.splits if_splits)
  qed
  then obtain pid w2 where
    "script_cached_or_generate e pid t sp w2
       = (Inr \<lparr>status = 200, body = ScriptResult p False res\<rparr>, w')" by blast
  from script_generate_fresh[OF script_cached_or_generate_fresh[OF this]] b t
  show ?thesis by blast
qed

text \<open>
  With a live, truthy entry under its key and regeneration not asked for, a script
  request calls no provider and writes no job or version, however it ends; and it
  ends in an exception of a user or project insert, in a rejection, or in the cached
  value.
\<close>

lemma script_request_on_hit:
  assumes hit: "live_entry e (cacheKey e t sp) w = Some c" "truthy c"
      and sp: "topic sp = Some t" "t \<noteq> []" and regen: "regenerate sp \<noteq> Some True"
      and body: "json_body req = Parsed sp"
      and run: "POST_script e req w = (r, w')"
  shows "script_calls w' = script_calls w \<and> generation_jobs (DB w') = generation_jobs (DB w)
         \<and> project_versions (DB w') = project_versions (DB w) \<and> CACHE w' = CACHE w
         \<and> (\<forall>resp. r = Inr resp \<longrightarrow>
               rejected resp \<or> (\<exists>pid. resp = \<lparr>status = 200, body = ScriptResult pid True c\<rparr>))"
proof (cases "truthy_str (x_user_sub req)")
  case False
  with run show ?thesis
    by (cases "x_user_sub req")
       (auto simp: POST_script_def return_def rejected_def split: if_splits)
next
  case True
  then obtain userSub where s: "x_user_sub req = Some userSub" "userSub \<noteq> []"
    by (cases "x_user_sub req") auto
  let ?k = "\<lambda>user. case projectId sp of
                None \<Rightarrow> script_new_project e user t sp
              | Some pid \<Rightarrow>
                  if pid = [] then script_new_project e user t sp
                  else
                    (\<lambda>w. case getProjectById pid (DB w) of
                       None \<Rightarrow> return (badRequest ''Project not found'') w
                     | Some project \<Rightarrow>
                         if p_user_id project \<noteq> u_id user then
                           return (forbidden ''Project does not belong to user'') w
                         else script_cached_or_generate e pid t sp w)"
  have unfold: "POST_script e req w
                  = and_then (ensureUser e userSub (x_user_email req) (x_user_name req)) ?k w"
    using s body sp by (simp add: POST_script_def)
  obtain ru wu where eu: "ensureUser e userSub (x_user_email req) (x_user_name req) w = (ru, wu)"
    by (cases "ensureUser e userSub (x_user_email req) (x_user_name req) w") auto
  from ensureUser_frame[OF eu] have fr: "script_calls wu = script_calls w"
    "generation_jobs (DB wu) = generation_jobs (DB w)"
    "project_versions (DB wu) = project_versions (DB w)" "CACHE wu = CACHE w"
    by (simp_all add: outside_users_unchanged_def)
  have hit_u: "live_entry e (cacheKey e t sp) wu = Some c"
    using hit(1) fr by (simp add: live_entry_def)
  show ?thesis
  proof (cases ru)
    case (Inl err)
    with run unfold eu fr show ?thesis by (auto simp: and_then_def)
  next
    case (Inr user)
    with run unfold eu have k: "?k user wu = (r, w')" by (simp add: and_then_def)
    show ?thesis
    proof (cases "projectId sp = None \<or> projectId sp = Some []")
      case True
      with k have np: "script_new_project e user t sp wu = (r, w')" by auto
      obtain rp wp where cp: "createProject e (u_id user) (Some t) (Some t) None wu = (rp, wp)"
        by (cases "createProject e (u_id user) (Some t) (Some t) None wu") auto
      from createProject_frame[OF cp] fr have frp: "script_calls wp = script_calls w"
        "generation_jobs (DB wp) = generation_jobs (DB w)"
        "project_versions (DB wp) = project_versions (DB w)" "CACHE wp = CACHE w"
        by simp_all
      have hit_p: "live_entry e (cacheKey e t sp) wp = Some c"
        using hit(1) frp by (simp add: live_entry_def)
      show ?thesis
      proof (cases rp)
        case (Inl err)
        with np cp frp show ?thesis by (auto simp: script_new_project_def and_then_def)
      next
        case (Inr project)
        with np cp have "script_cached_or_generate e (p_id project) t sp wp = (r, w')"
          by (simp add: script_new_project_def and_then_def)
        with script_cached_hit[OF regen hit_p hit(2), of "p_id project"] frp
        show ?thesis by auto
      qed
    next
      case False
      then obtain pid where pid: "projectId sp = Some pid" "pid \<noteq> []" by auto
      show ?thesis
      proof (cases "getProjectById pid (DB wu)")
        case None
        with k pid fr show ?thesis by (auto simp: return_def rejected_def)
      next
        case (Some project)
        show ?thesis
        proof (cases "p_user_id project \<noteq> u_id user")
          case True
          with k pid Some fr show ?thesis by (auto simp: return_def rejected_def)
        next
          case False
          with k pid Some have "script_cached_or_generate e pid t sp wu = (r, w')" by simp
          with script_cached_hit[OF regen hit_u hit(2), of pid] fr
          show ?thesis by auto
        qed
      qed
    qed
  qed
qed

text \<open>A request that passes the gate gets the cached value.\<close>

lemma script_request_hit_accepted:
  assumes hit: "live_entry e (cacheKey e t sp) w = Some c" "truthy c"
      and sp: "topic sp = Some t" "t \<noteq> []" and regen: "regenerate sp \<noteq> Some True"
      and gate: "passes_gate e sub sp w"
  shows "\<exists>pid w'. POST_script e \<lparr>x_user_sub = Some sub, x_user_email = em, x_user_name = nm,
                                   json_body = Parsed sp\<rparr> w
                     = (Inr \<lparr>status = 200, body = ScriptResult pid True c\<rparr>, w')"
proof -
  from gate have sub: "sub \<noteq> []" and wf: "distinct (map u_id (users (DB w)))"
    by (simp_all add: passes_gate_def)
  have usr: "select_user_by_sub sub (DB w) \<noteq> None
               \<or> randomUUID e (uuid_draws w) \<notin> set (map u_id (users (DB w)))"
    using gate
    by (auto simp: passes_gate_def new_project_ok_def split: option.splits if_splits)
  from ensureUser_outcome[OF wf usr, of em nm] obtain user w1 where
    eu: "ensureUser e sub em nm w = (Inr user, w1)"
    and fr: "outside_users_unchanged w w1"
    and new: "select_user_by_sub sub (DB w) = None \<longrightarrow> uuid_draws w1 = Suc (uuid_draws w)"
    and old: "select_user_by_sub sub (DB w) \<noteq> None \<longrightarrow>
                uuid_draws w1 = uuid_draws w
                \<and> (\<exists>ex. select_user_by_sub sub (DB w) = Some ex \<and> u_id user = u_id ex)"
    by (elim exE conjE) (rule that, assumption+, blast+)
  have same: "projects (DB w1) = projects (DB w)" "CACHE w1 = CACHE w"
    using fr by (simp_all add: outside_users_unchanged_def)
  have hit1: "live_entry e (cacheKey e t sp) w1 = Some c"
    using hit(1) same by (simp add: live_entry_def)
  note g = POST_script_gate[OF sub sp eu]
  show ?thesis
  proof (cases "projectId sp = None \<or> projectId sp = Some []")
    case True
    with gate have npo: "new_project_ok e sub w"
      by (auto simp: passes_gate_def)
    have ufk: "u_id user \<in> set (map u_id (users (DB w1)))"
      using ensureUser_row[OF usr eu] by auto
    have fp: "randomUUID e (uuid_draws w1) \<notin> set (map p_id (projects (DB w1)))"
      using npo new old same by (auto simp: new_project_ok_def split: if_splits)
    note cp = createProject_run[OF fp ufk, of "Some t" "Some t" None]
    have hit2: "live_entry e (cacheKey e t sp) (snd (createProject e (u_id user) (Some t) (Some t) None w1))
                  = Some c"
      unfolding cp using hit1 by (simp add: live_entry_def)
    have "POST_script e \<lparr>x_user_sub = Some sub, x_user_email = em, x_user_name = nm,
                          json_body = Parsed sp\<rparr> w
            = script_cached_or_generate e (randomUUID e (uuid_draws w1)) t sp
                (snd (createProject e (u_id user) (Some t) (Some t) None w1))"
      using g True cp by (auto simp: script_new_project_def and_then_def)
    with script_cached_hit[OF regen hit2 hit(2)] show ?thesis by metis
  next
    case False
    then obtain pid where pid: "projectId sp = Some pid" "pid \<noteq> []" by auto
    with gate obtain project owner where
      p: "getProjectById pid (DB w) = Some project" "select_user_by_sub sub (DB w) = Some owner"
         "p_user_id project = u_id owner"
      by (auto simp: passes_gate_def split: option.splits)
    from old p have "u_id user = u_id owner" by auto
    with g pid p same have "POST_script e \<lparr>x_user_sub = Some sub, x_user_email = em,
                              x_user_name = nm, json_body = Parsed sp\<rparr> w
            = script_cached_or_generate e pid t sp w1"
      by (simp add: getProjectById_def)
    with script_cached_hit[OF regen hit1 hit(2)] show ?thesis by metis
  qed
qed

lemma cacheKey_same_fields:
  assumes "same_script_fields sp1 sp2" and "sha256 e2 = sha256 e1"
      and "JSON_stringify e2 = JSON_stringify e1"
  shows "cacheKey e2 t sp2 = cacheKey e1 t sp1"
  using assms by (simp add: cacheKey_def cacheBase_def same_script_fields_def)

lemma cached_after_first:
  assumes first: "POST_script e1 req1 w0
                    = (Inr \<lparr>status = 200, body = ScriptResult pid1 False result\<rparr>, w1)"
      and b1: "json_body req1 = Parsed sp1"
      and same: "same_script_fields sp1 sp2"
      and ttl: "now e2 < now e1 + 21600"
      and fns: "sha256 e2 = sha256 e1" "JSON_stringify e2 = JSON_stringify e1"
  shows "\<exists>t. topic sp1 = Some t \<and> topic sp2 = Some t \<and> t \<noteq> []
           \<and> cacheKey e2 t sp2 = cacheKey e1 t sp1
           \<and> live_entry e2 (cacheKey e2 t sp2) w1 = Some result \<and> truthy result"
proof -
  from POST_script_fresh[OF first] b1 obtain t where
    t: "topic sp1 = Some t" "t \<noteq> []"
    and c: "map_of (CACHE w1) (cacheKey e1 t sp1)
              = Some \<lparr>kv_value = result, kv_expires = now e1 + 21600\<rparr>"
    and complete: "complete_script result"
    by auto
  have key: "cacheKey e2 t sp2 = cacheKey e1 t sp1"
    by (rule cacheKey_same_fields[OF same fns])
  have live: "live_entry e2 (cacheKey e2 t sp2) w1 = Some result"
    unfolding key using c ttl by (simp add: live_entry_def)
  have t2: "topic sp2 = Some t"
    using same t by (simp add: same_script_fields_def)
  show ?thesis
    using t t2 key live complete_script_truthy[OF complete] by blast
qed

subsection \<open>The second of two equal script requests\<close>

text \<open>
  C3. The first request was answered 200 with \<open>cached: false\<close>; a second request has
  the same topic, persona, lengthMinutes and language, does not ask for regeneration,
  and comes before the entry expires. The second request, which like the first is
  authenticated and names a project of its caller, or none, is answered with
  \<open>cached: true\<close> and the first request's result; it calls no provider and inserts no
  job (second part below). The first part adds that no second request with these
  fields, whatever its headers and its project id, calls the provider or inserts a job:
  one that authentication or project resolution stops is answered 401, 400 or 403
  before the cache is read.
\<close>

theorem repeated_script_request_cached:
  assumes first: "POST_script e1 req1 w0
                    = (Inr \<lparr>status = 200, body = ScriptResult pid1 False result\<rparr>, w1)"
      and b1: "json_body req1 = Parsed sp1"
      and same: "same_script_fields sp1 sp2"
      and regen: "regenerate sp2 \<noteq> Some True"
      and ttl: "now e2 < now e1 + 21600"
      and fns: "sha256 e2 = sha256 e1" "JSON_stringify e2 = JSON_stringify e1"
  shows "(\<forall>req2 r w2. json_body req2 = Parsed sp2 \<and> POST_script e2 req2 w1 = (r, w2) \<longrightarrow>
            script_calls w2 = script_calls w1
            \<and> generation_jobs (DB w2) = generation_jobs (DB w1)
            \<and> (\<forall>resp. r = Inr resp \<longrightarrow>
                  rejected resp
                  \<or> (\<exists>pid. resp = \<lparr>status = 200, body = ScriptResult pid True result\<rparr>)))
       \<and> (\<forall>sub em nm. passes_gate e2 sub sp2 w1 \<longrightarrow>
            (\<exists>pid w2. POST_script e2 \<lparr>x_user_sub = Some sub, x_user_email = em, x_user_name = nm,
                                        json_body = Parsed sp2\<rparr> w1
                          = (Inr \<lparr>status = 200, body = ScriptResult pid True result\<rparr>, w2)
                      \<and> script_calls w2 = script_calls w1
                      \<and> generation_jobs (DB w2) = generation_jobs (DB w1)))"
proof -
  from cached_after_first[OF first b1 same ttl fns] obtain t where
    t: "topic sp2 = Some t" "t \<noteq> []"
    and hit: "live_entry e2 (cacheKey e2 t sp2) w1 = Some result" "truthy result"
    by blast
  have A: "script_calls w2 = script_calls w1
            \<and> generation_jobs (DB w2) = generation_jobs (DB w1)
            \<and> (\<forall>resp. r = Inr resp \<longrightarrow>
                  rejected resp
                  \<or> (\<exists>pid. resp = \<lparr>status = 200, body = ScriptResult pid True result\<rparr>))"
    if "json_body req2 = Parsed sp2" and "POST_script e2 req2 w1 = (r, w2)" for req2 r w2
    using script_request_on_hit[OF hit t regen that] by simp
  have B: "\<exists>pid w2. POST_script e2 \<lparr>x_user_sub = Some sub, x_user_email = em, x_user_name = nm,
                                        json_body = Parsed sp2\<rparr> w1
                          = (Inr \<lparr>status = 200, body = ScriptResult pid True result\<rparr>, w2)
                      \<and> script_calls w2 = script_calls w1
                      \<and> generation_jobs (DB w2) = generation_jobs (DB w1)"
    if "passes_gate e2 sub sp2 w1" for sub em nm
  proof -
    from script_request_hit_accepted[OF hit t regen that, of em nm] obtain pid w2 where
      r: "POST_script e2 \<lparr>x_user_sub = Some sub, x_user_email = em, x_user_name = nm,
                           json_body = Parsed sp2\<rparr> w1
            = (Inr \<lparr>status = 200, body = ScriptResult pid True result\<rparr>, w2)"
      by blast
    from A[OF _ r] r show ?thesis by auto
  qed
  from A B show ?thesis by blast
qed

lemma first_request_eval:
  "POST_script demo_env (request_of ''sub-a'' (script_body (Some ''Tides'') None)) demo_world
     = (Inr \<lparr>status = 200, body = ScriptResult ''uuid-'' False demo_script\<rparr>, after_first)"
proof -
  have "fst (POST_script demo_env (request_of ''sub-a'' (script_body (Some ''Tides'') None)) demo_world)
          = Inr \<lparr>status = 200, body = ScriptResult ''uuid-'' False demo_script\<rparr>"
    by (simp add: io_defs sql_defs client_defs route_defs demo_defs)
  then show ?thesis by (simp add: after_first_def prod_eq_iff)
qed

theorem repeated_script_request_cached_witness:
  "fst (POST_script later_env (request_of ''sub-a'' (script_body (Some ''Tides'') None)) after_first)
     = Inr \<lparr>status = 200, body = ScriptResult ''uuid-xxx'' True demo_script\<rparr>
   \<and> script_calls (snd (POST_script later_env
         (request_of ''sub-a'' (script_body (Some ''Tides'') None)) after_first))
     = script_calls after_first
   \<and> generation_jobs (DB (snd (POST_script later_env
         (request_of ''sub-a'' (script_body (Some ''Tides'') None)) after_first)))
     = generation_jobs (DB after_first)"
proof -
  let ?sp = "script_body (Some ''Tides'') None"
  have b1: "json_body (request_of ''sub-a'' ?sp) = Parsed ?sp"
    by (simp add: request_of_def)
  have same: "same_script_fields ?sp ?sp" by (simp add: same_script_fields_def)
  have regen: "regenerate ?sp \<noteq> Some True" by (simp add: script_body_def)
  have ttl: "now later_env < now demo_env + 21600" by (simp add: later_env_def demo_env_def)
  have fns: "sha256 later_env = sha256 demo_env" "JSON_stringify later_env = JSON_stringify demo_env"
    by (simp_all add: later_env_def)
  have gate: "passes_gate later_env ''sub-a'' ?sp after_first"
    by (simp add: passes_gate_def new_project_ok_def after_first_def later_env_def
        io_defs sql_defs client_defs route_defs demo_defs)
  from repeated_script_request_cached[OF first_request_eval b1 same regen ttl fns]
    gate
  obtain pid w2 where
    r: "POST_script later_env \<lparr>x_user_sub = Some ''sub-a'', x_user_email = None,
          x_user_name = None, json_body = Parsed ?sp\<rparr> after_first
          = (Inr \<lparr>status = 200, body = ScriptResult pid True demo_script\<rparr>, w2)"
    and f: "script_calls w2 = script_calls after_first"
           "generation_jobs (DB w2) = generation_jobs (DB after_first)"
    by blast
  have "fst (POST_script later_env \<lparr>x_user_sub = Some ''sub-a'', x_user_email = None,
          x_user_name = None, json_body = Parsed ?sp\<rparr> after_first)
          = Inr \<lparr>status = 200, body = ScriptResult ''uuid-xxx'' True demo_script\<rparr>"
    by (simp add: after_first_def later_env_def io_defs sql_defs client_defs route_defs demo_defs)
  with r have pid: "pid = ''uuid-xxx''" by simp
  show ?thesis
    unfolding request_of_def r using f pid by simp
qed

subsection \<open>The cache key knows neither the user nor the project\<close>



subsection \<open>The token verifier\<close>

lemma strip_leading_Nil: "strip_leading seqs [] = []"
  by (subst strip_leading.simps) (auto split: option.splits simp: find_Some_iff starts_with_def)

lemma ws_nonempty: "p \<in> set js_whitespace \<Longrightarrow> p \<noteq> []"
  by (auto simp: js_whitespace_def)

lemma find_ws:
  assumes "p \<in> set js_whitespace"
  shows "find (\<lambda>q. starts_with q (p @ s)) js_whitespace = Some p"
proof -
  have "\<forall>p\<in>set js_whitespace. find (\<lambda>q. starts_with q (p @ s)) js_whitespace = Some p"
    unfolding js_whitespace_def list.set ball_simps
    by (simp add: starts_with_def)
  with assms show ?thesis by blast
qed

lemma trimStart_whitespace_only:
  "whitespace_only s \<Longrightarrow> trimStart s = []"
proof (induction rule: whitespace_only.induct)
  case ws_empty
  show ?case by (simp add: trimStart_def strip_leading_Nil)
next
  case (ws_more p s)
  have "strip_leading js_whitespace (p @ s) = strip_leading js_whitespace s"
    by (subst strip_leading.simps)
       (simp add: find_ws[OF ws_more.hyps(1)] ws_nonempty[OF ws_more.hyps(1)])
  with ws_more.IH show ?case by (simp add: trimStart_def)
qed

lemma js_trim_whitespace_only: "whitespace_only s \<Longrightarrow> js_trim s = []"
  by (simp add: js_trim_def trimStart_whitespace_only trimEnd_def strip_leading_Nil)

lemma verifyAccessToken_nonempty:
  assumes "js_trim token \<noteq> []"
  shows "verifyAccessToken ae token st =
           (case verification ae (js_trim token) st of
              (Inl err, st') \<Rightarrow> (Inr (ErrorResult err), st')
            | (Inr (config, payload, header), st') \<Rightarrow>
                if truthy_str (algorithm config) \<and> Some (alg header) \<noteq> algorithm config then
                  (Inr (ErrorResult (Error ''Unexpected Access token algorithm'')), st')
                else
                  (Inr (Success
                     \<lparr>ai_sub = c_sub payload,
                      ai_email = nullish (c_email payload) (c_identity_email payload),
                      ai_name = nullish (c_name payload) (c_common_name payload),
                      ai_issuer = c_iss payload,
                      ai_token = js_trim token\<rparr>), st'))"
  using assms
  by (simp add: verifyAccessToken_def Let_def try_catch_def and_then_def return_def
      split: prod.splits sum.splits)

lemma verification_Inr:
  assumes "verification ae trimmed st = (Inr (config, payload, header), st')"
  shows "\<exists>jwks values st1. jws_verify ae jwks trimmed = Inr (payload, header)
           \<and> c_aud payload = Some values \<and> audience config \<in> set values
           \<and> resolveAccessConfig ae st = (Inr config, st1)"
proof -
  from and_then_Inr[OF assms[unfolded verification_def]] obtain c st1 where
    rc: "resolveAccessConfig ae st = (Inr c, st1)"
    and r1: "and_then (getJwks ae (certsUrl c)) (\<lambda>jwks.
         case jwtVerify ae trimmed jwks (audience c)
                (if truthy_str (algorithm c)
                 then Some [case algorithm c of Some a \<Rightarrow> a | None \<Rightarrow> []] else None) of
           Inl err \<Rightarrow> throw err
         | Inr (payload, header) \<Rightarrow> return (c, payload, header)) st1
          = (Inr (config, payload, header), st')"
    by blast
  from and_then_Inr[OF r1] obtain jwks st2 where
    r2: "(case jwtVerify ae trimmed jwks (audience c)
                (if truthy_str (algorithm c)
                 then Some [case algorithm c of Some a \<Rightarrow> a | None \<Rightarrow> []] else None) of
           Inl err \<Rightarrow> throw err
         | Inr (payload, header) \<Rightarrow> return (c, payload, header)) st2
          = (Inr (config, payload, header), st')"
    by blast
  then have cfg: "c = config"
    and jv: "jwtVerify ae trimmed jwks (audience config)
                (if truthy_str (algorithm config)
                 then Some [case algorithm config of Some a \<Rightarrow> a | None \<Rightarrow> []] else None)
               = Inr (payload, header)"
    by (auto simp: return_def throw_def split: sum.splits)
  from jv have "\<exists>values. jws_verify ae jwks trimmed = Inr (payload, header)
                  \<and> c_aud payload = Some values \<and> audience config \<in> set values"
    by (auto simp: jwtVerify_def split: sum.splits option.splits if_splits)
  with rc cfg show ?thesis by blast
qed

lemma resolveAccessConfig_audience:
  assumes "resolveAccessConfig ae st = (Inr c, st1)"
  shows "cachedConfig st = Some c
         \<or> (cachedConfig st = None \<and> requireEnv (process_env ae) ''CF_ACCESS_AUD'' = Inr (audience c))"
  using assms
  by (auto simp: resolveAccessConfig_def return_def throw_def Let_def
      split: option.splits sum.splits if_splits)

lemma verification_missing_audience:
  assumes "cachedConfig st = None" and "requireEnv (process_env ae) ''CF_ACCESS_AUD'' = Inl err"
  shows "verification ae trimmed st = (Inl err, st)"
  using assms by (simp add: verification_def and_then_def resolveAccessConfig_def throw_def)

lemma verification_jws_failure:
  assumes "resolveAccessConfig ae st = (Inr config, st1)"
      and "getJwks ae (certsUrl config) st1 = (Inr jwks, st2)"
      and "jws_verify ae jwks trimmed = Inl err"
  shows "verification ae trimmed st = (Inl err, st2)"
  using assms by (simp add: verification_def and_then_def jwtVerify_def throw_def)

lemma verification_wrong_audience:
  assumes "resolveAccessConfig ae st = (Inr config, st1)"
      and "getJwks ae (certsUrl config) st1 = (Inr jwks, st2)"
      and "jws_verify ae jwks trimmed = Inr (payload, header)"
      and "\<forall>values. c_aud payload = Some values \<longrightarrow> audience config \<notin> set values"
  shows "\<exists>err. verification ae trimmed st = (Inl err, st2)"
  using assms
  by (cases "c_aud payload")
     (auto simp: verification_def and_then_def jwtVerify_def throw_def)

text \<open>
  C6. An empty or white-space-only token gives \<open>unauthorized\<close>, which is not an
  \<open>error\<close> result. For any other token the verifier returns a result and throws
  nothing: \<open>error\<close> with the exception of the \<open>try\<close> block when that block throws
  (a missing audience variable, a failure of jose on the signature, the time claims or
  the key fetch, a wrong or missing audience), \<open>error\<close> for an algorithm other than
  the configured one, and \<open>success\<close> otherwise. A \<open>success\<close> has a token that jose
  verified and whose \<open>aud\<close> claim is present and holds the configured audience.
\<close>

theorem verifyAccessToken_outcomes:
  "(whitespace_only token \<longrightarrow> verifyAccessToken ae token st = (Inr Unauthorized, st))
   \<and> Unauthorized \<noteq> ErrorResult err
   \<and> (\<exists>r st'. verifyAccessToken ae token st = (Inr r, st')
         \<and> (js_trim token \<noteq> [] \<longrightarrow>
               r \<noteq> Unauthorized
               \<and> (\<forall>e. fst (verification ae (js_trim token) st) = Inl e \<longrightarrow> r = ErrorResult e)
               \<and> (\<forall>config payload header.
                     fst (verification ae (js_trim token) st) = Inr (config, payload, header)
                     \<and> truthy_str (algorithm config) \<and> Some (alg header) \<noteq> algorithm config
                     \<longrightarrow> r = ErrorResult (Error ''Unexpected Access token algorithm''))
               \<and> (\<forall>identity. r = Success identity \<longrightarrow>
                     (\<exists>jwks config payload header values.
                        jws_verify ae jwks (js_trim token) = Inr (payload, header)
                        \<and> c_aud payload = Some values \<and> audience config \<in> set values
                        \<and> (cachedConfig st = Some config
                            \<or> (cachedConfig st = None
                                \<and> requireEnv (process_env ae) ''CF_ACCESS_AUD''
                                     = Inr (audience config)))
                        \<and> ai_sub identity = c_sub payload
                        \<and> ai_token identity = js_trim token))))
   \<and> (\<forall>e. js_trim token \<noteq> [] \<and> cachedConfig st = None
            \<and> requireEnv (process_env ae) ''CF_ACCESS_AUD'' = Inl e
          \<longrightarrow> fst (verifyAccessToken ae token st) = Inr (ErrorResult e))
   \<and> (\<forall>e config jwks st1 st2. js_trim token \<noteq> []
            \<and> resolveAccessConfig ae st = (Inr config, st1)
            \<and> getJwks ae (certsUrl config) st1 = (Inr jwks, st2)
            \<and> jws_verify ae jwks (js_trim token) = Inl e
          \<longrightarrow> fst (verifyAccessToken ae token st) = Inr (ErrorResult e))
   \<and> (\<forall>config jwks st1 st2 payload header. js_trim token \<noteq> []
            \<and> resolveAccessConfig ae st = (Inr config, st1)
            \<and> getJwks ae (certsUrl config) st1 = (Inr jwks, st2)
            \<and> jws_verify ae jwks (js_trim token) = Inr (payload, header)
            \<and> (\<forall>values. c_aud payload = Some values \<longrightarrow> audience config \<notin> set values)
          \<longrightarrow> (\<exists>e. fst (verifyAccessToken ae token st) = Inr (ErrorResult e)))"
proof (cases "js_trim token = []")
  case True
  have u: "verifyAccessToken ae token st = (Inr Unauthorized, st)"
    using True by (simp add: verifyAccessToken_def return_def)
  show ?thesis using True u by simp
next
  case False
  note v = verifyAccessToken_nonempty[OF False, of ae st]
  have ws: "\<not> whitespace_only token"
    using False js_trim_whitespace_only by blast
  obtain rv st' where ver: "verification ae (js_trim token) st = (rv, st')"
    by (cases "verification ae (js_trim token) st") auto
  have main: "\<exists>r st'. verifyAccessToken ae token st = (Inr r, st')
         \<and> r \<noteq> Unauthorized
         \<and> (\<forall>e. fst (verification ae (js_trim token) st) = Inl e \<longrightarrow> r = ErrorResult e)
         \<and> (\<forall>config payload header.
               fst (verification ae (js_trim token) st) = Inr (config, payload, header)
               \<and> truthy_str (algorithm config) \<and> Some (alg header) \<noteq> algorithm config
               \<longrightarrow> r = ErrorResult (Error ''Unexpected Access token algorithm''))
         \<and> (\<forall>identity. r = Success identity \<longrightarrow>
               (\<exists>jwks config payload header values.
                  jws_verify ae jwks (js_trim token) = Inr (payload, header)
                  \<and> c_aud payload = Some values \<and> audience config \<in> set values
                  \<and> (cachedConfig st = Some config
                      \<or> (cachedConfig st = None
                          \<and> requireEnv (process_env ae) ''CF_ACCESS_AUD''
                               = Inr (audience config)))
                  \<and> ai_sub identity = c_sub payload
                  \<and> ai_token identity = js_trim token))"
  proof (cases rv)
    case (Inl e)
    with v ver show ?thesis by simp
  next
    case (Inr x)
    obtain config payload header where x: "x = (config, payload, header)"
      by (cases x) auto
    from verification_Inr[OF ver[unfolded Inr x]] obtain jwks vals st1 where
      j: "jws_verify ae jwks (js_trim token) = Inr (payload, header)"
         "c_aud payload = Some vals" "audience config \<in> set vals"
      and rc: "resolveAccessConfig ae st = (Inr config, st1)"
      by blast
    note aud = resolveAccessConfig_audience[OF rc]
    show ?thesis
    proof (cases "truthy_str (algorithm config) \<and> Some (alg header) \<noteq> algorithm config")
      case True
      with v ver Inr x show ?thesis by simp
    next
      case False
      with v ver Inr x have
        "verifyAccessToken ae token st =
           (Inr (Success \<lparr>ai_sub = c_sub payload,
                      ai_email = nullish (c_email payload) (c_identity_email payload),
                      ai_name = nullish (c_name payload) (c_common_name payload),
                      ai_issuer = c_iss payload,
                      ai_token = js_trim token\<rparr>), st')"
        by simp
      with ver Inr x False j aud show ?thesis by auto
    qed
  qed
  have c1: "fst (verifyAccessToken ae token st) = Inr (ErrorResult e)"
    if "cachedConfig st = None" "requireEnv (process_env ae) ''CF_ACCESS_AUD'' = Inl e" for e
    using v verification_missing_audience[OF that, of "js_trim token"] by simp
  have c2: "fst (verifyAccessToken ae token st) = Inr (ErrorResult e)"
    if "resolveAccessConfig ae st = (Inr config, st1)"
       "getJwks ae (certsUrl config) st1 = (Inr jwks, st2)"
       "jws_verify ae jwks (js_trim token) = Inl e" for e config jwks st1 st2
    using v verification_jws_failure[OF that] by simp
  have c3: "\<exists>e. fst (verifyAccessToken ae token st) = Inr (ErrorResult e)"
    if "resolveAccessConfig ae st = (Inr config, st1)"
       "getJwks ae (certsUrl config) st1 = (Inr jwks, st2)"
       "jws_verify ae jwks (js_trim token) = Inr (payload, header)"
       "\<forall>values. c_aud payload = Some values \<longrightarrow> audience config \<notin> set values"
    for config jwks st1 st2 payload header
    using v verification_wrong_audience[OF that] by auto
  from main obtain r st' where m: "verifyAccessToken ae token st = (Inr r, st')" by blast
  show ?thesis
    apply (intro conjI)
    subgoal using ws by simp
    subgoal by simp
    subgoal using main by blast
    subgoal using c1 by blast
    subgoal using c2 by blast
    subgoal using c3 by blast
    done
qed

lemma js_trim_examples:
  "js_trim ''bad'' = ''bad''" "js_trim ''other-aud'' = ''other-aud''"
  by code_simp+

theorem verifyAccessToken_outcomes_witness:
  "verifyAccessToken demo_access_env [CHR 0x20, CHR 0x09] fresh_access_state
     = (Inr Unauthorized, fresh_access_state)
   \<and> fst (verifyAccessToken demo_access_env ''bad'' fresh_access_state)
     = Inr (ErrorResult (Error ''signature verification failed''))
   \<and> (\<exists>e. fst (verifyAccessToken demo_access_env ''other-aud'' fresh_access_state)
           = Inr (ErrorResult e))"
proof -
  let ?config = "\<lparr>audience = ''aud-1'', certsUrl = ''https://team.example/cdn-cgi/access/certs'',
                  loginUrl = ''https://team.example/cdn-cgi/access/login'', algorithm = None\<rparr>"
  let ?st1 = "fresh_access_state\<lparr>cachedConfig := Some ?config\<rparr>"
  let ?st2 = "?st1\<lparr>cachedJwks := Some ''https://team.example/cdn-cgi/access/certs''\<rparr>"
  have ws: "whitespace_only [CHR 0x20, CHR 0x09]"
    using ws_more[of "[CHR 0x20]" "[CHR 0x09]"] ws_more[of "[CHR 0x09]" "[]"] ws_empty
    by (simp add: js_whitespace_def)
  have rc: "resolveAccessConfig demo_access_env fresh_access_state = (Inr ?config, ?st1)"
    by (simp add: resolveAccessConfig_def requireEnv_def getEnv_def demo_access_env_def
        fresh_access_state_def starts_with_def replace_suffix_def ends_with_def return_def Let_def)
  have gj: "getJwks demo_access_env (certsUrl ?config) ?st1
              = (Inr ''https://team.example/cdn-cgi/access/certs'', ?st2)"
    by (simp add: getJwks_def demo_access_env_def fresh_access_state_def return_def)
  have bad: "jws_verify demo_access_env ''https://team.example/cdn-cgi/access/certs'' (js_trim ''bad'')
               = Inl (Error ''signature verification failed'')"
    by (simp add: js_trim_examples demo_access_env_def)
  have oth: "jws_verify demo_access_env ''https://team.example/cdn-cgi/access/certs''
               (js_trim ''other-aud'')
               = Inr (demo_claims\<lparr>c_aud := Some [''aud-2'']\<rparr>, \<lparr>alg = ''RS256''\<rparr>)"
    by (simp add: js_trim_examples demo_access_env_def)
  have noaud: "\<forall>vals. c_aud (demo_claims\<lparr>c_aud := Some [''aud-2'']\<rparr>) = Some vals
                 \<longrightarrow> audience ?config \<notin> set vals"
    by simp
  have ne: "js_trim ''bad'' \<noteq> []" "js_trim ''other-aud'' \<noteq> []"
    by (simp_all add: js_trim_examples)
  have a: "verifyAccessToken demo_access_env [CHR 0x20, CHR 0x09] fresh_access_state
             = (Inr Unauthorized, fresh_access_state)"
    using verifyAccessToken_outcomes[of "[CHR 0x20, CHR 0x09]" demo_access_env fresh_access_state]
      ws by blast
  have b: "fst (verifyAccessToken demo_access_env ''bad'' fresh_access_state)
             = Inr (ErrorResult (Error ''signature verification failed''))"
    using verifyAccessToken_outcomes[of "''bad''" demo_access_env fresh_access_state]
      ne(1) rc gj bad by blast
  have c: "\<exists>e. fst (verifyAccessToken demo_access_env ''other-aud'' fresh_access_state)
                 = Inr (ErrorResult e)"
    using verifyAccessToken_outcomes[of "''other-aud''" demo_access_env fresh_access_state]
      ne(2) rc gj oth noaud by blast
  from a b c show ?thesis by blast
qed

subsection \<open>The session codec\<close>

























lemma getKey_cached: "keyPromise st = Some key \<Longrightarrow> getKey se st = (Inr key, st)"
  by (simp add: getKey_def return_def)

text \<open>
  What \<open>parseSessionValue\<close> returns once the key is there: it never throws, and the
  payload is returned exactly when both segments decode, the second to the HMAC of the
  first, and the first parses.
\<close>

lemma parseSessionValue_keyed:
  assumes "keyPromise st = Some key"
  shows "parseSessionValue se (Some val) st =
           (Inr (case token_bytes val of
                   None \<Rightarrow> None
                 | Some (d, g) \<Rightarrow>
                     if s_hmac se key d = g then
                       (case s_parse se (s_decode se d) of
                          Inl _ \<Rightarrow> None
                        | Inr p \<Rightarrow> if p = JNull then None else Some p)
                     else None), st)"
  using getKey_cached[OF assms, of se]
  by (simp add: parseSessionValue_def token_bytes_def subtle_verify_def
        return_def throw_def and_then_def try_catch_def
        split: list.splits sum.splits)


lemma parseSessionValue_same_bytes:
  assumes "keyPromise st = Some key" and "token_bytes val = token_bytes tok"
  shows "parseSessionValue se (Some val) st = parseSessionValue se (Some tok) st"
  unfolding parseSessionValue_keyed[OF assms(1)] assms(2) ..





end
